(* ===== verification/Js_Prelude.thy ===== *)
theory Js_Prelude
  imports Complex_Main "HOL-Library.AList"
begin

text \<open>
  Shared vocabulary of the development: the JavaScript values the three scripts
  compute with, exceptions as values, and the generic facts on options, maps and
  lists that the component theories use.

  \<^item> \<open>jsnum\<close> is a JavaScript number. A finite double is modelled by the exact
    rational it denotes (\<open>Fin q\<close>); rounding to 53 bits, overflow to infinity and
    the sign of zero are not modelled. \<open>NaN\<close>, \<open>PosInf\<close> and \<open>NegInf\<close> are kept,
    because the scripts reach them (\<open>undefined * 24\<close>, \<open>0 / 0\<close>).
  \<^item> \<open>jsval\<close> is a value as \<open>JSON.parse\<close> or an object literal without functions
    builds it. An object is its property list in insertion order, which is the
    order \<open>JSON.stringify\<close> prints; \<open>wf_jsval\<close> says that no object has a
    property name twice. Strings are \<open>string\<close>, one \<open>char\<close> per UTF-16 code unit
    below 256 (the scripts' own keys and tool names are ASCII).
  \<^item> A \<open>throw\<close> is the value \<open>Throw e\<close> of the result type \<open>'a js_result\<close>;
    \<open>bind_result\<close> sequences two computations and stops at the first throw,
    as an exception does.
\<close>

named_theorems js_defs "definitions of the runtime model, unfolded together"
named_theorems cache_defs "definitions of the cache operations, unfolded together"

section \<open>Values\<close>

datatype jsnum = Fin rat | NaN | PosInf | NegInf

datatype jsval =
    JUndefined
  | JNull
  | JBool bool
  | JNum jsnum
  | JStr string
  | JArr "jsval list"
  | JObj "(string \<times> jsval) list"

datatype js_error = TypeError | RangeError | SyntaxError | Error string

type_synonym 'a js_result = "js_error + 'a"

abbreviation Throw :: "js_error \<Rightarrow> 'a js_result" where
  "Throw \<equiv> Inl"

abbreviation Return :: "'a \<Rightarrow> 'a js_result" where
  "Return \<equiv> Inr"

definition bind_result :: "'a js_result \<Rightarrow> ('a \<Rightarrow> 'b js_result) \<Rightarrow> 'b js_result" where
  "bind_result r f = (case r of Inl e \<Rightarrow> Inl e | Inr x \<Rightarrow> f x)"

definition is_throw :: "'a js_result \<Rightarrow> bool" where
  "is_throw r = (case r of Inl e \<Rightarrow> True | Inr x \<Rightarrow> False)"

text \<open>\<open>ToBoolean\<close>: what \<open>if (v)\<close>, \<open>!v\<close> and \<open>v || w\<close> test.\<close>

fun truthy :: "jsval \<Rightarrow> bool" where
  "truthy JUndefined = False"
| "truthy JNull = False"
| "truthy (JBool b) = b"
| "truthy (JNum n) = (n \<noteq> NaN \<and> n \<noteq> Fin 0)"
| "truthy (JStr s) = (s \<noteq> [])"
| "truthy (JArr xs) = True"
| "truthy (JObj ps) = True"

fun wf_jsval :: "jsval \<Rightarrow> bool" where
  "wf_jsval (JArr xs) = list_all wf_jsval xs"
| "wf_jsval (JObj ps) = (distinct (map fst ps) \<and> list_all (\<lambda>(k, v). wf_jsval v) ps)"
| "wf_jsval v = True"

text \<open>
  Reading a data property \<open>v.name\<close>. On \<open>undefined\<close> and \<open>null\<close> the read
  throws a \<open>TypeError\<close>; on an object it is the property's value or \<open>undefined\<close>;
  on any other value it is \<open>undefined\<close>. The names read in the scripts
  (\<open>symbols\<close>, \<open>days_back\<close>, \<open>articles\<close>, ...) are none of the built-in
  properties of arrays, strings or \<open>Object.prototype\<close>, for which this
  definition is not meant.
\<close>

definition get_prop :: "jsval \<Rightarrow> string \<Rightarrow> jsval js_result" where
  "get_prop v name =
     (case v of
        JUndefined \<Rightarrow> Throw TypeError
      | JNull \<Rightarrow> Throw TypeError
      | JObj ps \<Rightarrow> Return (case map_of ps name of None \<Rightarrow> JUndefined | Some x \<Rightarrow> x)
      | _ \<Rightarrow> Return JUndefined)"

definition prop_of :: "jsval \<Rightarrow> string \<Rightarrow> jsval" where
  "prop_of v name = (case get_prop v name of Inl e \<Rightarrow> JUndefined | Inr x \<Rightarrow> x)"

text \<open>
  The assignment \<open>v.name = x\<close>, as the value \<open>v\<close> has afterwards. On an object an
  existing property keeps its place and a new one goes to the end; on
  \<open>undefined\<close> and \<open>null\<close> the assignment throws; on a primitive value it has
  no effect. A named property of an array is not represented: the array is
  returned as it is, and the scripts never assign to one.
\<close>

definition set_prop :: "jsval \<Rightarrow> string \<Rightarrow> jsval \<Rightarrow> jsval js_result" where
  "set_prop v name x =
     (case v of
        JUndefined \<Rightarrow> Throw TypeError
      | JNull \<Rightarrow> Throw TypeError
      | JObj ps \<Rightarrow> Return (JObj (AList.update name x ps))
      | _ \<Rightarrow> Return v)"

text \<open>
  A procedure that changes a state and may throw part way: the result is the
  exception, if any, and the state as it is then. \<open>proc_seq\<close> runs two
  procedures in a row, \<open>proc_read\<close> evaluates an expression that may throw and
  passes its value on, \<open>proc_do\<close> is a change that cannot throw.
\<close>

type_synonym 'st proc = "'st \<Rightarrow> js_error option \<times> 'st"

definition proc_do :: "('st \<Rightarrow> 'st) \<Rightarrow> 'st proc" where
  "proc_do f st = (None, f st)"

definition proc_seq :: "'st proc \<Rightarrow> 'st proc \<Rightarrow> 'st proc" where
  "proc_seq p q st = (case p st of (None, st1) \<Rightarrow> q st1 | (Some e, st1) \<Rightarrow> (Some e, st1))"

definition proc_read :: "('st \<Rightarrow> 'a js_result) \<Rightarrow> ('a \<Rightarrow> 'st proc) \<Rightarrow> 'st proc" where
  "proc_read r k st = (case r st of Inl e \<Rightarrow> (Some e, st) | Inr x \<Rightarrow> k x st)"

text \<open>
  \<open>array_some f xs\<close> is \<open>xs.some(f)\<close> for a callback that may throw: it stops at
  the first element for which the callback is true.
\<close>

fun array_some :: "('a \<Rightarrow> bool js_result) \<Rightarrow> 'a list \<Rightarrow> bool js_result" where
  "array_some f [] = Return False"
| "array_some f (x # xs) = bind_result (f x) (\<lambda>b. if b then Return True else array_some f xs)"

text \<open>
  \<open>when_present d name f dflt\<close> is the statement \<^verbatim>\<open>if (d && d.name) { ... }\<close>
  with the value \<open>dflt\<close> when the test fails: the body \<open>f\<close> gets the property.
\<close>

definition when_present :: "jsval \<Rightarrow> string \<Rightarrow> (jsval \<Rightarrow> 'a js_result) \<Rightarrow> 'a \<Rightarrow> 'a js_result" where
  "when_present d name f dflt =
     (if truthy d then
        bind_result (get_prop d name) (\<lambda>x. if truthy x then f x else Return dflt)
      else Return dflt)"

text \<open>
  \<open>map_result f xs\<close> calls \<open>f\<close> on the elements from left to right and stops at
  the first throw: the loop of \<open>Array.from\<close> and of \<open>Array.prototype.map\<close> with a
  callback that may throw. \<open>array_map f v\<close> is \<open>v.map(f)\<close> for a callback of the
  element and its index that does not throw; on a value that is not an array
  there is no function \<open>map\<close> to call, which is a \<open>TypeError\<close>.
\<close>

fun map_result :: "('a \<Rightarrow> 'b js_result) \<Rightarrow> 'a list \<Rightarrow> 'b list js_result" where
  "map_result f [] = Return []"
| "map_result f (x # xs) =
     bind_result (f x) (\<lambda>y. bind_result (map_result f xs) (\<lambda>ys. Return (y # ys)))"

definition array_map :: "(nat \<Rightarrow> jsval \<Rightarrow> jsval) \<Rightarrow> jsval \<Rightarrow> jsval list js_result" where
  "array_map f v =
     (case v of
        JArr xs \<Rightarrow> Return (map (\<lambda>(i, x). f i x) (enumerate 0 xs))
      | _ \<Rightarrow> Throw TypeError)"

section \<open>Results\<close>

lemma bind_result_Throw [simp]: "bind_result (Throw e) f = Throw e"
  by (simp add: bind_result_def)

lemma bind_result_Return [simp]: "bind_result (Return x) f = f x"
  by (simp add: bind_result_def)

lemma bind_result_eq_Return:
  "bind_result r f = Return y \<longleftrightarrow> (\<exists>x. r = Return x \<and> f x = Return y)"
  by (cases r) simp_all

lemma bind_result_eq_Throw:
  "bind_result r f = Throw e \<longleftrightarrow> r = Throw e \<or> (\<exists>x. r = Return x \<and> f x = Throw e)"
  by (cases r) simp_all

lemma bind_result_assoc:
  "bind_result (bind_result r f) g = bind_result r (\<lambda>x. bind_result (f x) g)"
  by (cases r) simp_all

lemma is_throw_simps [simp]: "is_throw (Throw e)" "\<not> is_throw (Return x)"
  by (simp_all add: is_throw_def)

lemma is_throw_bind [simp]:
  "is_throw (bind_result r f) \<longleftrightarrow> is_throw r \<or> (\<exists>x. r = Return x \<and> is_throw (f x))"
  by (cases r) simp_all

lemma not_is_throw_iff: "\<not> is_throw r \<longleftrightarrow> (\<exists>x. r = Return x)"
  by (cases r) simp_all

lemma map_result_Return_iff:
  "map_result f xs = Return ys \<longleftrightarrow> list_all2 (\<lambda>x y. f x = Return y) xs ys"
proof (induction xs arbitrary: ys)
  case Nil
  show ?case by auto
next
  case (Cons x xs)
  show ?case
    by (cases ys) (auto simp: bind_result_eq_Return Cons.IH)
qed

lemma map_result_length: "map_result f xs = Return ys \<Longrightarrow> length ys = length xs"
  by (simp add: map_result_Return_iff list_all2_lengthD)

lemma map_result_total:
  "(\<forall>x \<in> set xs. \<not> is_throw (f x)) \<Longrightarrow> \<not> is_throw (map_result f xs)"
  by (induction xs) (auto simp: not_is_throw_iff)

lemma map_result_throws:
  "is_throw (map_result f xs) \<longleftrightarrow> (\<exists>x \<in> set xs. is_throw (f x))"
proof (induction xs)
  case Nil
  show ?case by simp
next
  case (Cons x xs)
  show ?case
    by (cases "f x"; cases "map_result f xs") (use Cons.IH in auto)
qed

lemma array_map_Return_iff:
  "array_map f v = Return ys \<longleftrightarrow> (\<exists>xs. v = JArr xs \<and> ys = map (\<lambda>(i, x). f i x) (enumerate 0 xs))"
  by (cases v) (auto simp: array_map_def)

lemma array_map_throws_iff: "is_throw (array_map f v) \<longleftrightarrow> (\<forall>xs. v \<noteq> JArr xs)"
  by (cases v) (simp_all add: array_map_def)

lemma array_map_JArr [simp]:
  "array_map f (JArr xs) = Return (map (\<lambda>(i, x). f i x) (enumerate 0 xs))"
  by (simp add: array_map_def)

section \<open>Property access\<close>

lemma get_prop_undefined [simp]: "get_prop JUndefined name = Throw TypeError"
  and get_prop_null [simp]: "get_prop JNull name = Throw TypeError"
  and get_prop_obj [simp]:
    "get_prop (JObj ps) name = Return (case map_of ps name of None \<Rightarrow> JUndefined | Some x \<Rightarrow> x)"
  by (simp_all add: get_prop_def)

lemma get_prop_prim [simp]:
  "get_prop (JBool b) name = Return JUndefined"
  "get_prop (JNum n) name = Return JUndefined"
  "get_prop (JStr s) name = Return JUndefined"
  "get_prop (JArr xs) name = Return JUndefined"
  by (simp_all add: get_prop_def)

lemma get_prop_throws_iff: "is_throw (get_prop v name) \<longleftrightarrow> v = JUndefined \<or> v = JNull"
  by (cases v) simp_all

lemma wf_jsval_get_prop: "wf_jsval v \<Longrightarrow> get_prop v name = Return x \<Longrightarrow> wf_jsval x"
proof (cases v)
  case (JObj ps)
  assume wf: "wf_jsval v" and get: "get_prop v name = Return x"
  show ?thesis
  proof (cases "map_of ps name")
    case None
    with JObj get show ?thesis by auto
  next
    case (Some y)
    then have "(name, y) \<in> set ps" by (rule map_of_SomeD)
    with wf JObj have "wf_jsval y" by (auto simp: list_all_iff)
    with Some JObj get show ?thesis by auto
  qed
qed auto

lemma prop_of_simps [simp]:
  "prop_of JUndefined name = JUndefined"
  "prop_of JNull name = JUndefined"
  "prop_of (JBool b) name = JUndefined"
  "prop_of (JNum n) name = JUndefined"
  "prop_of (JStr s) name = JUndefined"
  "prop_of (JArr xs) name = JUndefined"
  "prop_of (JObj ps) name = (case map_of ps name of None \<Rightarrow> JUndefined | Some x \<Rightarrow> x)"
  by (simp_all add: prop_of_def)

lemma get_prop_prop_of: "get_prop v name = Return x \<Longrightarrow> prop_of v name = x"
  by (simp add: prop_of_def)

lemma get_prop_cases:
  obtains (nullish) "v = JUndefined \<or> v = JNull" "get_prop v name = Throw TypeError"
  | (defined) "get_prop v name = Return (prop_of v name)"
  by (cases v) auto

lemma truthy_get_prop: "truthy d \<Longrightarrow> get_prop d name = Return (prop_of d name)"
  by (cases d) simp_all

lemma when_present_eq:
  "when_present d name f dflt =
     (if truthy d \<and> truthy (prop_of d name) then f (prop_of d name) else Return dflt)"
  by (simp add: when_present_def truthy_get_prop)

lemma set_prop_simps [simp]:
  "set_prop JUndefined name x = Throw TypeError"
  "set_prop JNull name x = Throw TypeError"
  "set_prop (JObj ps) name x = Return (JObj (AList.update name x ps))"
  by (simp_all add: set_prop_def)

lemma get_prop_set_prop:
  "set_prop (JObj ps) name x = Return v \<Longrightarrow>
     get_prop v name' = (if name' = name then Return x else get_prop (JObj ps) name')"
  by (auto simp: update_conv')

section \<open>Procedures\<close>

lemma proc_do_apply [simp]: "proc_do f st = (None, f st)"
  by (simp add: proc_do_def)

lemma proc_seq_apply:
  "proc_seq p q st = (case p st of (None, st1) \<Rightarrow> q st1 | (Some e, st1) \<Rightarrow> (Some e, st1))"
  by (simp add: proc_seq_def)

lemma proc_seq_do [simp]: "proc_seq (proc_do f) q st = q (f st)"
  by (simp add: proc_seq_def)

lemma proc_seq_None: "p st = (None, st1) \<Longrightarrow> proc_seq p q st = q st1"
  by (simp add: proc_seq_def)

lemma proc_seq_Some: "p st = (Some e, st1) \<Longrightarrow> proc_seq p q st = (Some e, st1)"
  by (simp add: proc_seq_def)

lemma proc_read_apply:
  "proc_read r k st = (case r st of Inl e \<Rightarrow> (Some e, st) | Inr x \<Rightarrow> k x st)"
  by (simp add: proc_read_def)

lemma proc_read_Return: "r st = Return x \<Longrightarrow> proc_read r k st = k x st"
  by (simp add: proc_read_def)

lemma proc_read_Throw: "r st = Throw e \<Longrightarrow> proc_read r k st = (Some e, st)"
  by (simp add: proc_read_def)

lemma array_some_Return_iff:
  "(\<forall>x \<in> set xs. \<exists>b. f x = Return b) \<Longrightarrow>
     array_some f xs = Return (\<exists>x \<in> set xs. f x = Return True)"
  by (induction xs) auto

section \<open>Lists\<close>

lemma append_sep_eq_iff:
  "c \<notin> set xs \<Longrightarrow> c \<notin> set ys \<Longrightarrow> xs @ c # xs' = ys @ c # ys' \<longleftrightarrow> xs = ys \<and> xs' = ys'"
proof (induction xs arbitrary: ys)
  case Nil
  then show ?case by (cases ys) auto
next
  case (Cons x xs)
  then show ?case by (cases ys) auto
qed

section \<open>Maps\<close>

lemma fun_upd_None_idem: "m k = None \<Longrightarrow> m(k := None) = m"
  by (rule ext) simp

lemma dom_fun_upd_None_subset: "dom (m(k := None)) \<subseteq> dom m"
  by auto

lemma finite_dom_upd: "finite (dom m) \<Longrightarrow> finite (dom (m(k \<mapsto> v)))"
  by simp

lemma card_dom_upd_le: "finite (dom m) \<Longrightarrow> card (dom (m(k \<mapsto> v))) \<le> Suc (card (dom m))"
  by (simp add: card_insert_le_m1 card_insert_if)

end
