(* ===== verification/Js_Text.thy ===== *)
theory Js_Text
  imports Js_Number
begin

text \<open>
  Values as text: decimal digits (\<open>show_nat\<close>, \<open>show_int\<close>), \<open>Array.prototype.join\<close>,
  \<open>ToString\<close> (\<open>to_string\<close>, what a template literal applies) and
  \<open>JSON.stringify\<close> (\<open>stringify\<close>, \<open>None\<close> for the result \<open>undefined\<close>).

  A safe integer prints as its decimal digits. How ECMAScript prints any other
  finite number (the shortest digits that read back as the same double) is not
  determined by the exact rational, so it is the parameter \<open>fmt\<close> of type
  \<open>num_render\<close>; every lemma holds for every \<open>fmt\<close>, and the numbers the scripts
  print into keys (\<open>days_back: 7\<close>, \<open>months_back: 6\<close>) are safe integers.
\<close>

section \<open>Digits\<close>

definition digit_char :: "nat \<Rightarrow> char" where
  "digit_char d = ''0123456789abcdef'' ! d"

fun show_nat :: "nat \<Rightarrow> string" where
  "show_nat n = (if n < 10 then [digit_char n] else show_nat (n div 10) @ [digit_char (n mod 10)])"

declare show_nat.simps [simp del]

definition show_int :: "int \<Rightarrow> string" where
  "show_int i = (if i < 0 then CHR ''-'' # show_nat (nat (- i)) else show_nat (nat i))"

lemma show_nat_numeral [simp]:
  "show_nat (numeral k) =
     (if numeral k < (10 :: nat) then [digit_char (numeral k)]
      else show_nat (numeral k div 10) @ [digit_char (numeral k mod 10)])"
  by (rule show_nat.simps)

lemma show_nat_0 [simp]: "show_nat 0 = ''0''"
  and show_nat_1 [simp]: "show_nat 1 = ''1''"
  and show_nat_Suc_0 [simp]: "show_nat (Suc 0) = ''1''"
  by (simp_all add: show_nat.simps [of 0] show_nat.simps [of 1] show_nat.simps [of "Suc 0"] digit_char_def)

fun join :: "string \<Rightarrow> string list \<Rightarrow> string" where
  "join sep [] = []"
| "join sep [x] = x"
| "join sep (x # y # ys) = x @ sep @ join sep (y # ys)"

section \<open>Numbers and values as strings\<close>

type_synonym num_render = "rat \<Rightarrow> string"

definition safe_integer :: "rat \<Rightarrow> bool" where
  "safe_integer q \<longleftrightarrow> is_integer q \<and> \<bar>q\<bar> < 2 ^ 53"

fun number_to_string :: "num_render \<Rightarrow> jsnum \<Rightarrow> string" where
  "number_to_string fmt (Fin q) = (if safe_integer q then show_int \<lfloor>q\<rfloor> else fmt q)"
| "number_to_string fmt NaN = ''NaN''"
| "number_to_string fmt PosInf = ''Infinity''"
| "number_to_string fmt NegInf = ''-Infinity''"

fun to_string :: "num_render \<Rightarrow> jsval \<Rightarrow> string" where
  "to_string fmt JUndefined = ''undefined''"
| "to_string fmt JNull = ''null''"
| "to_string fmt (JBool b) = (if b then ''true'' else ''false'')"
| "to_string fmt (JNum n) = number_to_string fmt n"
| "to_string fmt (JStr s) = s"
| "to_string fmt (JArr xs) =
     join '','' (map (\<lambda>x. if x = JUndefined \<or> x = JNull then [] else to_string fmt x) xs)"
| "to_string fmt (JObj ps) = ''[object Object]''"

section \<open>JSON.stringify\<close>

definition hex2 :: "nat \<Rightarrow> string" where
  "hex2 n = [digit_char (n div 16), digit_char (n mod 16)]"

definition quote_char :: "char \<Rightarrow> string" where
  "quote_char c =
     (let n = (of_char c :: nat) in
      if n = 0x22 then [CHR 0x5C, CHR 0x22]
      else if n = 0x5C then [CHR 0x5C, CHR 0x5C]
      else if n = 8 then [CHR 0x5C, CHR ''b'']
      else if n = 12 then [CHR 0x5C, CHR ''f'']
      else if n = 10 then [CHR 0x5C, CHR ''n'']
      else if n = 13 then [CHR 0x5C, CHR ''r'']
      else if n = 9 then [CHR 0x5C, CHR ''t'']
      else if n < 32 then [CHR 0x5C, CHR ''u'', CHR ''0'', CHR ''0''] @ hex2 n
      else [c])"

definition quote :: "string \<Rightarrow> string" where
  "quote s = CHR 0x22 # concat (map quote_char s) @ [CHR 0x22]"

fun stringify :: "num_render \<Rightarrow> jsval \<Rightarrow> string option" where
  "stringify fmt JUndefined = None"
| "stringify fmt JNull = Some ''null''"
| "stringify fmt (JBool b) = Some (if b then ''true'' else ''false'')"
| "stringify fmt (JNum n) = Some (if finite_num n then number_to_string fmt n else ''null'')"
| "stringify fmt (JStr s) = Some (quote s)"
| "stringify fmt (JArr xs) =
     Some (''['' @ join '','' (map (\<lambda>x. case stringify fmt x of None \<Rightarrow> ''null'' | Some s \<Rightarrow> s) xs)
       @ '']'')"
| "stringify fmt (JObj ps) =
     Some (''{'' @ join '','' (concat (map (\<lambda>(k, v). case stringify fmt v of
                None \<Rightarrow> [] | Some s \<Rightarrow> [quote k @ '':'' @ s]) ps))
       @ ''}'')"

end
