(* ===== verification/Js_Coerce.thy ===== *)
theory Js_Coerce
  imports Js_Text
begin

text \<open>
  Conversions between strings and numbers: \<open>string_to_number\<close> (the whole
  trimmed string must be a numeric literal), \<open>parse_float\<close> (\<open>parseFloat\<close>: the
  longest literal at the start), \<open>to_number\<close> (\<open>ToNumber\<close>), \<open>to_length\<close>
  (\<open>ToLength\<close>) and \<open>to_fixed\<close> (\<open>Number.prototype.toFixed\<close> with a digit
  count between 0 and 100). Literals are read as exact rationals.
\<close>

section \<open>Reading numbers\<close>

definition digit_val :: "nat \<Rightarrow> char \<Rightarrow> nat option" where
  "digit_val base c =
     (let n = (of_char c :: nat);
          d = (if 48 \<le> n \<and> n \<le> 57 then n - 48
               else if 97 \<le> n \<and> n \<le> 102 then n - 87
               else if 65 \<le> n \<and> n \<le> 70 then n - 55
               else 16)
      in if d < base then Some d else None)"

definition is_digit :: "nat \<Rightarrow> char \<Rightarrow> bool" where
  "is_digit base c \<longleftrightarrow> digit_val base c \<noteq> None"

definition digits_value :: "nat \<Rightarrow> string \<Rightarrow> nat" where
  "digits_value base s =
     foldl (\<lambda>acc c. base * acc + (case digit_val base c of None \<Rightarrow> 0 | Some d \<Rightarrow> d)) 0 s"

definition is_space :: "char \<Rightarrow> bool" where
  "is_space c \<longleftrightarrow> (of_char c :: nat) \<in> {9, 10, 11, 12, 13, 32, 160}"

definition trim :: "string \<Rightarrow> string" where
  "trim s = rev (dropWhile is_space (rev (dropWhile is_space s)))"

definition pow10 :: "int \<Rightarrow> rat" where
  "pow10 e = (if 0 \<le> e then 10 ^ nat e else 1 / 10 ^ nat (- e))"

text \<open>
  \<open>parse_exponent s\<close>: an exponent part \<^verbatim>\<open>e\<close>, optional sign, digits at the start
  of \<open>s\<close>, with the rest; \<open>(0, s)\<close> when there is none.
\<close>

definition parse_exponent :: "string \<Rightarrow> int \<times> string" where
  "parse_exponent s =
     (case s of
        [] \<Rightarrow> (0, s)
      | c # r \<Rightarrow>
          if c = CHR ''e'' \<or> c = CHR ''E'' then
            (let (neg, r') = (case r of
                   [] \<Rightarrow> (False, r)
                 | d # t \<Rightarrow> if d = CHR ''-'' then (True, t) else if d = CHR ''+'' then (False, t)
                             else (False, r));
                 ds = takeWhile (is_digit 10) r'
             in if ds = [] then (0, s)
                else ((if neg then - int (digits_value 10 ds) else int (digits_value 10 ds)),
                      dropWhile (is_digit 10) r'))
          else (0, s))"

text \<open>
  \<open>parse_unsigned s\<close>: the longest unsigned decimal literal at the start of \<open>s\<close>
  (digits, optional fraction, optional exponent) with its value and the rest.
\<close>

definition parse_unsigned :: "string \<Rightarrow> (rat \<times> string) option" where
  "parse_unsigned s =
     (let ip = takeWhile (is_digit 10) s; r1 = dropWhile (is_digit 10) s;
          dot = (r1 \<noteq> [] \<and> hd r1 = CHR ''.'');
          fp = (if dot then takeWhile (is_digit 10) (tl r1) else []);
          r2 = (if dot then dropWhile (is_digit 10) (tl r1) else r1)
      in if ip = [] \<and> fp = [] then None
         else
           (let m = of_nat (digits_value 10 ip) + of_nat (digits_value 10 fp) / 10 ^ length fp;
                (e, r3) = parse_exponent r2
            in Some (m * pow10 e, r3)))"

definition parse_signed :: "string \<Rightarrow> (jsnum \<times> string) option" where
  "parse_signed s =
     (let neg = (s \<noteq> [] \<and> hd s = CHR ''-'');
          r = (if s \<noteq> [] \<and> (hd s = CHR ''-'' \<or> hd s = CHR ''+'') then tl s else s)
      in if take 8 r = ''Infinity'' then Some (if neg then NegInf else PosInf, drop 8 r)
         else (case parse_unsigned r of
                 None \<Rightarrow> None
               | Some (q, rest) \<Rightarrow> Some (Fin (if neg then - q else q), rest)))"

definition parse_radix :: "string \<Rightarrow> jsnum option" where
  "parse_radix s =
     (let base = (if take 2 s = ''0x'' \<or> take 2 s = ''0X'' then 16
                  else if take 2 s = ''0o'' \<or> take 2 s = ''0O'' then 8
                  else if take 2 s = ''0b'' \<or> take 2 s = ''0B'' then 2 else 0 :: nat);
          ds = drop 2 s
      in if base = 0 then None
         else if ds \<noteq> [] \<and> list_all (is_digit base) ds then Some (Fin (of_nat (digits_value base ds)))
         else Some NaN)"

definition string_to_number :: "string \<Rightarrow> jsnum" where
  "string_to_number s =
     (let t = trim s in
      if t = [] then Fin 0
      else (case parse_radix t of
              Some n \<Rightarrow> n
            | None \<Rightarrow> (case parse_signed t of
                          Some (n, []) \<Rightarrow> n
                        | _ \<Rightarrow> NaN)))"

definition parse_float :: "string \<Rightarrow> jsnum" where
  "parse_float s =
     (case parse_signed (dropWhile is_space s) of
        Some (n, rest) \<Rightarrow> n
      | None \<Rightarrow> NaN)"

text \<open>
  \<open>parse_int s\<close> is \<open>parseInt(s)\<close> with no radix: leading white space and a sign
  are skipped, a prefix \<^verbatim>\<open>0x\<close> selects base 16, and the digits up to the first
  other character are read; with no digit the result is \<open>NaN\<close>.
\<close>

definition parse_int :: "string \<Rightarrow> jsnum" where
  "parse_int s =
     (let t = dropWhile is_space s;
          neg = (t \<noteq> [] \<and> hd t = CHR ''-'');
          r = (if t \<noteq> [] \<and> (hd t = CHR ''-'' \<or> hd t = CHR ''+'') then tl t else t);
          hex = (take 2 r = ''0x'' \<or> take 2 r = ''0X'');
          base = (if hex then 16 else 10);
          ds = takeWhile (is_digit base) (if hex then drop 2 r else r)
      in if ds = [] then NaN
         else Fin (of_int (if neg then - int (digits_value base ds) else int (digits_value base ds))))"

lemmas parse_defs =
  digit_val_def is_digit_def digits_value_def is_space_def trim_def pow10_def
  parse_exponent_def parse_unsigned_def parse_signed_def parse_radix_def
  string_to_number_def parse_float_def parse_int_def


section \<open>ToNumber, ToIntegerOrInfinity, ToLength\<close>

text \<open>
  \<open>elem_number v\<close> is the number read back from the string that an array
  element \<open>v\<close> contributes to \<open>Array.prototype.join\<close>: the route \<open>ToNumber\<close>
  takes on an array with one element.
\<close>

fun elem_number :: "jsval \<Rightarrow> jsnum" where
  "elem_number JUndefined = Fin 0"
| "elem_number JNull = Fin 0"
| "elem_number (JBool b) = NaN"
| "elem_number (JNum n) = n"
| "elem_number (JStr s) = string_to_number s"
| "elem_number (JArr []) = Fin 0"
| "elem_number (JArr [x]) = elem_number x"
| "elem_number (JArr (x # y # ys)) = NaN"
| "elem_number (JObj ps) = NaN"

fun to_number :: "jsval \<Rightarrow> jsnum" where
  "to_number JUndefined = NaN"
| "to_number JNull = Fin 0"
| "to_number (JBool b) = (if b then Fin 1 else Fin 0)"
| "to_number (JNum n) = n"
| "to_number (JStr s) = string_to_number s"
| "to_number (JArr xs) = elem_number (JArr xs)"
| "to_number (JObj ps) = NaN"

definition to_length :: "jsval \<Rightarrow> nat" where
  "to_length v =
     (case to_number v of
        Fin q \<Rightarrow> nat (min (rat_trunc q) (2 ^ 53 - 1))
      | PosInf \<Rightarrow> nat (2 ^ 53 - 1)
      | _ \<Rightarrow> 0)"

text \<open>
  \<open>get_index v i\<close> is the read \<open>v[i]\<close> for a literal index: an element of an
  array, a character of a string, the property of that name of an object;
  \<open>undefined\<close> when there is none, and a \<open>TypeError\<close> on \<open>undefined\<close> and \<open>null\<close>.
\<close>

definition get_index :: "jsval \<Rightarrow> nat \<Rightarrow> jsval js_result" where
  "get_index v i =
     (case v of
        JArr xs \<Rightarrow> Return (if i < length xs then xs ! i else JUndefined)
      | JStr s \<Rightarrow> Return (if i < length s then JStr [s ! i] else JUndefined)
      | _ \<Rightarrow> get_prop v (show_nat i))"

section \<open>Number.prototype.toFixed\<close>

definition to_fixed :: "num_render \<Rightarrow> nat \<Rightarrow> jsnum \<Rightarrow> string" where
  "to_fixed fmt f x =
     (case x of
        Fin q \<Rightarrow>
          (let s = (if q < 0 then ''-'' else []); a = \<bar>q\<bar> in
           if 10 ^ 21 \<le> a then s @ number_to_string fmt (Fin a)
           else
             (let m = show_nat (nat \<lfloor>a * 10 ^ f + 1 / 2\<rfloor>);
                  z = (if length m \<le> f then replicate (f + 1 - length m) CHR ''0'' @ m else m)
              in if f = 0 then s @ m
                 else s @ take (length z - f) z @ ''.'' @ drop (length z - f) z))
      | _ \<Rightarrow> number_to_string fmt x)"

end
