(* ===== verification/Js_Date.thy ===== *)
theory Js_Date
  imports Js_Coerce
begin

text \<open>
  Dates: a time value is an integer number of milliseconds since the epoch, or
  none for an invalid date. \<open>time_clip\<close> is the conversion \<open>new Date(number)\<close>
  applies, \<open>iso_string\<close> is \<open>toISOString\<close> on a valid time value (proleptic
  Gregorian calendar, UTC), \<open>to_iso_string\<close> adds the \<open>RangeError\<close> of an invalid
  date, and \<open>before_T\<close> is \<open>split('T')[0]\<close>. Closed instances evaluate by
  \<open>code_simp\<close>.
\<close>

definition max_time :: int where
  "max_time = 8640000000000000"

definition time_clip :: "jsnum \<Rightarrow> int option" where
  "time_clip x =
     (case x of
        Fin q \<Rightarrow> if \<bar>q\<bar> \<le> of_int max_time then Some (rat_trunc q) else None
      | _ \<Rightarrow> None)"

definition civil_from_days :: "int \<Rightarrow> int \<times> int \<times> int" where
  "civil_from_days days =
     (let z = days + 719468;
          era = z div 146097;
          doe = z mod 146097;
          yoe = (doe - doe div 1460 + doe div 36524 - doe div 146096) div 365;
          doy = doe - (365 * yoe + yoe div 4 - yoe div 100);
          mp = (5 * doy + 2) div 153;
          d = doy - (153 * mp + 2) div 5 + 1;
          m = (if mp < 10 then mp + 3 else mp - 9);
          y = yoe + era * 400 + (if m \<le> 2 then 1 else 0)
      in (y, m, d))"

definition pad :: "nat \<Rightarrow> int \<Rightarrow> string" where
  "pad w n = replicate (w - length (show_nat (nat n))) CHR ''0'' @ show_nat (nat n)"

definition iso_year :: "int \<Rightarrow> string" where
  "iso_year y =
     (if 0 \<le> y \<and> y \<le> 9999 then pad 4 y
      else if y < 0 then CHR ''-'' # pad 6 (- y)
      else CHR ''+'' # pad 6 y)"

definition iso_string :: "int \<Rightarrow> string" where
  "iso_string t =
     (let (y, m, d) = civil_from_days (t div 86400000);
          ms = t mod 86400000
      in iso_year y @ ''-'' @ pad 2 m @ ''-'' @ pad 2 d @ ''T''
         @ pad 2 (ms div 3600000) @ '':'' @ pad 2 (ms div 60000 mod 60) @ '':''
         @ pad 2 (ms div 1000 mod 60) @ ''.'' @ pad 3 (ms mod 1000) @ ''Z'')"

definition to_iso_string :: "int option \<Rightarrow> string js_result" where
  "to_iso_string tv = (case tv of None \<Rightarrow> Throw RangeError | Some t \<Rightarrow> Return (iso_string t))"

definition valid_time :: "jsnum \<Rightarrow> bool" where
  "valid_time x \<longleftrightarrow> time_clip x \<noteq> None"

definition before_T :: "string \<Rightarrow> string" where
  "before_T s = takeWhile (\<lambda>c. c \<noteq> CHR ''T'') s"

section \<open>Invalid dates\<close>

lemma to_iso_string_simps [simp]:
  "to_iso_string None = Throw RangeError"
  "to_iso_string (Some t) = Return (iso_string t)"
  by (simp_all add: to_iso_string_def)

lemma to_iso_string_throws_iff [simp]: "is_throw (to_iso_string tv) \<longleftrightarrow> tv = None"
  by (cases tv) simp_all

lemma to_iso_string_eq_Throw: "to_iso_string tv = Throw e \<longleftrightarrow> tv = None \<and> e = RangeError"
  by (cases tv) auto

lemma time_clip_simps [simp]:
  "time_clip NaN = None"
  "time_clip PosInf = None"
  "time_clip NegInf = None"
  "time_clip (Fin q) = (if \<bar>q\<bar> \<le> of_int max_time then Some (rat_trunc q) else None)"
  by (simp_all add: time_clip_def)

lemma valid_time_simps [simp]:
  "\<not> valid_time NaN"
  "\<not> valid_time PosInf"
  "\<not> valid_time NegInf"
  "valid_time (Fin q) \<longleftrightarrow> \<bar>q\<bar> \<le> of_int max_time"
  by (simp_all add: valid_time_def)

lemma valid_time_clip: "valid_time x \<Longrightarrow> \<exists>t. time_clip x = Some t"
  by (simp add: valid_time_def)

lemma time_clip_of_int:
  "\<bar>t\<bar> \<le> max_time \<Longrightarrow> time_clip (Fin (of_int t)) = Some t"
proof -
  assume "\<bar>t\<bar> \<le> max_time"
  then have "\<bar>of_int t :: rat\<bar> \<le> of_int max_time"
    by (metis of_int_abs of_int_le_iff)
  then show ?thesis by (simp add: rat_trunc_def)
qed

end
