(* ===== verification/Data_Cache.thy ===== *)
theory Data_Cache
  imports Js_Prelude
begin

text \<open>
  The class \<open>DataCache\<close> of \<^verbatim>\<open>src/dashboard-script.js\<close> (lines 26 to 54): a
  \<open>Map\<close> from a key string to an item \<open>{data, timestamp, duration}\<close>. The
  object is the record \<open>DataCache\<close> with the one field \<open>cache\<close>; each method
  takes the object and returns the changed one. \<open>Date.now()\<close> is the parameter
  \<open>now\<close> (milliseconds, an integer); durations are integers too, as every
  duration the script passes is.

  The lemmas give every branch of \<open>get\<close>, \<open>set\<close> and \<open>clear\<close>, the frame of each
  method, the view \<open>visible\<close> of the entries a reader can still see, and the
  refinement of a store of deadlines that never evicts (\<open>spec_get\<close>,
  \<open>spec_set\<close>, \<open>spec_clear\<close>): lazy eviction cannot be observed by any
  later read.
\<close>

section \<open>State and operations\<close>

record cache_item =
  data :: jsval
  timestamp :: int
  duration :: int

record DataCache =
  cache :: "string \<rightharpoonup> cache_item"

definition DataCache_new :: DataCache where
  "DataCache_new = \<lparr>cache = Map.empty\<rparr>"

definition DataCache_get :: "int \<Rightarrow> string \<Rightarrow> DataCache \<Rightarrow> jsval \<times> DataCache" where
  "DataCache_get now key c =
     (case cache c key of
        None \<Rightarrow> (JNull, c)
      | Some item \<Rightarrow>
          if now - timestamp item > duration item
          then (JNull, c\<lparr>cache := (cache c)(key := None)\<rparr>)
          else (data item, c))"

definition DataCache_set :: "int \<Rightarrow> string \<Rightarrow> jsval \<Rightarrow> int \<Rightarrow> DataCache \<Rightarrow> DataCache" where
  "DataCache_set now key d dur c =
     c\<lparr>cache := (cache c)(key \<mapsto> \<lparr>data = d, timestamp = now, duration = dur\<rparr>)\<rparr>"

definition DataCache_clear :: "DataCache \<Rightarrow> DataCache" where
  "DataCache_clear c = c\<lparr>cache := Map.empty\<rparr>"

lemmas DataCache_defs [cache_defs] =
  DataCache_new_def DataCache_get_def DataCache_set_def DataCache_clear_def

section \<open>What a reader can see\<close>

definition expired :: "int \<Rightarrow> cache_item \<Rightarrow> bool" where
  "expired now item \<longleftrightarrow> now - timestamp item > duration item"

definition visible :: "int \<Rightarrow> DataCache \<Rightarrow> (string \<rightharpoonup> jsval)" where
  "visible now c =
     (\<lambda>k. case cache c k of
            None \<Rightarrow> None
          | Some item \<Rightarrow> if expired now item then None else Some (data item))"

definition answer :: "jsval option \<Rightarrow> jsval" where
  "answer v = (case v of None \<Rightarrow> JNull | Some d \<Rightarrow> d)"

definition no_future :: "int \<Rightarrow> DataCache \<Rightarrow> bool" where
  "no_future now c \<longleftrightarrow> (\<forall>k item. cache c k = Some item \<longrightarrow> timestamp item \<le> now)"

lemma expired_mono: "expired now item \<Longrightarrow> now \<le> t \<Longrightarrow> expired t item"
  by (simp add: expired_def)

lemma answer_simps [simp]: "answer None = JNull" "answer (Some d) = d"
  by (simp_all add: answer_def)

lemma visible_Some_iff:
  "visible now c k = Some d \<longleftrightarrow>
     (\<exists>item. cache c k = Some item \<and> \<not> expired now item \<and> data item = d)"
  by (auto simp: visible_def split: option.splits)

lemma visible_None_iff:
  "visible now c k = None \<longleftrightarrow> (\<forall>item. cache c k = Some item \<longrightarrow> expired now item)"
  by (auto simp: visible_def split: option.splits)

lemma dom_visible_subset: "dom (visible now c) \<subseteq> dom (cache c)"
  by (auto simp: visible_def split: option.splits)

section \<open>The branches of get\<close>

lemma DataCache_get_absent:
  "cache c key = None \<Longrightarrow> DataCache_get now key c = (JNull, c)"
  by (simp add: DataCache_get_def)

lemma DataCache_get_fresh:
  "cache c key = Some item \<Longrightarrow> \<not> expired now item \<Longrightarrow>
     DataCache_get now key c = (data item, c)"
  by (simp add: DataCache_get_def expired_def)

lemma DataCache_get_stale:
  "cache c key = Some item \<Longrightarrow> expired now item \<Longrightarrow>
     DataCache_get now key c = (JNull, c\<lparr>cache := (cache c)(key := None)\<rparr>)"
  by (simp add: DataCache_get_def expired_def)

lemmas DataCache_get_branches = DataCache_get_absent DataCache_get_fresh DataCache_get_stale

lemma DataCache_get_cases:
  obtains (absent) "cache c key = None"
  | (fresh) item where "cache c key = Some item" "\<not> expired now item"
  | (stale) item where "cache c key = Some item" "expired now item"
  by (cases "cache c key") auto

lemma fst_DataCache_get: "fst (DataCache_get now key c) = answer (visible now c key)"
  by (cases rule: DataCache_get_cases [where c = c and key = key and now = now])
    (simp_all add: DataCache_get_branches visible_def)

lemma cache_DataCache_get:
  "cache (snd (DataCache_get now key c)) =
     (if visible now c key = None then (cache c)(key := None) else cache c)"
  by (cases rule: DataCache_get_cases [where c = c and key = key and now = now])
    (auto simp: DataCache_get_branches visible_def fun_upd_None_idem)

lemma cache_DataCache_get_other:
  "k \<noteq> key \<Longrightarrow> cache (snd (DataCache_get now key c)) k = cache c k"
  by (simp add: cache_DataCache_get)

lemma visible_DataCache_get:
  assumes "now \<le> t"
  shows "visible t (snd (DataCache_get now key c)) = visible t c"
proof (cases rule: DataCache_get_cases [where c = c and key = key and now = now])
  case (stale item)
  from stale(2) assms have "expired t item" by (rule expired_mono)
  with stale show ?thesis
    by (auto simp: DataCache_get_stale visible_def)
qed (simp_all add: DataCache_get_branches)

lemma DataCache_get_idem:
  "DataCache_get now key (snd (DataCache_get now key c)) = DataCache_get now key c"
  by (cases rule: DataCache_get_cases [where c = c and key = key and now = now])
    (simp_all add: DataCache_get_branches DataCache_get_absent)

lemma visible_after_get:
  "visible t (snd (DataCache_get now key c)) k =
     (if k = key \<and> visible now c key = None then None else visible t c k)"
  by (simp add: visible_def cache_DataCache_get)

lemma visible_other_time:
  "visible now c k = Some d \<Longrightarrow> visible t c k = None \<or> visible t c k = Some d"
  by (auto simp: visible_def split: option.splits if_splits)

lemma answer_visible_other_time:
  "\<not> truthy (answer (visible now c k)) \<Longrightarrow> visible now c k \<noteq> None \<Longrightarrow>
     \<not> truthy (answer (visible t c k))"
  using visible_other_time [of now c k _ t] by (cases "visible now c k") auto

section \<open>set and clear\<close>

lemma cache_DataCache_set:
  "cache (DataCache_set now key d dur c) =
     (cache c)(key \<mapsto> \<lparr>data = d, timestamp = now, duration = dur\<rparr>)"
  by (simp add: DataCache_set_def)

lemma visible_DataCache_set:
  "visible t (DataCache_set now key d dur c) =
     (visible t c)(key := if t - now > dur then None else Some d)"
  by (rule ext) (simp add: visible_def cache_DataCache_set expired_def)

lemma DataCache_set_overwrites:
  "DataCache_set t key d' dur' (DataCache_set now key d dur c) = DataCache_set t key d' dur' c"
  by (simp add: DataCache_set_def)

lemma cache_DataCache_clear [simp]: "cache (DataCache_clear c) = Map.empty"
  by (simp add: DataCache_clear_def)

lemma visible_DataCache_clear [simp]: "visible t (DataCache_clear c) = Map.empty"
  by (rule ext) (simp add: visible_def)

lemma visible_DataCache_new [simp]: "visible t DataCache_new = Map.empty"
  by (rule ext) (simp add: visible_def DataCache_new_def)

section \<open>The clock only moves forward\<close>

lemma visible_antimono:
  assumes "visible t c k = Some d" and "now \<le> t"
  shows "visible now c k = Some d"
proof -
  from assms(1) obtain item where item: "cache c k = Some item" "\<not> expired t item" "data item = d"
    by (auto simp: visible_Some_iff)
  from item(2) assms(2) have "\<not> expired now item"
    by (auto dest: expired_mono)
  with item show ?thesis by (auto simp: visible_Some_iff)
qed

lemma no_future_mono: "no_future now c \<Longrightarrow> now \<le> t \<Longrightarrow> no_future t c"
  by (force simp: no_future_def)

lemma no_future_new: "no_future now DataCache_new"
  by (simp add: no_future_def DataCache_new_def)

lemma no_future_get: "no_future now c \<Longrightarrow> no_future now (snd (DataCache_get now key c))"
  by (auto simp: no_future_def cache_DataCache_get split: if_splits)

lemma no_future_set: "no_future now c \<Longrightarrow> no_future now (DataCache_set now key d dur c)"
  by (auto simp: no_future_def cache_DataCache_set split: if_splits)

lemma no_future_clear: "no_future now (DataCache_clear c)"
  by (simp add: no_future_def)

section \<open>Abstract contract: a store of deadlines\<close>

text \<open>
  The contract of the cache, as its callers rely on it: a map from keys to a
  payload and the deadline \<open>stored at + ttl\<close>, read with \<open>spec_get\<close>, which never
  removes anything. \<open>agree now c m\<close> relates a cache object to such a store: from
  \<open>now\<close> on, both answer every read alike.
\<close>

type_synonym ttl_store = "string \<rightharpoonup> jsval \<times> int"

definition spec_get :: "int \<Rightarrow> string \<Rightarrow> ttl_store \<Rightarrow> jsval" where
  "spec_get now key m =
     (case m key of
        None \<Rightarrow> JNull
      | Some (d, deadline) \<Rightarrow> if now \<le> deadline then d else JNull)"

definition spec_set :: "int \<Rightarrow> string \<Rightarrow> jsval \<Rightarrow> int \<Rightarrow> ttl_store \<Rightarrow> ttl_store" where
  "spec_set now key d dur m = m(key \<mapsto> (d, now + dur))"

definition spec_clear :: "ttl_store \<Rightarrow> ttl_store" where
  "spec_clear m = Map.empty"

definition agree :: "int \<Rightarrow> DataCache \<Rightarrow> ttl_store \<Rightarrow> bool" where
  "agree now c m \<longleftrightarrow> (\<forall>k t. now \<le> t \<longrightarrow> answer (visible t c k) = spec_get t k m)"

datatype cache_op = Get string | Set string jsval int | Clear

fun apply_op :: "int \<Rightarrow> cache_op \<Rightarrow> DataCache \<Rightarrow> jsval list \<times> DataCache" where
  "apply_op now (Get key) c = (let (v, c') = DataCache_get now key c in ([v], c'))"
| "apply_op now (Set key d dur) c = ([], DataCache_set now key d dur c)"
| "apply_op now Clear c = ([], DataCache_clear c)"

fun run_ops :: "(int \<times> cache_op) list \<Rightarrow> DataCache \<Rightarrow> jsval list \<times> DataCache" where
  "run_ops [] c = ([], c)"
| "run_ops ((now, op) # ops) c =
     (let (out, c') = apply_op now op c; (outs, c'') = run_ops ops c' in (out @ outs, c''))"

fun spec_apply :: "int \<Rightarrow> cache_op \<Rightarrow> ttl_store \<Rightarrow> jsval list \<times> ttl_store" where
  "spec_apply now (Get key) m = ([spec_get now key m], m)"
| "spec_apply now (Set key d dur) m = ([], spec_set now key d dur m)"
| "spec_apply now Clear m = ([], spec_clear m)"

fun spec_run :: "(int \<times> cache_op) list \<Rightarrow> ttl_store \<Rightarrow> jsval list \<times> ttl_store" where
  "spec_run [] m = ([], m)"
| "spec_run ((now, op) # ops) m =
     (let (out, m') = spec_apply now op m; (outs, m'') = spec_run ops m' in (out @ outs, m''))"

lemma agreeD: "agree now c m \<Longrightarrow> now \<le> t \<Longrightarrow> answer (visible t c k) = spec_get t k m"
  by (simp add: agree_def)

lemma agree_mono: "agree now c m \<Longrightarrow> now \<le> t \<Longrightarrow> agree t c m"
  by (simp add: agree_def)

lemma agree_new: "agree now DataCache_new Map.empty"
  by (simp add: agree_def spec_get_def)

lemma agree_get: "agree now c m \<Longrightarrow> agree now (snd (DataCache_get now key c)) m"
  by (simp add: agree_def visible_DataCache_get)

lemma agree_set:
  "agree now c m \<Longrightarrow> agree now (DataCache_set now key d dur c) (spec_set now key d dur m)"
  by (auto simp: agree_def visible_DataCache_set spec_get_def spec_set_def)

lemma agree_clear: "agree now (DataCache_clear c) (spec_clear m)"
  by (simp add: agree_def spec_get_def spec_clear_def)

lemma agree_apply_op:
  assumes "agree now c m"
  shows "fst (apply_op now op c) = fst (spec_apply now op m)
    \<and> agree now (snd (apply_op now op c)) (snd (spec_apply now op m))"
proof (cases op)
  case (Get key)
  from assms have "fst (DataCache_get now key c) = spec_get now key m"
    by (simp add: fst_DataCache_get agreeD)
  with assms Get show ?thesis
    by (simp add: split_beta agree_get)
qed (use assms in \<open>simp_all add: agree_set agree_clear\<close>)

lemma agree_run_ops:
  assumes "agree t0 c m" and "sorted (t0 # map fst ops)"
  shows "fst (run_ops ops c) = fst (spec_run ops m)"
  using assms
proof (induction ops arbitrary: t0 c m)
  case Nil
  show ?case by simp
next
  case (Cons top ops)
  obtain now op where top: "top = (now, op)" by (cases top)
  from Cons.prems top have "agree now c m"
    by (auto intro: agree_mono)
  then have step: "fst (apply_op now op c) = fst (spec_apply now op m)"
    "agree now (snd (apply_op now op c)) (snd (spec_apply now op m))"
    using agree_apply_op by blast+
  from Cons.prems top have "sorted (now # map fst ops)" by simp
  with step(2) have "fst (run_ops ops (snd (apply_op now op c)))
      = fst (spec_run ops (snd (spec_apply now op m)))"
    by (rule Cons.IH)
  with step(1) top show ?case by (simp add: split_beta)
qed

section \<open>Properties\<close>

text \<open>
  Claim C4. A \<open>get\<close> that follows a \<open>set\<close> of the same key returns the stored
  payload as long as no more than the time to live has passed, whatever the
  cache held before.
\<close>

theorem DataCache_get_after_set:
  assumes "t - now \<le> dur"
  shows "DataCache_get t key (DataCache_set now key d dur c) = (d, DataCache_set now key d dur c)"
  using assms
  by (simp add: DataCache_get_fresh [where item = "\<lparr>data = d, timestamp = now, duration = dur\<rparr>"]
      cache_DataCache_set expired_def)

theorem DataCache_get_after_set_witness:
  "(1000060000 :: int) - 1000000000 \<le> 60000
   \<and> DataCache_get 1000060000 ''k'' (DataCache_set 1000000000 ''k'' (JStr ''v'') 60000 DataCache_new)
     = (JStr ''v'', DataCache_set 1000000000 ''k'' (JStr ''v'') 60000 DataCache_new)"
  using DataCache_get_after_set [of 1000060000 1000000000 60000 "''k''" "JStr ''v''" DataCache_new]
  by simp

text \<open>
  Claim C5. Once more than the time to live has passed, \<open>get\<close> answers \<open>null\<close>
  and deletes the entry: the cache is then as if the key had been deleted from the
  cache that \<open>set\<close> was called on.
\<close>

theorem DataCache_get_expired:
  assumes "t - now > dur"
  shows "DataCache_get t key (DataCache_set now key d dur c)
    = (JNull, c\<lparr>cache := (cache c)(key := None)\<rparr>)"
  using assms
  by (simp add: DataCache_get_stale [where item = "\<lparr>data = d, timestamp = now, duration = dur\<rparr>"]
      cache_DataCache_set expired_def DataCache_set_def)

theorem DataCache_get_expired_witness:
  "(1000060001 :: int) - 1000000000 > 60000
   \<and> DataCache_get 1000060001 ''k'' (DataCache_set 1000000000 ''k'' (JStr ''v'') 60000 DataCache_new)
     = (JNull, DataCache_new)"
  using DataCache_get_expired [of 60000 1000060001 1000000000 "''k''" "JStr ''v''" DataCache_new]
  by (simp add: DataCache_new_def)

text \<open>
  Claim C31. After \<open>clear\<close>, \<open>get\<close> answers \<open>null\<close> for every key at every time and
  leaves the cache empty.
\<close>

theorem DataCache_clear_get:
  "DataCache_get t key (DataCache_clear c) = (JNull, DataCache_clear c)"
  by (simp add: DataCache_get_absent)

text \<open>
  Claim C9. The cache implements the store of deadlines: for operations issued at
  times that never decrease, starting from the empty cache, the values that the
  \<open>get\<close> calls return are the values \<open>spec_get\<close> gives on the store that never
  evicts.
\<close>

theorem DataCache_refines_spec:
  assumes "sorted (map fst ops)"
  shows "fst (run_ops ops DataCache_new) = fst (spec_run ops Map.empty)"
proof (cases ops)
  case Nil
  then show ?thesis by simp
next
  case (Cons top rest)
  have "agree (fst top) DataCache_new Map.empty" by (rule agree_new)
  moreover from assms Cons have "sorted (fst top # map fst ops)" by simp
  ultimately show ?thesis by (rule agree_run_ops)
qed

theorem DataCache_refines_spec_witness:
  "sorted (map fst [(0 :: int, Set ''k'' (JBool True) 5), (5, Get ''k''), (6, Get ''k''), (6, Get ''k'')])
   \<and> fst (run_ops [(0, Set ''k'' (JBool True) 5), (5, Get ''k''), (6, Get ''k''), (6, Get ''k'')]
        DataCache_new) = [JBool True, JNull, JNull]"
  using DataCache_refines_spec
    [of "[(0, Set ''k'' (JBool True) 5), (5, Get ''k''), (6, Get ''k''), (6, Get ''k'')]"]
  by (simp add: spec_get_def spec_set_def)

text \<open>
  Claim C30. Lazy eviction cannot be observed: after a \<open>get\<close> at time \<open>now\<close>, every
  key is visible at every later time exactly when it was visible before the
  \<open>get\<close>, with the same payload.
\<close>

theorem DataCache_get_unobservable:
  assumes "now \<le> t"
  shows "visible t (snd (DataCache_get now key c)) k = visible t c k"
  using assms by (simp add: visible_DataCache_get)

theorem DataCache_get_unobservable_witness:
  "(7 :: int) \<le> 9
   \<and> visible 9 (snd (DataCache_get 7 ''a'' (DataCache_set 0 ''a'' JNull 5 DataCache_new))) ''a''
     = visible 9 (DataCache_set 0 ''a'' JNull 5 DataCache_new) ''a''"
  using DataCache_get_unobservable [of 7 9 "''a''" "DataCache_set 0 ''a'' JNull 5 DataCache_new" "''a''"]
  by simp

end
