(* ===== verification/Mcp_Config.thy ===== *)
theory Mcp_Config
  imports Js_Prelude
begin

text \<open>
  The constant \<open>MCP_CONFIG\<close> of \<^verbatim>\<open>src/dashboard-script.js\<close> (lines 4 to 23) as a
  record value, and \<open>cacheDuration\<close>, the expression
  \<^verbatim>\<open>MCP_CONFIG.CACHE_DURATION[toolName] || 60000\<close> of line 91, for a tool name
  that is not the name of a property inherited from \<open>Object.prototype\<close>.
\<close>

record mcp_config =
  API_BASE_URL :: string
  MCP_SERVER_URL :: string
  CACHE_DURATION :: "(string \<times> int) list"
  PORTFOLIO_STOCKS :: "string list"
  AI_COMPANIES :: "string list"

definition MCP_CONFIG :: mcp_config where
  "MCP_CONFIG =
     \<lparr>API_BASE_URL = ''http://localhost:3000'',
      MCP_SERVER_URL = ''http://localhost:8000'',
      CACHE_DURATION =
        [(''stocks'', 60 * 1000),
         (''news'', 5 * 60 * 1000),
         (''employment'', 24 * 60 * 60 * 1000)],
      PORTFOLIO_STOCKS = [''NVDA'', ''MSFT'', ''PLTR''],
      AI_COMPANIES = [''OpenAI'', ''Anthropic'', ''xAI'', ''Cohere'', ''Mistral'']\<rparr>"

definition cacheDuration :: "string \<Rightarrow> int" where
  "cacheDuration toolName =
     (case map_of (CACHE_DURATION MCP_CONFIG) toolName of
        None \<Rightarrow> 60000
      | Some d \<Rightarrow> if d = 0 then 60000 else d)"

lemma CACHE_DURATION_MCP_CONFIG [simp]:
  "CACHE_DURATION MCP_CONFIG = [(''stocks'', 60000), (''news'', 300000), (''employment'', 86400000)]"
  by (simp add: MCP_CONFIG_def)

lemma PORTFOLIO_STOCKS_MCP_CONFIG [simp]:
  "PORTFOLIO_STOCKS MCP_CONFIG = [''NVDA'', ''MSFT'', ''PLTR'']"
  by (simp add: MCP_CONFIG_def)

lemma cacheDuration_cases:
  "cacheDuration toolName =
     (if toolName = ''stocks'' then 60000
      else if toolName = ''news'' then 300000
      else if toolName = ''employment'' then 86400000
      else 60000)"
  by (simp add: cacheDuration_def)

lemma cacheDuration_pos: "0 < cacheDuration toolName"
  by (simp add: cacheDuration_cases)

lemma cacheDuration_range: "cacheDuration toolName \<in> {60000, 300000, 86400000}"
  by (simp add: cacheDuration_cases)

end
