(* ===== verification/Simulated_Data.thy ===== *)
theory Simulated_Data
  imports Js_Date
begin

text \<open>
  The function \<open>getSimulatedData\<close> of \<^verbatim>\<open>src/dashboard-script.js\<close> (lines 106 to
  147). The function builds one object literal with an entry for each of the
  three tools, whatever tool is asked for, and then looks the tool up in it; so
  every read of \<open>args\<close> in any of the three entries is done, and can throw, on
  every call.

  \<open>Date.now()\<close> and \<open>new Date()\<close> are the parameter \<open>now\<close> (one reading for the
  whole call). \<open>Math.random()\<close> is the parameter \<open>rnd\<close>: \<open>rnd k\<close> is the result
  of the call number \<open>k\<close> made by this invocation, counted from 0; a stock entry
  makes seven calls, an employment entry two.
\<close>

type_synonym rng = "nat \<Rightarrow> rat"

definition stock_entry :: "num_render \<Rightarrow> rng \<Rightarrow> nat \<Rightarrow> jsval \<Rightarrow> jsval" where
  "stock_entry fmt rnd i symbol =
     JObj [(''symbol'', symbol),
           (''current_price'', JNum (Fin (rnd (7 * i)) * 500 + 100)),
           (''change_percent'', JStr (to_fixed fmt 2 (Fin (rnd (7 * i + 1)) * 10 - 5))),
           (''volume'', JNum (math_floor (Fin (rnd (7 * i + 2)) * 50000000))),
           (''market_cap'', JNum (math_floor (Fin (rnd (7 * i + 3)) * 2000000000000))),
           (''pe_ratio'', JStr (to_fixed fmt 1 (Fin (rnd (7 * i + 4)) * 50 + 20))),
           (''52_week_high'', JNum (Fin (rnd (7 * i + 5)) * 600 + 200)),
           (''52_week_low'', JNum (Fin (rnd (7 * i + 6)) * 200 + 50))]"

definition employment_entry :: "num_render \<Rightarrow> int \<Rightarrow> rng \<Rightarrow> nat \<Rightarrow> nat \<Rightarrow> jsval js_result" where
  "employment_entry fmt now rnd base i =
     bind_result
       (to_iso_string (time_clip (Fin (of_int now) - Fin (of_nat i) * 30 * 24 * 60 * 60 * 1000)))
       (\<lambda>date.
          Return (JObj [(''date'', JStr (before_T date)),
                        (''job_postings_index'', JNum (100 + Fin (rnd (base + 2 * i)) * 20)),
                        (''change_from_baseline'',
                           JStr (to_fixed fmt 1 (Fin (rnd (base + 2 * i + 1)) * 10)))]))"

definition array_from :: "nat \<Rightarrow> (nat \<Rightarrow> jsval js_result) \<Rightarrow> jsval list js_result" where
  "array_from len f =
     (if 2 ^ 32 - 1 < int len then Throw RangeError else map_result f [0..<len])"

definition simulatedData ::
  "num_render \<Rightarrow> int \<Rightarrow> rng \<Rightarrow> jsval \<Rightarrow> (string \<times> jsval) list js_result" where
  "simulatedData fmt now rnd args =
     bind_result (get_prop args ''symbols'') (\<lambda>symbols.
     bind_result (array_map (stock_entry fmt rnd) symbols) (\<lambda>stocks.
     bind_result (get_prop args ''company'') (\<lambda>company.
     bind_result (get_prop args ''days_back'') (\<lambda>days_back.
     bind_result
       (to_iso_string (time_clip (Fin (of_int now) - to_number days_back * 24 * 60 * 60 * 1000)))
       (\<lambda>from_date.
     bind_result (get_prop args ''months_back'') (\<lambda>months_back.
     bind_result
       (array_from (to_length months_back) (employment_entry fmt now rnd (7 * length stocks)))
       (\<lambda>employment_data.
     Return
       [(''get_stock_financial_data'',
           JObj [(''stocks'', JArr stocks),
                 (''last_updated'', JStr (iso_string now))]),
        (''get_ai_company_news'',
           JObj [(''company'', company),
                 (''articles'',
                    JArr [JObj [(''title'', JStr (to_string fmt company
                                   @ '' Announces Major AI Breakthrough'')),
                                (''url'', JStr ''https://example.com/news/1''),
                                (''published_utc'', JStr (iso_string now)),
                                (''summary'', JStr
                                   ''Company reveals significant progress in AI development...''),
                                (''sentiment'', JStr ''positive'')]]),
                 (''total_articles'', JNum 5),
                 (''date_range'', JStr (before_T from_date @ '' to ''
                                   @ before_T (iso_string now)))]),
        (''get_tech_employment_trends'',
           JObj [(''employment_data'', JArr employment_data),
                 (''trend'', JStr ''increasing''),
                 (''summary'', JStr
                    ''Software engineering job postings up 5.2% from pre-pandemic baseline'')])])))))))"

definition getSimulatedData ::
  "num_render \<Rightarrow> int \<Rightarrow> rng \<Rightarrow> string \<Rightarrow> jsval \<Rightarrow> jsval js_result" where
  "getSimulatedData fmt now rnd toolName args =
     bind_result (simulatedData fmt now rnd args) (\<lambda>table.
       Return (case map_of table toolName of
                 None \<Rightarrow> JNull
               | Some v \<Rightarrow> if truthy v then v else JNull))"

text \<open>
  The arguments on which the object literal can be built: \<open>args\<close> has an array
  \<open>symbols\<close>, the two dates computed from \<open>days_back\<close> and from each month index
  are valid, and \<open>months_back\<close> is a length an array can have.
\<close>

fun is_array :: "jsval \<Rightarrow> bool" where
  "is_array (JArr xs) = True"
| "is_array v = False"

definition month_start :: "int \<Rightarrow> nat \<Rightarrow> jsnum" where
  "month_start now i = Fin (of_int now) - Fin (of_nat i) * 30 * 24 * 60 * 60 * 1000"

definition accepted :: "int \<Rightarrow> jsval \<Rightarrow> bool" where
  "accepted now args \<longleftrightarrow>
     is_array (prop_of args ''symbols'') \<and>
     valid_time (Fin (of_int now) - to_number (prop_of args ''days_back'') * 24 * 60 * 60 * 1000) \<and>
     int (to_length (prop_of args ''months_back'')) \<le> 2 ^ 32 - 1 \<and>
     list_all (\<lambda>i. valid_time (month_start now i)) [0..<to_length (prop_of args ''months_back'')]"

section \<open>Reading the arguments\<close>

lemma is_array_iff: "is_array v \<longleftrightarrow> (\<exists>xs. v = JArr xs)"
  by (cases v) simp_all

lemma array_map_eq_Throw: "array_map f v = Throw e \<longleftrightarrow> \<not> is_array v \<and> e = TypeError"
  by (cases v) (auto simp: array_map_def)

lemma array_from_Return_iff:
  "array_from len f = Return ys \<longleftrightarrow>
     int len \<le> 2 ^ 32 - 1 \<and> list_all2 (\<lambda>i y. f i = Return y) [0..<len] ys"
  by (auto simp: array_from_def map_result_Return_iff)

lemma array_from_throws_iff:
  "is_throw (array_from len f) \<longleftrightarrow> 2 ^ 32 - 1 < int len \<or> (\<exists>i<len. is_throw (f i))"
  by (auto simp: array_from_def map_result_throws)

lemma array_from_length: "array_from len f = Return ys \<Longrightarrow> length ys = len"
  by (auto simp: array_from_Return_iff dest: list_all2_lengthD)

lemma employment_entry_throws_iff [simp]:
  "is_throw (employment_entry fmt now rnd base i) \<longleftrightarrow> \<not> valid_time (month_start now i)"
  by (simp add: employment_entry_def month_start_def valid_time_def)

lemma simulatedData_throws_iff:
  "is_throw (simulatedData fmt now rnd args) \<longleftrightarrow> \<not> accepted now args"
proof (cases args)
  case (JObj ps)
  then show ?thesis
    by (auto simp: simulatedData_def accepted_def array_map_throws_iff is_array_iff
        array_from_throws_iff valid_time_def list_all_iff)
qed (simp_all add: simulatedData_def accepted_def array_map_throws_iff)

lemma simulatedData_accepted:
  assumes "accepted now args"
  obtains table where "simulatedData fmt now rnd args = Return table"
  using assms simulatedData_throws_iff [of fmt now rnd args] by (auto simp: not_is_throw_iff)

lemma accepted_symbols: "accepted now args \<Longrightarrow> \<exists>xs. get_prop args ''symbols'' = Return (JArr xs)"
  by (cases args) (auto simp: accepted_def is_array_iff)

lemma simulatedData_keys:
  "simulatedData fmt now rnd args = Return table \<Longrightarrow>
     map fst table = [''get_stock_financial_data'', ''get_ai_company_news'',
                      ''get_tech_employment_trends'']"
  by (auto simp: simulatedData_def bind_result_eq_Return)

lemma simulatedData_stocks:
  assumes "simulatedData fmt now rnd args = Return table"
  shows "\<exists>xs. get_prop args ''symbols'' = Return (JArr xs) \<and>
     map_of table ''get_stock_financial_data'' =
       Some (JObj [(''stocks'', JArr (map (\<lambda>(i, x). stock_entry fmt rnd i x) (enumerate 0 xs))),
                   (''last_updated'', JStr (iso_string now))])"
  using assms by (auto simp: simulatedData_def bind_result_eq_Return array_map_Return_iff)

lemma simulatedData_employment:
  assumes "simulatedData fmt now rnd args = Return table"
  shows "\<exists>ys. length ys = to_length (prop_of args ''months_back'') \<and>
     map_of table ''get_tech_employment_trends'' =
       Some (JObj [(''employment_data'', JArr ys),
                   (''trend'', JStr ''increasing''),
                   (''summary'', JStr
                      ''Software engineering job postings up 5.2% from pre-pandemic baseline'')])"
  using assms
  by (auto simp: simulatedData_def bind_result_eq_Return dest!: array_from_length get_prop_prop_of)


section \<open>Properties\<close>

text \<open>
  Claim C8. \<open>getSimulatedData\<close> throws exactly when the arguments are not
  \<open>accepted\<close>, whatever tool is asked for: the three entries of the object
  literal are all built before the lookup, so a request for employment data
  without \<open>symbols\<close>, or for stock data without \<open>days_back\<close>, fails.
\<close>

theorem getSimulatedData_throws_iff:
  "is_throw (getSimulatedData fmt now rnd toolName args) \<longleftrightarrow> \<not> accepted now args"
  by (simp add: getSimulatedData_def simulatedData_throws_iff)

theorem getSimulatedData_throws_iff_witness:
  "is_throw (getSimulatedData (\<lambda>q. []) 1700000000000 (\<lambda>k. 0) ''get_tech_employment_trends''
     (JObj [(''months_back'', JNum 6)]))"
  using getSimulatedData_throws_iff [of "\<lambda>q. []" 1700000000000 "\<lambda>k. 0"
      "''get_tech_employment_trends''" "JObj [(''months_back'', JNum 6)]"]
  by (simp add: accepted_def)

text \<open>
  Claim C17. On accepted arguments the fallback for stock data has one entry for
  each element of \<open>args.symbols\<close>, in order, and the entry's \<open>symbol\<close> is that
  element.
\<close>

theorem getSimulatedData_stock_symbols:
  assumes "accepted now args" and "get_prop args ''symbols'' = Return (JArr xs)"
  shows "\<exists>ys. getSimulatedData fmt now rnd ''get_stock_financial_data'' args
           = Return (JObj [(''stocks'', JArr ys), (''last_updated'', JStr (iso_string now))])
         \<and> length ys = length xs
         \<and> (\<forall>i<length xs. get_prop (ys ! i) ''symbol'' = Return (xs ! i))"
proof -
  from assms(1) obtain table where t: "simulatedData fmt now rnd args = Return table"
    by (rule simulatedData_accepted)
  let ?ys = "map (\<lambda>(i, x). stock_entry fmt rnd i x) (enumerate 0 xs)"
  from simulatedData_stocks [OF t] assms(2)
  have "getSimulatedData fmt now rnd ''get_stock_financial_data'' args
      = Return (JObj [(''stocks'', JArr ?ys), (''last_updated'', JStr (iso_string now))])"
    using t by (auto simp: getSimulatedData_def)
  moreover have "\<forall>i<length xs. get_prop (?ys ! i) ''symbol'' = Return (xs ! i)"
    by (simp add: nth_enumerate_eq stock_entry_def)
  ultimately show ?thesis by auto
qed

lemma accepted_example:
  "accepted 1700000000000
     (JObj [(''symbols'', JArr [JStr ''AAA'', JStr ''BBB'']), (''days_back'', JNum 7),
            (''months_back'', JNum 6)])"
  by (simp add: accepted_def max_time_def to_length_def rat_trunc_def month_start_def upt_rec)

theorem getSimulatedData_stock_symbols_witness:
  "\<exists>ys. getSimulatedData (\<lambda>q. []) 1700000000000 (\<lambda>k. 0) ''get_stock_financial_data''
          (JObj [(''symbols'', JArr [JStr ''AAA'', JStr ''BBB'']), (''days_back'', JNum 7),
                 (''months_back'', JNum 6)])
        = Return (JObj [(''stocks'', JArr ys), (''last_updated'', JStr (iso_string 1700000000000))])
      \<and> length ys = 2
      \<and> get_prop (ys ! 0) ''symbol'' = Return (JStr ''AAA'')
      \<and> get_prop (ys ! 1) ''symbol'' = Return (JStr ''BBB'')"
  using getSimulatedData_stock_symbols [OF accepted_example, of "[JStr ''AAA'', JStr ''BBB'']"
      "\<lambda>q. []" "\<lambda>k. 0"]
  by (auto simp: numeral_2_eq_2)

text \<open>
  Claim C32. For a tool name that is none of the three known ones, the fallback
  on accepted arguments is \<open>null\<close>.
\<close>

theorem getSimulatedData_unknown_tool:
  assumes "accepted now args"
    and "toolName \<notin> {''get_stock_financial_data'', ''get_ai_company_news'',
                      ''get_tech_employment_trends''}"
  shows "getSimulatedData fmt now rnd toolName args = Return JNull"
proof -
  from assms(1) obtain table where t: "simulatedData fmt now rnd args = Return table"
    by (rule simulatedData_accepted)
  from assms(2) have "toolName \<notin> set (map fst table)"
    unfolding simulatedData_keys [OF t] by simp
  then have "map_of table toolName = None"
    by (simp add: map_of_eq_None_iff)
  with t show ?thesis by (simp add: getSimulatedData_def)
qed

theorem getSimulatedData_unknown_tool_witness:
  "getSimulatedData (\<lambda>q. []) 1700000000000 (\<lambda>k. 0) ''get_weather''
     (JObj [(''symbols'', JArr [JStr ''AAA'', JStr ''BBB'']), (''days_back'', JNum 7),
            (''months_back'', JNum 6)]) = Return JNull"
  using getSimulatedData_unknown_tool [OF accepted_example, of "''get_weather''" "\<lambda>q. []" "\<lambda>k. 0"]
  by simp

end
