(* ===== verification/Notification.thy ===== *)
theory Notification
  imports Js_Prelude
begin

text \<open>
  The function \<open>showNotification\<close> of \<^verbatim>\<open>src/dashboard-script.js\<close> (lines 411 to
  436) and the two timeouts it sets. The state is the list of notification
  elements that are children of the page body, oldest first. Of an element the
  class, the text, the background colour and the running animation are kept;
  the other style properties are constants of the style sheet.

  Every notification fades 3000 ms after it was shown and is removed 300 ms
  after that. Timeouts of equal delay fire in the order they were set, so the
  timeout that fades is always that of the oldest element not fading yet
  (\<open>notification_fade\<close>) and the timeout that removes is that of the oldest
  element (\<open>notification_remove\<close>).
\<close>

record notification =
  className :: string
  textContent :: string
  background :: string
  animation :: string

definition new_notification :: "string \<Rightarrow> string \<Rightarrow> notification" where
  "new_notification message type =
     \<lparr>className = ''notification notification-'' @ type,
      textContent = message,
      background = (if type = ''success'' then ''#10b981'' else ''#3b82f6''),
      animation = ''slideInRight 0.3s ease''\<rparr>"

definition showNotification :: "string \<Rightarrow> string \<Rightarrow> notification list \<Rightarrow> notification list" where
  "showNotification message type body = body @ [new_notification message type]"

definition fading :: "notification \<Rightarrow> bool" where
  "fading n \<longleftrightarrow> animation n = ''slideOutRight 0.3s ease''"

fun notification_fade :: "notification list \<Rightarrow> notification list" where
  "notification_fade [] = []"
| "notification_fade (n # rest) =
     (if fading n then n # notification_fade rest
      else n\<lparr>animation := ''slideOutRight 0.3s ease''\<rparr> # rest)"

definition notification_remove :: "notification list \<Rightarrow> notification list" where
  "notification_remove body =
     (case body of [] \<Rightarrow> [] | n # rest \<Rightarrow> if fading n then rest else body)"

definition fading_first :: "notification list \<Rightarrow> bool" where
  "fading_first body \<longleftrightarrow> list_all (\<lambda>n. \<not> fading n) (dropWhile fading body)"

definition shown :: "notification list \<Rightarrow> nat" where
  "shown body = length (filter (\<lambda>n. \<not> fading n) body)"

section \<open>The elements\<close>

lemma new_notification_simps [simp]:
  "className (new_notification m ty) = ''notification notification-'' @ ty"
  "textContent (new_notification m ty) = m"
  "background (new_notification m ty) = (if ty = ''success'' then ''#10b981'' else ''#3b82f6'')"
  "\<not> fading (new_notification m ty)"
  by (simp_all add: new_notification_def fading_def)

lemma fading_update [simp]: "fading (n\<lparr>animation := ''slideOutRight 0.3s ease''\<rparr>)"
  by (simp add: fading_def)

lemma length_showNotification [simp]: "length (showNotification m ty body) = Suc (length body)"
  by (simp add: showNotification_def)

lemma length_notification_fade [simp]: "length (notification_fade body) = length body"
  by (induction body) simp_all

lemma map_textContent_fade [simp]:
  "map textContent (notification_fade body) = map textContent body"
  by (induction body) simp_all

lemma notification_remove_simps [simp]:
  "notification_remove [] = []"
  "fading n \<Longrightarrow> notification_remove (n # rest) = rest"
  "\<not> fading n \<Longrightarrow> notification_remove (n # rest) = n # rest"
  by (simp_all add: notification_remove_def)

section \<open>The order of fading\<close>

lemma fading_first_Nil [simp]: "fading_first []"
  by (simp add: fading_first_def)

lemma fading_first_Cons:
  "fading_first (n # body) \<longleftrightarrow>
     (if fading n then fading_first body else list_all (\<lambda>n. \<not> fading n) body)"
  by (simp add: fading_first_def)

lemma fading_first_none: "list_all (\<lambda>n. \<not> fading n) body \<Longrightarrow> fading_first body"
  by (cases body) (simp_all add: fading_first_Cons)

lemma fading_first_show: "fading_first body \<Longrightarrow> fading_first (showNotification m ty body)"
  by (induction body) (auto simp: fading_first_Cons showNotification_def)

lemma fading_first_fade: "fading_first body \<Longrightarrow> fading_first (notification_fade body)"
  by (induction body) (auto simp: fading_first_Cons fading_first_none)

lemma fading_first_remove: "fading_first body \<Longrightarrow> fading_first (notification_remove body)"
  by (cases body) (auto simp: fading_first_Cons notification_remove_def fading_first_def)

lemma fading_first_append:
  "fading_first ns \<Longrightarrow> list_all (\<lambda>n. \<not> fading n) ms \<Longrightarrow> fading_first (ns @ ms)"
  by (induction ns) (auto simp: fading_first_Cons fading_first_none)

lemmas fading_first_preserved = fading_first_show fading_first_fade fading_first_remove

lemma shown_fade: "shown (notification_fade body) = shown body - 1"
  by (induction body) (auto simp: shown_def)

lemma shown_0_iff: "shown body = 0 \<longleftrightarrow> list_all fading body"
  by (induction body) (auto simp: shown_def)

lemma shown_funpow_fade: "shown ((notification_fade ^^ k) body) = shown body - k"
  by (induction k) (simp_all add: shown_fade)

lemma remove_all_fading:
  "list_all fading body \<Longrightarrow> (notification_remove ^^ length body) body = []"
proof (induction body)
  case Nil
  show ?case by simp
next
  case (Cons n body)
  then show ?case by (simp add: funpow_swap1)
qed

end
