(* ===== verification/Mcp_Tool.thy ===== *)
theory Mcp_Tool
  imports Data_Cache Mcp_Config Simulated_Data Notification
begin

text \<open>
  The function \<open>callMCPTool\<close> of \<^verbatim>\<open>src/dashboard-script.js\<close> (lines 59 to 103)
  over the state it touches: the global \<open>dataCache\<close> and the notifications that
  \<open>showNotification\<close> has put on the page (\<open>notify\<close> is \<open>showNotification\<close> on
  that part of the state). The operations are stated for every extension of the
  record \<open>dashboard\<close>, so that they apply to the state of the whole page.

  The function is \<open>async\<close>. It runs without interruption up to its first
  \<open>await\<close> (\<open>callMCPTool_start\<close>: the cache is read, and on a miss the request is
  handed to \<open>fetch\<close>) and again from the settled response to its end
  (\<open>callMCPTool_resume\<close>); other handlers may run in between. The answer of the
  backend is a \<open>fetch_outcome\<close>: the promise of \<open>fetch\<close> rejects, or there is a
  response with its \<open>ok\<close> flag, its status text and the value \<open>response.json()\<close>
  gives (none when the body is not JSON). \<open>callMCPTool\<close> is a call that nothing
  interleaves with; the two clock readings are \<open>t0\<close> (at the cache read) and
  \<open>t1\<close> (when the response is handled). Writes to the console are not modelled.
\<close>

section \<open>State, requests, outcomes\<close>

record dashboard =
  dataCache :: DataCache
  notifications :: "notification list"

record http_request =
  url :: string
  http_method :: string
  content_type :: string
  body :: "string option"

datatype fetch_outcome = FetchRejected | Response bool string "jsval option"

datatype started = Done jsval | Awaiting http_request

definition empty_dashboard :: dashboard where
  "empty_dashboard = \<lparr>dataCache = DataCache_new, notifications = []\<rparr>"

definition notify :: "string \<Rightarrow> string \<Rightarrow> 'a dashboard_scheme \<Rightarrow> 'a dashboard_scheme" where
  "notify message type st = st\<lparr>notifications := showNotification message type (notifications st)\<rparr>"

definition cacheKey :: "num_render \<Rightarrow> string \<Rightarrow> jsval \<Rightarrow> string" where
  "cacheKey fmt toolName args =
     toolName @ ''-'' @ (case stringify fmt args of None \<Rightarrow> ''undefined'' | Some s \<Rightarrow> s)"

definition mcp_request :: "num_render \<Rightarrow> string \<Rightarrow> jsval \<Rightarrow> http_request" where
  "mcp_request fmt toolName args =
     \<lparr>url = API_BASE_URL MCP_CONFIG @ ''/api/mcp/call-tool'',
      http_method = ''POST'',
      content_type = ''application/json'',
      body = stringify fmt (JObj [(''name'', JStr toolName), (''arguments'', args)])\<rparr>"

section \<open>callMCPTool\<close>

definition callMCPTool_start ::
  "num_render \<Rightarrow> int \<Rightarrow> string \<Rightarrow> jsval \<Rightarrow> 'a dashboard_scheme
     \<Rightarrow> started \<times> 'a dashboard_scheme" where
  "callMCPTool_start fmt now toolName args st =
     (let (cached, c) = DataCache_get now (cacheKey fmt toolName args) (dataCache st)
      in if truthy cached then (Done cached, st\<lparr>dataCache := c\<rparr>)
         else (Awaiting (mcp_request fmt toolName args), st\<lparr>dataCache := c\<rparr>))"

definition callMCPTool_resume ::
  "num_render \<Rightarrow> int \<Rightarrow> rng \<Rightarrow> string \<Rightarrow> jsval \<Rightarrow> fetch_outcome \<Rightarrow> 'a dashboard_scheme
     \<Rightarrow> jsval js_result \<times> 'a dashboard_scheme" where
  "callMCPTool_resume fmt now rnd toolName args outcome st =
     (case outcome of
        Response True status (Some d) \<Rightarrow>
          (Return d,
           st\<lparr>dataCache :=
                DataCache_set now (cacheKey fmt toolName args) d (cacheDuration toolName)
                  (dataCache st)\<rparr>)
      | _ \<Rightarrow>
          (getSimulatedData fmt now rnd toolName args,
           notify (''Unable to fetch '' @ toolName @ '' data. Using simulated data.'')
             ''warning'' st))"

definition callMCPTool ::
  "num_render \<Rightarrow> int \<Rightarrow> int \<Rightarrow> rng \<Rightarrow> fetch_outcome \<Rightarrow> string \<Rightarrow> jsval \<Rightarrow> 'a dashboard_scheme
     \<Rightarrow> jsval js_result \<times> 'a dashboard_scheme" where
  "callMCPTool fmt t0 t1 rnd outcome toolName args st =
     (case callMCPTool_start fmt t0 toolName args st of
        (Done d, st') \<Rightarrow> (Return d, st')
      | (Awaiting request, st') \<Rightarrow> callMCPTool_resume fmt t1 rnd toolName args outcome st')"

definition succeeded :: "fetch_outcome \<Rightarrow> jsval option" where
  "succeeded outcome =
     (case outcome of Response True status (Some d) \<Rightarrow> Some d | _ \<Rightarrow> None)"

definition hit :: "num_render \<Rightarrow> int \<Rightarrow> string \<Rightarrow> jsval \<Rightarrow> 'a dashboard_scheme \<Rightarrow> bool" where
  "hit fmt now toolName args st \<longleftrightarrow>
     truthy (answer (visible now (dataCache st) (cacheKey fmt toolName args)))"

section \<open>The branches\<close>

lemma succeeded_simps [simp]:
  "succeeded FetchRejected = None"
  "succeeded (Response False status b) = None"
  "succeeded (Response True status None) = None"
  "succeeded (Response True status (Some d)) = Some d"
  by (simp_all add: succeeded_def)

lemma succeeded_cases:
  obtains (ok) status d where "outcome = Response True status (Some d)"
  | (failed) "succeeded outcome = None"
proof (cases outcome)
  case FetchRejected
  then show ?thesis by (simp add: failed)
next
  case (Response b status payload)
  then show ?thesis
    by (cases b; cases payload) (auto intro: ok failed)
qed

lemma callMCPTool_start_hit:
  assumes "hit fmt now toolName args st"
  shows "callMCPTool_start fmt now toolName args st
    = (Done (answer (visible now (dataCache st) (cacheKey fmt toolName args))), st)"
proof -
  let ?key = "cacheKey fmt toolName args"
  from assms have "visible now (dataCache st) ?key \<noteq> None"
    by (cases "visible now (dataCache st) ?key") (auto simp: hit_def)
  then have "snd (DataCache_get now ?key (dataCache st)) = dataCache st"
    by (cases rule: DataCache_get_cases [where c = "dataCache st" and key = ?key and now = now])
      (simp_all add: DataCache_get_branches visible_def)
  with assms show ?thesis
    by (simp add: callMCPTool_start_def split_beta fst_DataCache_get hit_def)
qed

lemma callMCPTool_start_miss:
  assumes "\<not> hit fmt now toolName args st"
  shows "callMCPTool_start fmt now toolName args st
    = (Awaiting (mcp_request fmt toolName args),
       st\<lparr>dataCache := snd (DataCache_get now (cacheKey fmt toolName args) (dataCache st))\<rparr>)"
  using assms by (simp add: callMCPTool_start_def split_beta fst_DataCache_get hit_def)

lemma callMCPTool_resume_ok:
  "callMCPTool_resume fmt now rnd toolName args (Response True status (Some d)) st
    = (Return d,
       st\<lparr>dataCache := DataCache_set now (cacheKey fmt toolName args) d (cacheDuration toolName)
            (dataCache st)\<rparr>)"
  by (simp add: callMCPTool_resume_def)

lemma callMCPTool_resume_failed:
  assumes "succeeded outcome = None"
  shows "callMCPTool_resume fmt now rnd toolName args outcome st
    = (getSimulatedData fmt now rnd toolName args,
       notify (''Unable to fetch '' @ toolName @ '' data. Using simulated data.'')
         ''warning'' st)"
  using assms
  by (auto simp: callMCPTool_resume_def succeeded_def
      split: fetch_outcome.splits bool.splits option.splits)

lemma callMCPTool_hit:
  "hit fmt t0 toolName args st \<Longrightarrow>
     callMCPTool fmt t0 t1 rnd outcome toolName args st
       = (Return (answer (visible t0 (dataCache st) (cacheKey fmt toolName args))), st)"
  by (simp add: callMCPTool_def callMCPTool_start_hit)

lemma callMCPTool_miss:
  "\<not> hit fmt t0 toolName args st \<Longrightarrow>
     callMCPTool fmt t0 t1 rnd outcome toolName args st
       = callMCPTool_resume fmt t1 rnd toolName args outcome
           (st\<lparr>dataCache := snd (DataCache_get t0 (cacheKey fmt toolName args) (dataCache st))\<rparr>)"
  by (simp add: callMCPTool_def callMCPTool_start_miss)

lemmas callMCPTool_branches =
  callMCPTool_hit callMCPTool_miss callMCPTool_resume_ok callMCPTool_resume_failed

lemma dataCache_notify [simp]: "dataCache (notify m ty st) = dataCache st"
  and notifications_notify [simp]:
    "notifications (notify m ty st) = notifications st @ [new_notification m ty]"
  by (simp_all add: notify_def showNotification_def)

lemma hit_notify [simp]:
  "hit fmt t toolName args (notify m ty st) = hit fmt t toolName args st"
  by (simp add: hit_def)

lemma hit_empty_dashboard [simp]: "\<not> hit fmt t toolName args empty_dashboard"
  by (simp add: hit_def empty_dashboard_def visible_def DataCache_new_def)

lemma miss_persists:
  assumes "\<not> hit fmt t0 toolName args st"
  shows "\<not> hit fmt t toolName args
    (st\<lparr>dataCache := snd (DataCache_get t0 (cacheKey fmt toolName args) (dataCache st))\<rparr>)"
  using assms answer_visible_other_time [of t0 "dataCache st" "cacheKey fmt toolName args" t]
  by (auto simp: hit_def visible_after_get)

lemma hit_after_set:
  "hit fmt t toolName args
     (st\<lparr>dataCache := DataCache_set t1 (cacheKey fmt toolName args) d dur c\<rparr>)
     \<longleftrightarrow> truthy d \<and> t - t1 \<le> dur"
  by (auto simp: hit_def visible_def DataCache_set_def expired_def)

section \<open>Properties\<close>

text \<open>
  Claim C1. After a call that missed the cache and got a successful response
  with a truthy payload \<open>d\<close> at time \<open>t1\<close>, a call with the same tool and
  arguments at a time \<open>t2\<close> with \<open>t2 - t1\<close> at most the tool's duration is
  answered with \<open>d\<close> before any request is made, and changes nothing.
\<close>

theorem callMCPTool_second_call_hits:
  assumes "\<not> hit fmt t0 toolName args st" and "truthy d"
    and "t2 - t1 \<le> cacheDuration toolName"
    and "st1 = snd (callMCPTool fmt t0 t1 rnd (Response True status (Some d)) toolName args st)"
  shows "callMCPTool_start fmt t2 toolName args st1 = (Done d, st1)"
proof -
  from assms have "hit fmt t2 toolName args st1"
    by (simp add: callMCPTool_branches hit_after_set)
  from callMCPTool_start_hit [OF this] assms show ?thesis
    by (simp add: callMCPTool_branches visible_def DataCache_set_def expired_def)
qed

theorem callMCPTool_second_call_hits_witness:
  "callMCPTool_start (\<lambda>q. []) 61000 ''get_ai_company_news'' (JObj [(''company'', JStr ''OpenAI'')])
     (snd (callMCPTool (\<lambda>q. []) 0 1000 (\<lambda>k. 0) (Response True ''OK'' (Some (JObj [])))
        ''get_ai_company_news'' (JObj [(''company'', JStr ''OpenAI'')]) empty_dashboard))
   = (Done (JObj []),
      snd (callMCPTool (\<lambda>q. []) 0 1000 (\<lambda>k. 0) (Response True ''OK'' (Some (JObj [])))
        ''get_ai_company_news'' (JObj [(''company'', JStr ''OpenAI'')]) empty_dashboard))"
  by (rule callMCPTool_second_call_hits [where ?t0.0 = 0 and ?t1.0 = 1000 and rnd = "\<lambda>k. 0"
        and status = "''OK''" and st = empty_dashboard])
    (simp_all add: cacheDuration_cases)

text \<open>
  Claim C2. The simulated fallback is never cached: after a call that missed the
  cache and whose request failed, a call with the same tool and arguments
  misses again, at whatever time it is made.
\<close>

theorem callMCPTool_fallback_not_cached:
  assumes "\<not> hit fmt t0 toolName args st" and "succeeded outcome = None"
  shows "\<not> hit fmt t toolName args (snd (callMCPTool fmt t0 t1 rnd outcome toolName args st))"
  using assms by (simp add: callMCPTool_branches miss_persists)

theorem callMCPTool_fallback_not_cached_witness:
  "\<not> hit (\<lambda>q. []) 2 ''get_ai_company_news'' (JObj [(''company'', JStr ''OpenAI'')])
     (snd (callMCPTool (\<lambda>q. []) 0 1 (\<lambda>k. 0) FetchRejected
        ''get_ai_company_news'' (JObj [(''company'', JStr ''OpenAI'')]) empty_dashboard))"
  by (rule callMCPTool_fallback_not_cached) simp_all

text \<open>
  Claim C16. Once more than the tool's duration has passed since a successful
  response was stored, a call with the same tool and arguments issues a new
  request.
\<close>

theorem callMCPTool_refetch_after_ttl:
  assumes "\<not> hit fmt t0 toolName args st"
    and "t2 - t1 > cacheDuration toolName"
    and "st1 = snd (callMCPTool fmt t0 t1 rnd (Response True status (Some d)) toolName args st)"
  shows "fst (callMCPTool_start fmt t2 toolName args st1) = Awaiting (mcp_request fmt toolName args)"
  using assms by (simp add: callMCPTool_branches hit_after_set callMCPTool_start_miss)

theorem callMCPTool_refetch_after_ttl_witness:
  "fst (callMCPTool_start (\<lambda>q. []) 61001 ''get_ai_company_news''
          (JObj [(''company'', JStr ''OpenAI'')])
     (snd (callMCPTool (\<lambda>q. []) 0 1000 (\<lambda>k. 0) (Response True ''OK'' (Some (JObj [])))
        ''get_ai_company_news'' (JObj [(''company'', JStr ''OpenAI'')]) empty_dashboard)))
   = Awaiting (mcp_request (\<lambda>q. []) ''get_ai_company_news'' (JObj [(''company'', JStr ''OpenAI'')]))"
  by (rule callMCPTool_refetch_after_ttl [where ?t0.0 = 0 and ?t1.0 = 1000 and rnd = "\<lambda>k. 0"
        and status = "''OK''" and st = empty_dashboard and d = "JObj []"])
    (simp_all add: cacheDuration_cases)

text \<open>
  Claim C19. A successful response whose payload is falsy (\<open>null\<close>, \<open>false\<close>, \<open>0\<close>,
  \<open>NaN\<close> or the empty string) is stored but never served: the next call with
  the same tool and arguments issues a new request, however soon it is made.
\<close>

theorem callMCPTool_falsy_payload_refetched:
  assumes "\<not> hit fmt t0 toolName args st" and "\<not> truthy d"
    and "st1 = snd (callMCPTool fmt t0 t1 rnd (Response True status (Some d)) toolName args st)"
  shows "fst (callMCPTool_start fmt t2 toolName args st1) = Awaiting (mcp_request fmt toolName args)"
  using assms by (simp add: callMCPTool_branches hit_after_set callMCPTool_start_miss)

theorem callMCPTool_falsy_payload_refetched_witness:
  "fst (callMCPTool_start (\<lambda>q. []) 1000 ''get_ai_company_news''
          (JObj [(''company'', JStr ''OpenAI'')])
     (snd (callMCPTool (\<lambda>q. []) 0 1000 (\<lambda>k. 0) (Response True ''OK'' (Some JNull))
        ''get_ai_company_news'' (JObj [(''company'', JStr ''OpenAI'')]) empty_dashboard)))
   = Awaiting (mcp_request (\<lambda>q. []) ''get_ai_company_news'' (JObj [(''company'', JStr ''OpenAI'')]))"
  by (rule callMCPTool_falsy_payload_refetched [where ?t0.0 = 0 and ?t1.0 = 1000
        and rnd = "\<lambda>k. 0" and status = "''OK''" and st = empty_dashboard and d = JNull])
    simp_all

text \<open>
  Claim C7. \<open>callMCPTool\<close> throws exactly when the cache misses, the request
  fails and the arguments are not accepted by \<open>getSimulatedData\<close>: the fallback
  runs inside the \<open>catch\<close> block, so its exception leaves the function.
\<close>

theorem callMCPTool_throws_iff:
  "is_throw (fst (callMCPTool fmt t0 t1 rnd outcome toolName args st)) \<longleftrightarrow>
     \<not> hit fmt t0 toolName args st \<and> succeeded outcome = None \<and> \<not> accepted t1 args"
  by (cases "hit fmt t0 toolName args st"; cases outcome rule: succeeded_cases)
    (simp_all add: callMCPTool_branches getSimulatedData_def simulatedData_throws_iff)

theorem callMCPTool_throws_iff_witness:
  "is_throw (fst (callMCPTool (\<lambda>q. []) 0 1 (\<lambda>k. 0) FetchRejected
        ''get_ai_company_news'' (JObj [(''company'', JStr ''OpenAI'')]) empty_dashboard))"
  using callMCPTool_throws_iff [of "\<lambda>q. []" 0 1 "\<lambda>k. 0" FetchRejected
      "''get_ai_company_news''" "JObj [(''company'', JStr ''OpenAI'')]" empty_dashboard]
  by (simp add: accepted_def)

text \<open>
  Claim C29. A call puts one warning on the page when it misses the cache and the
  request fails, and none otherwise; earlier notifications are kept.
\<close>

theorem callMCPTool_notifications:
  "notifications (snd (callMCPTool fmt t0 t1 rnd outcome toolName args st)) =
     (if \<not> hit fmt t0 toolName args st \<and> succeeded outcome = None
      then notifications st
        @ [new_notification (''Unable to fetch '' @ toolName @ '' data. Using simulated data.'')
             ''warning'']
      else notifications st)"
  by (cases "hit fmt t0 toolName args st"; cases outcome rule: succeeded_cases)
    (simp_all add: callMCPTool_branches)

text \<open>
  Claim C28. Requests are not coalesced: while a request for a tool and arguments
  is in flight, a second call with the same tool and arguments misses the cache
  too and issues a request of its own.
\<close>

theorem callMCPTool_no_coalescing:
  assumes "\<not> hit fmt t0 toolName args st"
    and "st1 = snd (callMCPTool_start fmt t0 toolName args st)"
  shows "fst (callMCPTool_start fmt t toolName args st1) = Awaiting (mcp_request fmt toolName args)"
  using assms miss_persists [OF assms(1), of t]
  by (simp add: callMCPTool_start_miss)

theorem callMCPTool_no_coalescing_witness:
  "fst (callMCPTool_start (\<lambda>q. []) 1 ''get_ai_company_news'' (JObj [(''company'', JStr ''OpenAI'')])
     (snd (callMCPTool_start (\<lambda>q. []) 0 ''get_ai_company_news''
        (JObj [(''company'', JStr ''OpenAI'')]) empty_dashboard)))
   = Awaiting (mcp_request (\<lambda>q. []) ''get_ai_company_news'' (JObj [(''company'', JStr ''OpenAI'')]))"
  by (rule callMCPTool_no_coalescing [where ?t0.0 = 0 and st = empty_dashboard]) simp_all



end
