(* ===== verification/Animate_Value.thy ===== *)
theory Animate_Value
  imports Mcp_Tool
begin

text \<open>
  The page of the dashboard and the function \<open>animateValue\<close> of
  \<^verbatim>\<open>src/dashboard-script.js\<close> (lines 391 to 408).

  The record \<open>page\<close> extends the state of \<open>callMCPTool\<close> by the elements the
  script writes: the text of the three KPI values, the three change indicators,
  the status label, the time of the last update, and the intervals that
  \<open>setInterval\<close> has started and \<open>clearInterval\<close> has not stopped. Of the markup
  written to an indicator the model keeps which of the two arrows it draws and
  the text of its \<^verbatim>\<open>span\<close>. The elements are taken to exist in the document.

  \<open>animateValue\<close> starts an interval; \<open>interval_tick\<close> is one run of its callback.
  An interval that has been cleared does not run again. \<open>tick_interval\<close> is
  what a tick does to the interval itself, and \<open>animation el s e d pre suf m\<close>
  is the interval of an animation from \<open>s\<close> to \<open>e\<close> after \<open>m\<close> ticks.
\<close>

datatype kpi = SentimentValue | DevActivityValue | PortfolioValue

record indicator =
  indicator_class :: string
  arrow_up :: bool
  label :: string

record interval =
  target :: kpi
  current :: jsnum
  end_value :: jsnum
  increment :: jsnum
  prefix :: string
  suffix :: string

record page = dashboard +
  kpi_text :: "kpi \<Rightarrow> string"
  sentimentChange :: indicator
  sentimentStatus :: "string \<times> string"
  devActivityChange :: indicator
  portfolioChange :: indicator
  lastUpdated :: string
  intervals :: "nat \<rightharpoonup> interval"
  next_interval :: nat

definition animateValue ::
  "kpi \<Rightarrow> jsnum \<Rightarrow> jsnum \<Rightarrow> jsnum \<Rightarrow> string \<Rightarrow> string \<Rightarrow> 'a page_scheme \<Rightarrow> 'a page_scheme" where
  "animateValue el start end dur pre suf st =
     (let range = end - start;
          inc = range / (dur / 16)
      in st\<lparr>intervals := (intervals st)(next_interval st \<mapsto>
                \<lparr>target = el, current = start, end_value = end, increment = inc,
                 prefix = pre, suffix = suf\<rparr>),
            next_interval := Suc (next_interval st)\<rparr>)"

definition next_value :: "interval \<Rightarrow> jsnum" where
  "next_value a = current a + increment a"

definition finished :: "interval \<Rightarrow> bool" where
  "finished a \<longleftrightarrow>
     js_gt (increment a) 0 \<and> js_ge (next_value a) (end_value a) \<or>
     js_lt (increment a) 0 \<and> js_le (next_value a) (end_value a)"

definition displayValue :: "num_render \<Rightarrow> string \<Rightarrow> string \<Rightarrow> jsnum \<Rightarrow> string" where
  "displayValue fmt suf text x =
     (if suf = ''%'' then to_fixed fmt 1 x
      else if CHR ''.'' \<in> set text then to_fixed fmt 1 x
      else number_to_string fmt (math_floor x))"

definition interval_tick :: "num_render \<Rightarrow> nat \<Rightarrow> 'a page_scheme \<Rightarrow> 'a page_scheme" where
  "interval_tick fmt timer st =
     (case intervals st timer of
        None \<Rightarrow> st
      | Some a \<Rightarrow>
          (let cur = (if finished a then end_value a else next_value a)
           in st\<lparr>intervals :=
                    (if finished a then (intervals st)(timer := None)
                     else (intervals st)(timer \<mapsto> a\<lparr>current := cur\<rparr>)),
                  kpi_text := (kpi_text st)(target a :=
                    prefix a @ displayValue fmt (suffix a) (kpi_text st (target a)) cur)\<rparr>))"

definition tick_interval :: "interval option \<Rightarrow> interval option" where
  "tick_interval x =
     (case x of
        None \<Rightarrow> None
      | Some a \<Rightarrow> if finished a then None else Some (a\<lparr>current := next_value a\<rparr>))"

definition animation :: "kpi \<Rightarrow> rat \<Rightarrow> rat \<Rightarrow> rat \<Rightarrow> string \<Rightarrow> string \<Rightarrow> rat \<Rightarrow> interval" where
  "animation el s e d pre suf m =
     \<lparr>target = el, current = Fin (s + m * ((e - s) / (d / 16))), end_value = Fin e,
      increment = Fin ((e - s) / (d / 16)), prefix = pre, suffix = suf\<rparr>"

definition blank_page :: "(kpi \<Rightarrow> string) \<Rightarrow> page" where
  "blank_page texts =
     \<lparr>dataCache = DataCache_new, notifications = [], kpi_text = texts,
      sentimentChange = \<lparr>indicator_class = [], arrow_up = True, label = []\<rparr>,
      sentimentStatus = ([], []),
      devActivityChange = \<lparr>indicator_class = [], arrow_up = True, label = []\<rparr>,
      portfolioChange = \<lparr>indicator_class = [], arrow_up = True, label = []\<rparr>,
      lastUpdated = [], intervals = Map.empty, next_interval = 0\<rparr>"

section \<open>One tick\<close>

lemma intervals_tick:
  "intervals (interval_tick fmt timer st) =
     (intervals st)(timer := tick_interval (intervals st timer))"
  by (auto simp: interval_tick_def tick_interval_def Let_def split: option.splits)

lemma intervals_tick_same [simp]:
  "intervals (interval_tick fmt timer st) timer = tick_interval (intervals st timer)"
  by (simp add: intervals_tick)

lemma intervals_tick_other [simp]:
  "t \<noteq> timer \<Longrightarrow> intervals (interval_tick fmt timer st) t = intervals st t"
  by (simp add: intervals_tick)

lemma intervals_funpow_tick:
  "intervals ((interval_tick fmt timer ^^ k) st) timer = (tick_interval ^^ k) (intervals st timer)"
  by (induction k) simp_all

lemma reach_iff:
  fixes s e d :: rat
  assumes "0 < d" and "s \<noteq> e"
  shows "(if s < e then e \<le> s + m * ((e - s) / (d / 16)) else s + m * ((e - s) / (d / 16)) \<le> e)
    \<longleftrightarrow> d \<le> m * 16"
proof -
  define q where "q = (m * 16 - d) / d"
  have eq: "s + m * ((e - s) / (d / 16)) - e = (e - s) * q"
    using assms(1) by (simp add: q_def field_simps)
  have q: "0 \<le> q \<longleftrightarrow> d \<le> m * 16"
    using assms(1) by (simp add: q_def zero_le_divide_iff)
  show ?thesis
  proof (cases "s < e")
    case True
    have "e \<le> s + m * ((e - s) / (d / 16)) \<longleftrightarrow> 0 \<le> (e - s) * q"
      using eq by linarith
    also have "\<dots> \<longleftrightarrow> 0 \<le> q"
      using True by (simp add: zero_le_mult_iff)
    finally show ?thesis using True q by simp
  next
    case False
    with assms(2) have lt: "e < s" by simp
    have "s + m * ((e - s) / (d / 16)) \<le> e \<longleftrightarrow> (e - s) * q \<le> 0"
      using eq by linarith
    also have "\<dots> \<longleftrightarrow> 0 \<le> q"
      using lt by (simp add: mult_le_0_iff)
    finally show ?thesis using False q by simp
  qed
qed

lemma add_step: "s + m * i + i = s + (m + 1) * (i :: rat)"
  by (simp add: algebra_simps)

lemma finished_animation:
  assumes "0 < d" and "s \<noteq> e"
  shows "finished (animation el s e d pre suf m) \<longleftrightarrow> d \<le> (m + 1) * 16"
proof -
  have "s + m * ((e - s) / (d / 16)) + (e - s) / (d / 16) = s + (m + 1) * ((e - s) / (d / 16))"
    by (rule add_step)
  moreover have "0 < (e - s) / (d / 16) \<longleftrightarrow> s < e" "(e - s) / (d / 16) < 0 \<longleftrightarrow> e < s"
    using assms(1) by (simp_all add: zero_less_divide_iff divide_less_0_iff)
  ultimately show ?thesis
    using reach_iff [OF assms, of "m + 1"] assms(2)
    by (auto simp: finished_def next_value_def animation_def js_gt_def js_ge_def)
qed

lemma animation_next:
  "(animation el s e d pre suf m)\<lparr>current := next_value (animation el s e d pre suf m)\<rparr>
     = animation el s e d pre suf (m + 1)"
proof -
  define i where "i = (e - s) / (d / 16)"
  have "animation el s e d pre suf m =
      \<lparr>target = el, current = Fin (s + m * i), end_value = Fin e, increment = Fin i,
       prefix = pre, suffix = suf\<rparr>" for m
    by (simp only: animation_def i_def)
  then show ?thesis by (simp add: next_value_def add_step)
qed

lemma tick_animation:
  assumes "0 < d" and "s \<noteq> e"
  shows "tick_interval (Some (animation el s e d pre suf m)) =
     (if d \<le> (m + 1) * 16 then None else Some (animation el s e d pre suf (m + 1)))"
  using finished_animation [OF assms, of el pre suf m]
  by (simp add: tick_interval_def animation_next)

lemma funpow_tick_animation:
  assumes "0 < d" and "s \<noteq> e" and "of_nat k * 16 < d"
  shows "(tick_interval ^^ k) (Some (animation el s e d pre suf 0))
    = Some (animation el s e d pre suf (of_nat k))"
  using assms(3)
proof (induction k)
  case 0
  show ?case by simp
next
  case (Suc k)
  then have "of_nat k * 16 < d" and "\<not> d \<le> (of_nat k + 1) * 16"
    by (simp_all add: algebra_simps)
  with Suc.IH show ?case by (simp add: tick_animation [OF assms(1,2)] add.commute)
qed

lemma kpi_text_tick:
  assumes "intervals st timer = Some a"
  shows "kpi_text (interval_tick fmt timer st) =
    (kpi_text st)(target a := prefix a @ displayValue fmt (suffix a) (kpi_text st (target a))
       (if finished a then end_value a else next_value a))"
  using assms by (simp add: interval_tick_def Let_def)

lemma interval_tick_cleared [simp]: "intervals st timer = None \<Longrightarrow> interval_tick fmt timer st = st"
  by (simp add: interval_tick_def)

lemma interval_tick_frame [simp]:
  "dataCache (interval_tick fmt timer st) = dataCache st"
  "notifications (interval_tick fmt timer st) = notifications st"
  "next_interval (interval_tick fmt timer st) = next_interval st"
  by (simp_all add: interval_tick_def Let_def split: option.splits)

lemma animation_simps [simp]:
  "target (animation el s e d pre suf m) = el"
  "end_value (animation el s e d pre suf m) = Fin e"
  "prefix (animation el s e d pre suf m) = pre"
  "suffix (animation el s e d pre suf m) = suf"
  by (simp_all add: animation_def)

lemma animateValue_frame [simp]:
  "dataCache (animateValue el start end dur pre suf st) = dataCache st"
  "notifications (animateValue el start end dur pre suf st) = notifications st"
  "kpi_text (animateValue el start end dur pre suf st) = kpi_text st"
  "sentimentChange (animateValue el start end dur pre suf st) = sentimentChange st"
  "sentimentStatus (animateValue el start end dur pre suf st) = sentimentStatus st"
  "devActivityChange (animateValue el start end dur pre suf st) = devActivityChange st"
  "portfolioChange (animateValue el start end dur pre suf st) = portfolioChange st"
  "lastUpdated (animateValue el start end dur pre suf st) = lastUpdated st"
  "next_interval (animateValue el start end dur pre suf st) = Suc (next_interval st)"
  by (simp_all add: animateValue_def Let_def)

lemma intervals_animateValue:
  "intervals (animateValue el start end dur pre suf st) =
     (intervals st)(next_interval st \<mapsto>
        \<lparr>target = el, current = start, end_value = end, increment = (end - start) / (dur / 16),
         prefix = pre, suffix = suf\<rparr>)"
  by (simp add: animateValue_def Let_def)

lemma animateValue_animation:
  "0 < d \<Longrightarrow> intervals (animateValue el (Fin s) (Fin e) (Fin d) pre suf st) (next_interval st)
     = Some (animation el s e d pre suf 0)"
  by (simp add: intervals_animateValue animation_def)

lemma ticks_needed:
  fixes d :: rat
  assumes "0 < d"
  shows "of_nat (nat \<lceil>d / 16\<rceil> - 1) * 16 < d" and "d \<le> (of_nat (nat \<lceil>d / 16\<rceil> - 1) + 1) * 16"
proof -
  define c :: rat where "c = of_int \<lceil>d / 16\<rceil>"
  from assms have "0 < \<lceil>d / 16\<rceil>" by simp
  then have n: "(of_nat (nat \<lceil>d / 16\<rceil> - 1) :: rat) = c - 1"
    by (simp add: c_def of_nat_diff nat_less_iff Suc_le_eq)
  have "c - 1 < d / 16" and "d / 16 \<le> c"
    unfolding c_def by linarith+
  then have "(c - 1) * 16 < d" and "d \<le> (c - 1 + 1) * 16"
    by (simp_all add: field_simps)
  then show "of_nat (nat \<lceil>d / 16\<rceil> - 1) * 16 < d"
    and "d \<le> (of_nat (nat \<lceil>d / 16\<rceil> - 1) + 1) * 16"
    unfolding n by simp_all
qed

text \<open>
  Claim C13. An animation between two different finite values with a positive
  duration \<open>d\<close> ends: the tick number \<open>\<lceil>d / 16\<rceil>\<close> of its interval, and no earlier
  one, clears the interval, and writes the prefix and the end value to the
  element.
\<close>

theorem animateValue_finishes:
  assumes "0 < d" and "s \<noteq> e"
    and "st1 = animateValue el (Fin s) (Fin e) (Fin d) pre suf st"
    and "timer = next_interval st" and "n = nat \<lceil>d / 16\<rceil>"
  shows "intervals ((interval_tick fmt timer ^^ n) st1) timer = None
    \<and> (\<forall>k<n. intervals ((interval_tick fmt timer ^^ k) st1) timer \<noteq> None)
    \<and> (\<exists>text. kpi_text ((interval_tick fmt timer ^^ n) st1) el
          = pre @ displayValue fmt suf text (Fin e))"
proof -
  let ?run = "\<lambda>k. (interval_tick fmt timer ^^ k) st1"
  from assms(1) have "0 < \<lceil>d / 16\<rceil>" by simp
  with assms(5) obtain m where n: "n = Suc m" and m: "m = nat \<lceil>d / 16\<rceil> - 1"
    by (cases n) auto
  have start: "intervals st1 timer = Some (animation el s e d pre suf 0)"
    using assms by (simp add: animateValue_animation)
  have running: "intervals (?run k) timer = Some (animation el s e d pre suf (of_nat k))"
    if "k < n" for k
  proof -
    from that n have "k \<le> m" by simp
    then have "(of_nat k :: rat) * 16 \<le> of_nat m * 16" by simp
    with ticks_needed(1) [OF assms(1)] m have "of_nat k * 16 < d" by simp
    then show ?thesis
      by (simp add: intervals_funpow_tick start funpow_tick_animation [OF assms(1,2)])
  qed
  have last: "intervals (?run m) timer = Some (animation el s e d pre suf (of_nat m))"
    using running [of m] n by simp
  have fin: "finished (animation el s e d pre suf (of_nat m))"
    using ticks_needed(2) [OF assms(1)] m by (simp add: finished_animation [OF assms(1,2)])
  have "intervals (?run n) timer = None"
    using last fin by (simp add: n tick_interval_def)
  moreover have "kpi_text (?run n) el
      = pre @ displayValue fmt suf (kpi_text (?run m) el) (Fin e)"
    using fin by (simp add: n kpi_text_tick [OF last])
  ultimately show ?thesis using running by auto
qed

theorem animateValue_finishes_witness:
  "intervals ((interval_tick (\<lambda>q. []) 0 ^^ 63)
      (animateValue SentimentValue (Fin 70) (Fin 75) (Fin 1000) [] []
         (blank_page (\<lambda>el. ''70'')))) 0 = None
   \<and> intervals ((interval_tick (\<lambda>q. []) 0 ^^ 62)
      (animateValue SentimentValue (Fin 70) (Fin 75) (Fin 1000) [] []
         (blank_page (\<lambda>el. ''70'')))) 0 \<noteq> None
   \<and> (\<exists>text. kpi_text ((interval_tick (\<lambda>q. []) 0 ^^ 63)
      (animateValue SentimentValue (Fin 70) (Fin 75) (Fin 1000) [] []
         (blank_page (\<lambda>el. ''70'')))) SentimentValue
        = displayValue (\<lambda>q. []) [] text (Fin 75))"
  using animateValue_finishes [where st = "blank_page (\<lambda>el. ''70'')" and d = 1000
      and s = 70 and e = 75 and n = 63 and timer = 0 and fmt = "\<lambda>q. []" and pre = "[]"
      and suf = "[]" and el = SentimentValue, OF _ _ refl]
  by (simp add: blank_page_def ceiling_def)

lemma never_finished:
  assumes "increment a = Fin 0 \<or> increment a = NaN"
  shows "(tick_interval ^^ k) (Some a) \<noteq> None"
  using assms
proof (induction k arbitrary: a)
  case 0
  show ?case by simp
next
  case (Suc k)
  from Suc.prems have "\<not> finished a"
    by (auto simp: finished_def js_gt_def)
  then have "tick_interval (Some a) = Some (a\<lparr>current := next_value a\<rparr>)"
    by (simp add: tick_interval_def)
  with Suc.IH [of "a\<lparr>current := next_value a\<rparr>"] Suc.prems show ?case
    by (simp add: funpow_swap1)
qed

lemma zero_or_NaN_div: "x = Fin 0 \<or> x = NaN \<Longrightarrow> x / y = Fin 0 \<or> x / y = NaN"
  by (cases y) auto

lemma diff_self_jsnum: "x - x = Fin 0 \<or> x - x = (NaN :: jsnum)"
  by (cases x) auto

lemma animateValue_stuck:
  assumes "start = end \<or> start = NaN \<or> end = NaN"
  shows "intervals ((interval_tick fmt (next_interval st) ^^ k)
           (animateValue el start end dur pre suf st)) (next_interval st) \<noteq> None"
proof -
  have "end - start = Fin 0 \<or> end - start = NaN"
    using assms diff_self_jsnum [of start] by (cases start; cases "end") auto
  then have "(end - start) / (dur / 16) = Fin 0 \<or> (end - start) / (dur / 16) = NaN"
    by (rule zero_or_NaN_div)
  then show ?thesis
    by (simp add: intervals_funpow_tick intervals_animateValue never_finished)
qed

text \<open>
  Claim C20. An animation whose start and end are equal, or one of them \<open>NaN\<close>,
  never ends: its interval is not cleared by any number of ticks.
\<close>

theorem animateValue_never_stops:
  assumes "start = end \<or> start = NaN \<or> end = NaN"
  shows "intervals ((interval_tick fmt (next_interval st) ^^ k)
           (animateValue el start end dur pre suf st)) (next_interval st) \<noteq> None"
  using assms by (rule animateValue_stuck)

theorem animateValue_never_stops_witness:
  "intervals ((interval_tick (\<lambda>q. []) 0 ^^ 1000)
      (animateValue SentimentValue (Fin 70) (Fin 70) (Fin 1000) [] []
         (blank_page (\<lambda>el. ''70'')))) 0 \<noteq> None"
  using animateValue_never_stops [where start = "Fin 70" and ?end = "Fin 70" and k = 1000
      and st = "blank_page (\<lambda>el. ''70'')"]
  by (simp add: blank_page_def)

end
