(* ===== verification/Dashboard_Metrics.thy ===== *)
theory Dashboard_Metrics
  imports Animate_Value
begin

text \<open>
  The functions of \<^verbatim>\<open>src/dashboard-script.js\<close> that turn the three payloads into
  what the page shows: \<open>updateMarketSentiment\<close> (lines 254 to 311),
  \<open>updateDeveloperActivity\<close> (314 to 334), \<open>updatePortfolioPerformance\<close> (337 to
  373), \<open>updateDashboardSimulated\<close> (376 to 388) and \<open>updateLastUpdatedTime\<close>
  (169 to 177).

  A payload is any \<open>jsval\<close>: it comes from the backend or from the cache, and
  nothing checks its shape. Each function reads the payload first and writes the
  page afterwards, so a function that throws has not changed the page; the
  result is the new page or the exception. The numbers \<open>0.4\<close> and \<open>0.6\<close> are the
  rationals \<open>2/5\<close> and \<open>3/5\<close>. The text that \<open>toLocaleTimeString\<close> gives for
  the current time is a parameter.
\<close>

section \<open>Market sentiment\<close>

definition news_sentiment :: "jsval \<Rightarrow> jsnum js_result" where
  "news_sentiment newsData =
     when_present newsData ''articles'' (\<lambda>articles.
       case articles of
         JArr xs \<Rightarrow>
           bind_result (map_result (\<lambda>a. get_prop a ''sentiment'') xs) (\<lambda>sentiments.
             let positiveCount = length (filter (\<lambda>v. v = JStr ''positive'') sentiments);
                 totalCount = length xs
             in Return (Fin (of_nat positiveCount) / Fin (of_nat totalCount) * 100))
       | _ \<Rightarrow> Throw TypeError) 50"

definition sum_change :: "num_render \<Rightarrow> jsval list \<Rightarrow> jsnum js_result" where
  "sum_change fmt xs =
     bind_result (map_result (\<lambda>s. get_prop s ''change_percent'') xs) (\<lambda>changes.
       Return (foldl (\<lambda>sum v. sum + parse_float (to_string fmt v)) 0 changes))"

definition stock_sentiment :: "num_render \<Rightarrow> jsval \<Rightarrow> jsnum js_result" where
  "stock_sentiment fmt stockData =
     when_present stockData ''stocks'' (\<lambda>stocks.
       case stocks of
         JArr xs \<Rightarrow>
           bind_result (sum_change fmt xs) (\<lambda>total.
             let avgChange = total / Fin (of_nat (length xs))
             in Return (50 + avgChange * 5))
       | _ \<Rightarrow> Throw TypeError) 50"

definition sentiment_score :: "jsnum \<Rightarrow> jsnum \<Rightarrow> jsnum" where
  "sentiment_score newsSentiment stockSentiment =
     math_round (newsSentiment * Fin (2 / 5) + stockSentiment * Fin (3 / 5))"

definition sentiment_indicator :: "string \<Rightarrow> indicator" where
  "sentiment_indicator sentimentDelta =
     (if js_gt (string_to_number sentimentDelta) 0
      then \<lparr>indicator_class = ''kpi-change positive'', arrow_up = True,
            label = ''+'' @ sentimentDelta @ ''%''\<rparr>
      else \<lparr>indicator_class = ''kpi-change negative'', arrow_up = False,
            label = sentimentDelta @ ''%''\<rparr>)"

definition sentiment_status :: "jsnum \<Rightarrow> string \<times> string" where
  "sentiment_status newSentiment =
     (if js_gt newSentiment 70 then (''Bullish'', ''kpi-status bullish'')
      else if js_gt newSentiment 50 then (''Neutral'', ''kpi-status neutral'')
      else (''Bearish'', ''kpi-status bearish''))"

definition updateMarketSentiment ::
  "num_render \<Rightarrow> jsval \<Rightarrow> jsval \<Rightarrow> 'a page_scheme \<Rightarrow> 'a page_scheme js_result" where
  "updateMarketSentiment fmt newsData stockData st =
     bind_result (news_sentiment newsData) (\<lambda>newsSentiment.
     bind_result (stock_sentiment fmt stockData) (\<lambda>stockSentiment.
       let newSentiment = sentiment_score newsSentiment stockSentiment;
           shown = parse_int (kpi_text st SentimentValue);
           sentimentDelta = to_fixed fmt 1 (newSentiment - shown);
           st1 = animateValue SentimentValue shown newSentiment 1000 [] [] st
       in Return (st1\<lparr>sentimentChange := sentiment_indicator sentimentDelta,
                      sentimentStatus := sentiment_status newSentiment\<rparr>)))"

section \<open>Developer activity\<close>

definition updateDeveloperActivity ::
  "num_render \<Rightarrow> jsval \<Rightarrow> 'a page_scheme \<Rightarrow> 'a page_scheme js_result" where
  "updateDeveloperActivity fmt employmentData st =
     when_present employmentData ''employment_data'' (\<lambda>employment_data.
       bind_result (get_index employment_data 0) (\<lambda>latestData.
       bind_result (get_index employment_data 1) (\<lambda>second.
         let previousData = (if truthy second then second else latestData) in
         bind_result (get_prop latestData ''job_postings_index'') (\<lambda>latest.
         bind_result (get_prop previousData ''job_postings_index'') (\<lambda>previous.
           let newDevActivity = to_fixed fmt 1 (to_number latest / 10);
               changePercent = to_fixed fmt 1
                 ((to_number latest - to_number previous) / to_number previous * 100);
               st1 = animateValue DevActivityValue
                 (parse_float (kpi_text st DevActivityValue)) (parse_float newDevActivity)
                 1000 [] [] st
           in Return (st1\<lparr>devActivityChange := (devActivityChange st1)
                \<lparr>arrow_up := True, label := ''+'' @ changePercent @ ''%''\<rparr>\<rparr>)))))) st"

section \<open>Portfolio performance\<close>

definition in_portfolio :: "jsval \<Rightarrow> bool" where
  "in_portfolio symbol \<longleftrightarrow> symbol \<in> JStr ` set (PORTFOLIO_STOCKS MCP_CONFIG)"

definition spy_return :: "num_render \<Rightarrow> (jsval \<times> jsval) list \<Rightarrow> jsnum js_result" where
  "spy_return fmt tagged =
     (case find (\<lambda>(s, symbol). symbol = JStr ''SPY'') tagged of
        None \<Rightarrow> Return 0
      | Some (spyStock, symbol) \<Rightarrow>
          if truthy spyStock then
            bind_result (get_prop spyStock ''change_percent'') (\<lambda>c.
              Return (parse_float (to_string fmt c)))
          else Return 0)"

definition portfolio_figures :: "num_render \<Rightarrow> jsval list \<Rightarrow> (jsnum \<times> jsnum) js_result" where
  "portfolio_figures fmt xs =
     bind_result (map_result (\<lambda>s. get_prop s ''symbol'') xs) (\<lambda>symbols.
       let tagged = zip xs symbols;
           portfolioStocks = map fst (filter (\<lambda>(s, symbol). in_portfolio symbol) tagged)
       in bind_result (sum_change fmt portfolioStocks) (\<lambda>total.
            let portfolioReturn = total / Fin (of_nat (length portfolioStocks)) in
            bind_result (spy_return fmt tagged) (\<lambda>spyReturn.
              Return (portfolioReturn, portfolioReturn - spyReturn))))"

definition updatePortfolioPerformance ::
  "num_render \<Rightarrow> jsval \<Rightarrow> 'a page_scheme \<Rightarrow> 'a page_scheme js_result" where
  "updatePortfolioPerformance fmt stockData st =
     when_present stockData ''stocks'' (\<lambda>stocks.
       case stocks of
         JArr xs \<Rightarrow>
           bind_result (portfolio_figures fmt xs) (\<lambda>(portfolioReturn, alpha).
             let st1 = animateValue PortfolioValue
                   (parse_float (remove1 CHR ''+'' (kpi_text st PortfolioValue)))
                   (parse_float (to_fixed fmt 1 portfolioReturn)) 1000 ''+'' ''%'' st
             in Return (st1\<lparr>portfolioChange := (portfolioChange st1)
                  \<lparr>arrow_up := True,
                   label := ''+'' @ to_fixed fmt 1 alpha @ ''% vs SPY''\<rparr>\<rparr>))
       | _ \<Rightarrow> Throw TypeError) st"

section \<open>Simulated update and clock\<close>

definition updateDashboardSimulated :: "num_render \<Rightarrow> rng \<Rightarrow> 'a page_scheme \<Rightarrow> 'a page_scheme" where
  "updateDashboardSimulated fmt rnd st =
     (let newSentiment = math_floor (Fin (rnd 0) * 30) + 60;
          newDevActivity = to_fixed fmt 1 (Fin (rnd 1) * 5 + 6);
          newPortfolio = to_fixed fmt 1 (Fin (rnd 2) * 10 + 10);
          st1 = animateValue SentimentValue (parse_int (kpi_text st SentimentValue))
                  newSentiment 1000 [] [] st;
          st2 = animateValue DevActivityValue (parse_float (kpi_text st1 DevActivityValue))
                  (parse_float newDevActivity) 1000 [] [] st1
      in animateValue PortfolioValue
           (parse_float (remove1 CHR ''+'' (kpi_text st2 PortfolioValue)))
           (parse_float newPortfolio) 1000 ''+'' ''%'' st2)"

definition updateLastUpdatedTime :: "string \<Rightarrow> 'a page_scheme \<Rightarrow> 'a page_scheme" where
  "updateLastUpdatedTime timeString st = st\<lparr>lastUpdated := timeString\<rparr>"

section \<open>Payloads the functions accept\<close>

text \<open>
  \<open>payload_ok name d\<close>: the property \<open>name\<close> of the payload \<open>d\<close> can be
  iterated with a callback that reads a property of every element: the payload
  or the property is falsy (and then skipped), or the property is an array with
  no element \<open>undefined\<close> or \<open>null\<close>.
\<close>

definition elements_ok :: "jsval \<Rightarrow> bool" where
  "elements_ok v \<longleftrightarrow>
     (\<not> truthy v \<or> (case v of JArr xs \<Rightarrow> list_all (\<lambda>x. x \<noteq> JUndefined \<and> x \<noteq> JNull) xs | _ \<Rightarrow> False))"

definition payload_ok :: "string \<Rightarrow> jsval \<Rightarrow> bool" where
  "payload_ok name d \<longleftrightarrow> \<not> truthy d \<or> elements_ok (prop_of d name)"

section \<open>Sentiment: lemmas\<close>

lemma map_get_prop_throws_iff:
  "is_throw (map_result (\<lambda>a. get_prop a name) xs)
     \<longleftrightarrow> \<not> list_all (\<lambda>x. x \<noteq> JUndefined \<and> x \<noteq> JNull) xs"
  by (simp add: map_result_throws get_prop_throws_iff list_all_iff)

lemma sum_change_throws_iff:
  "is_throw (sum_change fmt xs) \<longleftrightarrow> \<not> list_all (\<lambda>x. x \<noteq> JUndefined \<and> x \<noteq> JNull) xs"
  by (simp add: sum_change_def map_get_prop_throws_iff)

lemma news_sentiment_default:
  "\<not> truthy newsData \<or> \<not> truthy (prop_of newsData ''articles'') \<Longrightarrow>
     news_sentiment newsData = Return 50"
  by (auto simp: news_sentiment_def when_present_eq truthy_get_prop)

text \<open>
  Claim C33. For a payload with a non-empty array of articles the news sentiment
  is the percentage of the articles whose \<open>sentiment\<close> is the string
  \<^verbatim>\<open>positive\<close>.
\<close>

theorem news_sentiment_ratio:
  assumes "get_prop newsData ''articles'' = Return (JArr xs)"
    and "map_result (\<lambda>a. get_prop a ''sentiment'') xs = Return sentiments"
    and "xs \<noteq> []"
  shows "news_sentiment newsData =
     Return (Fin (of_nat (length (filter (\<lambda>v. v = JStr ''positive'') sentiments))
                    / of_nat (length xs) * 100))"
proof -
  from assms(1) have "truthy newsData" by (cases newsData) auto
  with assms get_prop_prop_of [OF assms(1)] show ?thesis
    by (simp add: news_sentiment_def when_present_eq)
qed

lemma news_sentiment_no_articles:
  assumes "get_prop newsData ''articles'' = Return (JArr [])"
  shows "news_sentiment newsData = Return NaN"
proof -
  from assms have "truthy newsData" by (cases newsData) auto
  with assms get_prop_prop_of [OF assms(1)] show ?thesis
    by (simp add: news_sentiment_def when_present_eq)
qed

lemma stock_sentiment_no_stocks:
  assumes "get_prop stockData ''stocks'' = Return (JArr [])"
  shows "stock_sentiment fmt stockData = Return NaN"
proof -
  from assms have "truthy stockData" by (cases stockData) auto
  with assms get_prop_prop_of [OF assms] show ?thesis
    by (simp add: stock_sentiment_def when_present_eq sum_change_def)
qed

theorem news_sentiment_ratio_witness:
  "news_sentiment (JObj [(''articles'',
       JArr [JObj [(''sentiment'', JStr ''positive'')], JObj [(''sentiment'', JStr ''negative'')],
             JObj [(''title'', JStr ''untagged'')], JObj [(''sentiment'', JStr ''positive'')]])])
     = Return (Fin 50)"
  using news_sentiment_ratio [where newsData = "JObj [(''articles'',
       JArr [JObj [(''sentiment'', JStr ''positive'')], JObj [(''sentiment'', JStr ''negative'')],
             JObj [(''title'', JStr ''untagged'')], JObj [(''sentiment'', JStr ''positive'')]])]"
      and sentiments = "[JStr ''positive'', JStr ''negative'', JUndefined, JStr ''positive'']"]
  by simp

lemma sentiment_score_example: "sentiment_score (Fin 100) (Fin 50) = Fin 70"
  by (simp add: sentiment_score_def)

lemma sentiment_score_NaN [simp]: "sentiment_score NaN y = NaN" "sentiment_score x NaN = NaN"
  by (simp_all add: sentiment_score_def)

lemma sentiment_status_cases:
  "sentiment_status (Fin q) =
     (if 70 < q then (''Bullish'', ''kpi-status bullish'')
      else if 50 < q then (''Neutral'', ''kpi-status neutral'')
      else (''Bearish'', ''kpi-status bearish''))"
  "sentiment_status NaN = (''Bearish'', ''kpi-status bearish'')"
  by (simp_all add: sentiment_status_def js_gt_def)

lemma news_sentiment_throws_iff:
  "is_throw (news_sentiment newsData) \<longleftrightarrow> \<not> payload_ok ''articles'' newsData"
proof (cases "truthy newsData")
  case True
  then show ?thesis
    by (cases "prop_of newsData ''articles''")
      (simp_all add: news_sentiment_def when_present_eq payload_ok_def elements_ok_def truthy_get_prop
        map_get_prop_throws_iff Let_def)
qed (simp add: news_sentiment_def when_present_eq payload_ok_def)

lemma stock_sentiment_throws_iff:
  "is_throw (stock_sentiment fmt stockData) \<longleftrightarrow> \<not> payload_ok ''stocks'' stockData"
proof (cases "truthy stockData")
  case True
  then show ?thesis
    by (cases "prop_of stockData ''stocks''")
      (simp_all add: stock_sentiment_def when_present_eq payload_ok_def elements_ok_def truthy_get_prop
        sum_change_throws_iff Let_def)
qed (simp add: stock_sentiment_def when_present_eq payload_ok_def)

text \<open>
  Claim C34. When both sentiments are between 0 and 100 the score is a whole
  number between 0 and 100.
\<close>

theorem sentiment_score_range:
  assumes "0 \<le> n" "n \<le> 100" "0 \<le> s" "s \<le> 100"
  shows "\<exists>k. sentiment_score (Fin n) (Fin s) = Fin (of_int k) \<and> 0 \<le> k \<and> k \<le> 100"
proof -
  define x where "x = n * (2 / 5) + s * (3 / 5) + 1 / 2"
  from assms have "0 \<le> x" and "x < 101" by (simp_all add: x_def)
  then have "0 \<le> \<lfloor>x\<rfloor>" and "\<lfloor>x\<rfloor> \<le> 100" by (simp_all add: floor_less_iff)
  moreover have "sentiment_score (Fin n) (Fin s) = Fin (of_int \<lfloor>x\<rfloor>)"
    by (simp add: sentiment_score_def x_def)
  ultimately show ?thesis by blast
qed

theorem sentiment_score_range_witness:
  "\<exists>k. sentiment_score (Fin 100) (Fin 50) = Fin (of_int k) \<and> 0 \<le> k \<and> k \<le> 100"
  using sentiment_score_range [of 100 50] by simp

lemma updateMarketSentiment_throws_iff:
  "is_throw (updateMarketSentiment fmt newsData stockData st) \<longleftrightarrow>
     \<not> payload_ok ''articles'' newsData \<or> \<not> payload_ok ''stocks'' stockData"
  by (cases "news_sentiment newsData"; cases "stock_sentiment fmt stockData")
    (simp_all add: updateMarketSentiment_def Let_def
      flip: news_sentiment_throws_iff stock_sentiment_throws_iff [of fmt])

lemma updateMarketSentiment_Return:
  assumes "updateMarketSentiment fmt newsData stockData st = Return st'"
  obtains n s where "news_sentiment newsData = Return n" "stock_sentiment fmt stockData = Return s"
    "st' = (animateValue SentimentValue (parse_int (kpi_text st SentimentValue))
              (sentiment_score n s) 1000 [] [] st)
           \<lparr>sentimentChange := sentiment_indicator
              (to_fixed fmt 1 (sentiment_score n s - parse_int (kpi_text st SentimentValue))),
            sentimentStatus := sentiment_status (sentiment_score n s)\<rparr>"
  using assms by (auto simp: updateMarketSentiment_def Let_def bind_result_eq_Return)

lemma payload_ok_no_elements:
  "get_prop d name = Return (JArr []) \<Longrightarrow> payload_ok name d"
  by (cases d) (auto simp: payload_ok_def elements_ok_def split: option.splits)

text \<open>
  Claim C21. With a payload whose array of articles is empty the sentiment shown
  is not the neutral default: the score is \<open>NaN\<close>, the status is Bearish, the
  change reads \<^verbatim>\<open>NaN%\<close>, and the animation of the value never ends.
\<close>

theorem updateMarketSentiment_no_articles:
  assumes "get_prop newsData ''articles'' = Return (JArr [])"
    and "payload_ok ''stocks'' stockData"
  shows "\<exists>st'. updateMarketSentiment fmt newsData stockData st = Return st'
    \<and> sentimentStatus st' = (''Bearish'', ''kpi-status bearish'')
    \<and> sentimentChange st' = \<lparr>indicator_class = ''kpi-change negative'', arrow_up = False,
          label = ''NaN%''\<rparr>
    \<and> (\<forall>k. intervals ((interval_tick fmt (next_interval st) ^^ k) st') (next_interval st) \<noteq> None)"
proof -
  from assms have "\<not> is_throw (updateMarketSentiment fmt newsData stockData st)"
    by (simp add: updateMarketSentiment_throws_iff payload_ok_no_elements)
  then obtain st' where ret: "updateMarketSentiment fmt newsData stockData st = Return st'"
    by (auto simp: not_is_throw_iff)
  then obtain n s where n: "news_sentiment newsData = Return n"
    and st': "st' = (animateValue SentimentValue (parse_int (kpi_text st SentimentValue))
              (sentiment_score n s) 1000 [] [] st)
           \<lparr>sentimentChange := sentiment_indicator
              (to_fixed fmt 1 (sentiment_score n s - parse_int (kpi_text st SentimentValue))),
            sentimentStatus := sentiment_status (sentiment_score n s)\<rparr>"
    by (rule updateMarketSentiment_Return)
  from n assms(1) have "n = NaN" by (simp add: news_sentiment_no_articles)
  then have score: "sentiment_score n s = NaN" by simp
  have "intervals ((interval_tick fmt (next_interval st) ^^ k) st') (next_interval st) \<noteq> None" for k
    using animateValue_stuck [where start = "parse_int (kpi_text st SentimentValue)"
        and ?end = NaN and fmt = fmt and st = st and k = k and el = SentimentValue
        and dur = 1000 and pre = "[]" and suf = "[]"]
    by (simp add: st' score intervals_funpow_tick)
  then show ?thesis
    by (simp add: ret st' score sentiment_status_cases sentiment_indicator_def to_fixed_def
        parse_defs js_gt_def)
qed

theorem updateMarketSentiment_no_articles_witness:
  "\<exists>st'. updateMarketSentiment (\<lambda>q. []) (JObj [(''articles'', JArr [])]) JNull
            (blank_page (\<lambda>el. ''72'')) = Return st'
    \<and> sentimentStatus st' = (''Bearish'', ''kpi-status bearish'')
    \<and> sentimentChange st' = \<lparr>indicator_class = ''kpi-change negative'', arrow_up = False,
          label = ''NaN%''\<rparr>
    \<and> (\<forall>k. intervals ((interval_tick (\<lambda>q. []) 0 ^^ k) st') 0 \<noteq> None)"
  using updateMarketSentiment_no_articles [where newsData = "JObj [(''articles'', JArr [])]"
      and stockData = JNull and st = "blank_page (\<lambda>el. ''72'')" and fmt = "\<lambda>q. []"]
  by (simp add: payload_ok_def blank_page_def)

section \<open>Developer activity and portfolio: lemmas\<close>

lemma to_fixed_negative:
  "q < 0 \<Longrightarrow> to_fixed fmt f (Fin q) = CHR ''-'' # to_fixed fmt f (Fin (- q))"
  by (simp add: to_fixed_def Let_def)

lemma get_prop_Return_JNum: "get_prop v name = Return (JNum n) \<Longrightarrow> truthy v"
  by (cases v) auto

lemma get_prop_Return_JArr: "get_prop v name = Return (JArr xs) \<Longrightarrow> truthy v"
  by (cases v) auto

lemma get_index_JArr [simp]:
  "get_index (JArr xs) i = Return (if i < length xs then xs ! i else JUndefined)"
  by (simp add: get_index_def)

lemma map_get_prop_Return:
  "list_all (\<lambda>x. x \<noteq> JUndefined \<and> x \<noteq> JNull) xs \<Longrightarrow>
     map_result (\<lambda>a. get_prop a name) xs = Return (map (\<lambda>a. prop_of a name) xs)"
proof (induction xs)
  case Nil
  show ?case by simp
next
  case (Cons x xs)
  then show ?case by (cases x) simp_all
qed

lemma spy_return_total:
  assumes "list_all (\<lambda>x. x \<noteq> JUndefined \<and> x \<noteq> JNull) xs"
  shows "\<exists>r. spy_return fmt (zip xs ys) = Return r"
proof (cases "find (\<lambda>(s, symbol). symbol = JStr ''SPY'') (zip xs ys)")
  case None
  then show ?thesis by (simp add: spy_return_def)
next
  case (Some a)
  obtain spy sym where a: "a = (spy, sym)" by (cases a)
  from Some a have "(spy, sym) \<in> set (zip xs ys)"
    by (auto simp: find_Some_iff in_set_conv_nth)
  then have "spy \<in> set xs" by (rule set_zip_leftD)
  with assms have "spy \<noteq> JUndefined" "spy \<noteq> JNull" by (auto simp: list_all_iff)
  then obtain c where "get_prop spy ''change_percent'' = Return c"
    by (cases spy) auto
  with Some a show ?thesis by (simp add: spy_return_def)
qed

lemma portfolio_figures_no_holdings:
  assumes "list_all (\<lambda>x. x \<noteq> JUndefined \<and> x \<noteq> JNull) xs"
    and "list_all (\<lambda>x. \<not> in_portfolio (prop_of x ''symbol'')) xs"
  shows "portfolio_figures fmt xs = Return (NaN, NaN)"
proof -
  let ?tagged = "zip xs (map (\<lambda>a. prop_of a ''symbol'') xs)"
  from assms(2) have "filter (\<lambda>(s, symbol). in_portfolio symbol) ?tagged = []"
    by (auto simp: filter_empty_conv list_all_iff in_set_zip)
  moreover obtain r where "spy_return fmt ?tagged = Return r"
    using spy_return_total [OF assms(1)] by blast
  ultimately show ?thesis
    by (simp add: portfolio_figures_def map_get_prop_Return [OF assms(1)] sum_change_def Let_def)
qed

text \<open>
  Claim C35. When the newest job postings index is below the one before it, the
  change indicator still shows the upward arrow and a plus sign in front of the
  negative number.
\<close>

theorem updateDeveloperActivity_decrease:
  assumes "get_prop employmentData ''employment_data'' = Return (JArr (latest # previous # rest))"
    and "get_prop latest ''job_postings_index'' = Return (JNum (Fin l))"
    and "get_prop previous ''job_postings_index'' = Return (JNum (Fin p))"
    and "0 < l" and "l < p"
  shows "\<exists>st'. updateDeveloperActivity fmt employmentData st = Return st'
    \<and> arrow_up (devActivityChange st')
    \<and> label (devActivityChange st') = ''+-'' @ to_fixed fmt 1 (Fin ((p - l) / p * 100)) @ ''%''"
proof -
  from assms(4,5) have "(l - p) / p * 100 < 0"
    by (simp add: divide_less_0_iff)
  then have "to_fixed fmt 1 (Fin ((l - p) / p * 100))
      = CHR ''-'' # to_fixed fmt 1 (Fin (- ((l - p) / p * 100)))"
    by (rule to_fixed_negative)
  moreover from assms(4,5) have "p \<noteq> 0" by simp
  moreover from this have "- ((l - p) / p * 100) = (p - l) / p * 100"
    by (simp add: field_simps)
  ultimately show ?thesis
    using assms(2,3) get_prop_prop_of [OF assms(1)] get_prop_Return_JArr [OF assms(1)]
      get_prop_Return_JNum [OF assms(3)]
    by (simp add: updateDeveloperActivity_def when_present_eq Let_def)
qed

theorem updateDeveloperActivity_decrease_witness:
  "\<exists>st'. updateDeveloperActivity (\<lambda>q. [])
       (JObj [(''employment_data'',
          JArr [JObj [(''job_postings_index'', JNum (Fin 99))],
                JObj [(''job_postings_index'', JNum (Fin 110))]])])
       (blank_page (\<lambda>el. ''8.5'')) = Return st'
    \<and> arrow_up (devActivityChange st')
    \<and> label (devActivityChange st') = ''+-10.0%''"
  using updateDeveloperActivity_decrease [where l = 99 and p = 110 and rest = "[]"
      and latest = "JObj [(''job_postings_index'', JNum (Fin 99))]"
      and previous = "JObj [(''job_postings_index'', JNum (Fin 110))]"
      and employmentData = "JObj [(''employment_data'',
          JArr [JObj [(''job_postings_index'', JNum (Fin 99))],
                JObj [(''job_postings_index'', JNum (Fin 110))]])]"
      and fmt = "\<lambda>q. []" and st = "blank_page (\<lambda>el. ''8.5'')"]
  by (simp add: to_fixed_def Let_def digit_char_def)

text \<open>
  Claim C36. When no stock of the payload has a symbol of the configured
  portfolio, the portfolio return is \<open>NaN\<close>: the comparison reads
  \<^verbatim>\<open>+NaN% vs SPY\<close> and the animation of the value never ends.
\<close>

theorem updatePortfolioPerformance_no_holdings:
  assumes "get_prop stockData ''stocks'' = Return (JArr xs)"
    and "list_all (\<lambda>x. x \<noteq> JUndefined \<and> x \<noteq> JNull) xs"
    and "list_all (\<lambda>x. \<not> in_portfolio (prop_of x ''symbol'')) xs"
  shows "\<exists>st'. updatePortfolioPerformance fmt stockData st = Return st'
    \<and> label (portfolioChange st') = ''+NaN% vs SPY''
    \<and> (\<forall>k. intervals ((interval_tick fmt (next_interval st) ^^ k) st') (next_interval st) \<noteq> None)"
proof -
  let ?st1 = "animateValue PortfolioValue
      (parse_float (remove1 CHR ''+'' (kpi_text st PortfolioValue))) NaN 1000 ''+'' ''%'' st"
  let ?st' = "?st1\<lparr>portfolioChange := (portfolioChange ?st1)
      \<lparr>arrow_up := True, label := ''+NaN% vs SPY''\<rparr>\<rparr>"
  have "updatePortfolioPerformance fmt stockData st = Return ?st'"
    using get_prop_prop_of [OF assms(1)] get_prop_Return_JArr [OF assms(1)]
    by (simp add: updatePortfolioPerformance_def when_present_eq portfolio_figures_no_holdings [OF assms(2,3)]
        to_fixed_def parse_defs Let_def)
  moreover have "intervals ((interval_tick fmt (next_interval st) ^^ k) ?st') (next_interval st)
      \<noteq> None" for k
    using animateValue_stuck [where ?end = NaN and fmt = fmt and st = st and k = k
        and start = "parse_float (remove1 CHR ''+'' (kpi_text st PortfolioValue))"
        and el = PortfolioValue and dur = 1000 and pre = "''+''" and suf = "''%''"]
    by (simp add: intervals_funpow_tick)
  ultimately show ?thesis by simp
qed

theorem updatePortfolioPerformance_no_holdings_witness:
  "\<exists>st'. updatePortfolioPerformance (\<lambda>q. [])
       (JObj [(''stocks'', JArr [JObj [(''symbol'', JStr ''SPY''),
                                      (''change_percent'', JStr ''1.20'')]])])
       (blank_page (\<lambda>el. ''+12.4%'')) = Return st'
    \<and> label (portfolioChange st') = ''+NaN% vs SPY''
    \<and> (\<forall>k. intervals ((interval_tick (\<lambda>q. []) 0 ^^ k) st') 0 \<noteq> None)"
  using updatePortfolioPerformance_no_holdings [where fmt = "\<lambda>q. []"
      and st = "blank_page (\<lambda>el. ''+12.4%'')"
      and xs = "[JObj [(''symbol'', JStr ''SPY''), (''change_percent'', JStr ''1.20'')]]"
      and stockData = "JObj [(''stocks'', JArr [JObj [(''symbol'', JStr ''SPY''),
                                      (''change_percent'', JStr ''1.20'')]])]"]
  by (simp add: in_portfolio_def blank_page_def image_iff)

text \<open>
  Claim C37. The simulated update animates the sentiment towards a whole number
  between 60 and 89, for every random number in \<open>[0, 1)\<close>.
\<close>

theorem updateDashboardSimulated_sentiment_range:
  assumes "0 \<le> rnd 0" and "rnd 0 < 1"
  shows "\<exists>a k. intervals (updateDashboardSimulated fmt rnd st) (next_interval st) = Some a
    \<and> target a = SentimentValue \<and> end_value a = Fin (of_int k) \<and> 60 \<le> k \<and> k \<le> 89"
proof -
  from assms have "0 \<le> rnd 0 * 30" and "rnd 0 * 30 < 30" by simp_all
  then have "0 \<le> \<lfloor>rnd 0 * 30\<rfloor>" and "\<lfloor>rnd 0 * 30\<rfloor> \<le> 29"
    by (simp_all add: floor_less_iff)
  then show ?thesis
    by (auto simp: updateDashboardSimulated_def Let_def intervals_animateValue
        intro!: exI [of _ "\<lfloor>rnd 0 * 30\<rfloor> + 60"])
qed

theorem updateDashboardSimulated_sentiment_range_witness:
  "\<exists>a k. intervals (updateDashboardSimulated (\<lambda>q. []) (\<lambda>i. 1 / 2) (blank_page (\<lambda>el. ''72''))) 0
      = Some a
    \<and> target a = SentimentValue \<and> end_value a = Fin (of_int k) \<and> 60 \<le> k \<and> k \<le> 89"
  using updateDashboardSimulated_sentiment_range [where rnd = "\<lambda>i. 1 / 2" and fmt = "\<lambda>q. []"
      and st = "blank_page (\<lambda>el. ''72'')"]
  by (simp add: blank_page_def)

end
