(* ===== verification/Dashboard_Update.thy ===== *)
theory Dashboard_Update
  imports Dashboard_Metrics
begin

text \<open>
  The function \<open>updateDashboardData\<close> of \<^verbatim>\<open>src/dashboard-script.js\<close> (lines 209 to
  251) and the handlers that call it: the refresh button (lines 182 to 207), the
  automatic refresh (lines 571 to 575), and the handlers of the stock details
  buttons (lines 557 to 568).

  \<open>updateDashboardData\<close> starts three calls of \<open>callMCPTool\<close> and awaits
  \<open>Promise.all\<close> of them. One invocation is an \<open>update_run\<close>: the payloads of
  the calls that are fulfilled, the calls whose response has not arrived, and
  whether the function has left its \<open>await\<close>. The synchronous part
  (\<open>updateDashboardData_start\<close>) reads the cache three times. Each response is
  an event (\<open>on_response\<close>): the call resumes; if it throws and the run is still
  waiting, \<open>Promise.all\<close> rejects and the \<open>catch\<close> block runs at once, while
  the other calls go on and still write the cache and the page when their
  responses arrive; when the last payload arrives the rest of the \<open>try\<close> block
  runs. The \<open>catch\<close> block also runs when one of the update functions throws.
  When all three calls were answered from the cache, the function continues
  after the handler that called it has finished (\<open>run_continue\<close>).

  The state \<open>app\<close> extends the page by the runs, oldest first, the refresh
  button, and the requests handed to \<open>fetch\<close> so far. The clock, the text of
  the current time and the random numbers are parameters of the events. An
  \<open>event\<close> is one run of a handler; \<open>enabled\<close> says when the browser can
  deliver it (a disabled button is not clicked, a response arrives for a call
  that waits for it) and \<open>app_step\<close> is what the handler does.
\<close>

section \<open>The three calls\<close>

datatype call_id = StockCall | NewsCall | EmploymentCall

fun toolName_of :: "call_id \<Rightarrow> string" where
  "toolName_of StockCall = ''get_stock_financial_data''"
| "toolName_of NewsCall = ''get_ai_company_news''"
| "toolName_of EmploymentCall = ''get_tech_employment_trends''"

fun args_of :: "call_id \<Rightarrow> jsval" where
  "args_of StockCall =
     JObj [(''symbols'', JArr (map JStr (PORTFOLIO_STOCKS MCP_CONFIG
                                          @ [''GOOGL'', ''META'', ''AMD'', ''SPY'']))),
           (''period'', JStr ''1mo''),
           (''include_metrics'', JBool True)]"
| "args_of NewsCall = JObj [(''company'', JStr ''OpenAI''), (''days_back'', JNum 7)]"
| "args_of EmploymentCall = JObj [(''months_back'', JNum 6)]"

section \<open>State\<close>

record update_run =
  results :: "call_id \<rightharpoonup> jsval"
  pending :: "call_id set"
  settled :: bool

record refresh_button =
  disabled :: bool
  opacity :: string
  transform :: string

record app = page +
  runs :: "update_run list"
  refreshBtn :: refresh_button
  sent :: "http_request list"

section \<open>updateDashboardData\<close>

definition start_call ::
  "num_render \<Rightarrow> int \<Rightarrow> call_id \<Rightarrow> update_run \<times> http_request list \<times> 'a page_scheme
     \<Rightarrow> update_run \<times> http_request list \<times> 'a page_scheme" where
  "start_call fmt now c = (\<lambda>(run, requests, st).
     case callMCPTool_start fmt now (toolName_of c) (args_of c) st of
       (Done d, st') \<Rightarrow> (run\<lparr>results := (results run)(c \<mapsto> d)\<rparr>, requests, st')
     | (Awaiting request, st') \<Rightarrow>
         (run\<lparr>pending := insert c (pending run)\<rparr>, requests @ [request], st'))"

definition updateDashboardData_start ::
  "num_render \<Rightarrow> int \<Rightarrow> 'a page_scheme \<Rightarrow> update_run \<times> http_request list \<times> 'a page_scheme" where
  "updateDashboardData_start fmt now st =
     start_call fmt now EmploymentCall
       (start_call fmt now NewsCall
          (start_call fmt now StockCall
             (\<lparr>results = Map.empty, pending = {}, settled = False\<rparr>, [], st)))"

definition catch_block :: "num_render \<Rightarrow> rng \<Rightarrow> 'a page_scheme \<Rightarrow> 'a page_scheme" where
  "catch_block fmt rnd st =
     updateDashboardSimulated fmt rnd (notify ''Using simulated data for demo'' ''info'' st)"

definition result_of :: "update_run \<Rightarrow> call_id \<Rightarrow> jsval" where
  "result_of run c = (case results run c of None \<Rightarrow> JUndefined | Some d \<Rightarrow> d)"

definition try_rest ::
  "num_render \<Rightarrow> string \<Rightarrow> rng \<Rightarrow> update_run \<Rightarrow> 'a page_scheme \<Rightarrow> 'a page_scheme" where
  "try_rest fmt timeString rnd run st =
     (case updateMarketSentiment fmt (result_of run NewsCall) (result_of run StockCall) st of
        Inl e \<Rightarrow> catch_block fmt rnd st
      | Inr st1 \<Rightarrow>
          (case updateDeveloperActivity fmt (result_of run EmploymentCall) st1 of
             Inl e \<Rightarrow> catch_block fmt rnd st1
           | Inr st2 \<Rightarrow>
               (case updatePortfolioPerformance fmt (result_of run StockCall) st2 of
                  Inl e \<Rightarrow> catch_block fmt rnd st2
                | Inr st3 \<Rightarrow> updateLastUpdatedTime timeString st3)))"

definition run_continue ::
  "num_render \<Rightarrow> string \<Rightarrow> rng \<Rightarrow> update_run \<times> 'a page_scheme \<Rightarrow> update_run \<times> 'a page_scheme" where
  "run_continue fmt timeString rnd = (\<lambda>(run, st).
     if \<not> settled run \<and> pending run = {}
     then (run\<lparr>settled := True\<rparr>, try_rest fmt timeString rnd run st)
     else (run, st))"

definition on_response ::
  "num_render \<Rightarrow> int \<Rightarrow> string \<Rightarrow> rng \<Rightarrow> rng \<Rightarrow> call_id \<Rightarrow> fetch_outcome
     \<Rightarrow> update_run \<times> 'a page_scheme \<Rightarrow> update_run \<times> 'a page_scheme" where
  "on_response fmt now timeString rnd rnd' c outcome = (\<lambda>(run, st).
     if c \<notin> pending run then (run, st)
     else
       (case callMCPTool_resume fmt now rnd (toolName_of c) (args_of c) outcome st of
          (Inl e, st1) \<Rightarrow>
            if settled run then (run\<lparr>pending := pending run - {c}\<rparr>, st1)
            else (run\<lparr>pending := pending run - {c}, settled := True\<rparr>, catch_block fmt rnd' st1)
        | (Inr d, st1) \<Rightarrow>
            run_continue fmt timeString rnd'
              (run\<lparr>pending := pending run - {c}, results := (results run)(c \<mapsto> d)\<rparr>, st1)))"

section \<open>Handlers\<close>

definition updateDashboardData :: "num_render \<Rightarrow> int \<Rightarrow> app \<Rightarrow> app" where
  "updateDashboardData fmt now st =
     (case updateDashboardData_start fmt now st of
        (run, requests, st') \<Rightarrow> st'\<lparr>runs := runs st' @ [run], sent := sent st' @ requests\<rparr>)"

definition with_run ::
  "nat \<Rightarrow> (update_run \<times> app \<Rightarrow> update_run \<times> app) \<Rightarrow> app \<Rightarrow> app" where
  "with_run i f st =
     (if i < length (runs st)
      then (case f (runs st ! i, st) of (run', st') \<Rightarrow> st'\<lparr>runs := (runs st')[i := run']\<rparr>)
      else st)"

definition refresh_click :: "app \<Rightarrow> app" where
  "refresh_click st =
     st\<lparr>refreshBtn := \<lparr>disabled = True, opacity = ''0.6'', transform = ''rotate(360deg)''\<rparr>\<rparr>"

definition refresh_timeout :: "num_render \<Rightarrow> int \<Rightarrow> string \<Rightarrow> rng \<Rightarrow> app \<Rightarrow> app" where
  "refresh_timeout fmt now timeString rnd st =
     (let st1 = updateDashboardData fmt now st;
          st2 = updateLastUpdatedTime timeString st1;
          st3 = st2\<lparr>refreshBtn :=
                  \<lparr>disabled = False, opacity = ''1'', transform = ''rotate(0deg)''\<rparr>\<rparr>;
          st4 = notify ''Dashboard updated successfully'' ''success'' st3
      in with_run (length (runs st)) (run_continue fmt timeString rnd) st4)"

definition auto_refresh :: "num_render \<Rightarrow> int \<Rightarrow> string \<Rightarrow> rng \<Rightarrow> app \<Rightarrow> app" where
  "auto_refresh fmt now timeString rnd st =
     (let st1 = updateDashboardData fmt now st;
          st2 = updateLastUpdatedTime timeString st1
      in with_run (length (runs st)) (run_continue fmt timeString rnd) st2)"

definition details_click :: "string \<Rightarrow> app \<Rightarrow> app" where
  "details_click stockSymbol st =
     notify (''Loading detailed analysis for '' @ stockSymbol @ ''...'') ''info'' st"

definition details_timeout :: "string \<Rightarrow> app \<Rightarrow> app" where
  "details_timeout stockSymbol st =
     notify (''Analysis for '' @ stockSymbol @ '' would open here'') ''success'' st"

datatype event =
    RefreshClick
  | RefreshTimeout int string rng
  | AutoRefresh int string rng
  | ResponseArrives nat call_id fetch_outcome int string rng rng
  | IntervalTick nat
  | NotificationFade
  | NotificationRemove
  | DetailsClick string
  | DetailsTimeout string

fun enabled :: "event \<Rightarrow> app \<Rightarrow> bool" where
  "enabled RefreshClick st \<longleftrightarrow> \<not> disabled (refreshBtn st)"
| "enabled (RefreshTimeout now timeString rnd) st \<longleftrightarrow> disabled (refreshBtn st)"
| "enabled (ResponseArrives i c outcome now timeString rnd rnd') st \<longleftrightarrow>
     i < length (runs st) \<and> c \<in> pending (runs st ! i)"
| "enabled ev st \<longleftrightarrow> True"

fun app_step :: "num_render \<Rightarrow> event \<Rightarrow> app \<Rightarrow> app" where
  "app_step fmt RefreshClick st = refresh_click st"
| "app_step fmt (RefreshTimeout now timeString rnd) st = refresh_timeout fmt now timeString rnd st"
| "app_step fmt (AutoRefresh now timeString rnd) st = auto_refresh fmt now timeString rnd st"
| "app_step fmt (ResponseArrives i c outcome now timeString rnd rnd') st =
     with_run i (on_response fmt now timeString rnd rnd' c outcome) st"
| "app_step fmt (IntervalTick timer) st = interval_tick fmt timer st"
| "app_step fmt NotificationFade st = st\<lparr>notifications := notification_fade (notifications st)\<rparr>"
| "app_step fmt NotificationRemove st =
     st\<lparr>notifications := notification_remove (notifications st)\<rparr>"
| "app_step fmt (DetailsClick stockSymbol) st = details_click stockSymbol st"
| "app_step fmt (DetailsTimeout stockSymbol) st = details_timeout stockSymbol st"

definition app_init :: "(kpi \<Rightarrow> string) \<Rightarrow> string \<Rightarrow> app" where
  "app_init texts timeString =
     \<lparr>dataCache = DataCache_new, notifications = [], kpi_text = texts,
      sentimentChange = \<lparr>indicator_class = [], arrow_up = True, label = []\<rparr>,
      sentimentStatus = ([], []),
      devActivityChange = \<lparr>indicator_class = [], arrow_up = True, label = []\<rparr>,
      portfolioChange = \<lparr>indicator_class = [], arrow_up = True, label = []\<rparr>,
      lastUpdated = timeString, intervals = Map.empty, next_interval = 0,
      runs = [], refreshBtn = \<lparr>disabled = False, opacity = [], transform = []\<rparr>, sent = []\<rparr>"

inductive reachable :: "num_render \<Rightarrow> app \<Rightarrow> bool" for fmt where
  init: "reachable fmt (app_init texts timeString)"
| step: "reachable fmt st \<Longrightarrow> enabled ev st \<Longrightarrow> reachable fmt (app_step fmt ev st)"

section \<open>Invariants\<close>

text \<open>
  \<open>paints st st'\<close>: from \<open>st\<close> to \<open>st'\<close> only the page has been written: KPI
  fields, new intervals, new notifications. \<open>cache_ok\<close>: every entry of the
  cache belongs to one of the three calls and has the duration 60000.
  \<open>run_ok\<close>: no call of a run is both fulfilled and pending, and in a run that
  has not left its \<open>await\<close> every call is fulfilled or pending, so that the rest
  of the \<open>try\<close> block finds the three payloads (\<open>exclusive\<close> and \<open>accounted\<close>
  name the two parts). \<open>intervals_ok\<close>: the identifiers of the intervals are below the next
  one.
\<close>

definition paints :: "app \<Rightarrow> app \<Rightarrow> bool" where
  "paints st st' \<longleftrightarrow>
     dataCache st' = dataCache st \<and> runs st' = runs st \<and> refreshBtn st' = refreshBtn st \<and>
     sent st' = sent st \<and> next_interval st \<le> next_interval st' \<and>
     (\<forall>t. intervals st' t \<noteq> None \<longrightarrow>
          intervals st t \<noteq> None \<or> next_interval st \<le> t \<and> t < next_interval st') \<and>
     (\<exists>ns. notifications st' = notifications st @ ns \<and> list_all (\<lambda>n. \<not> fading n) ns)"

definition call_key :: "num_render \<Rightarrow> call_id \<Rightarrow> string" where
  "call_key fmt c = cacheKey fmt (toolName_of c) (args_of c)"

definition cache_ok :: "num_render \<Rightarrow> DataCache \<Rightarrow> bool" where
  "cache_ok fmt c \<longleftrightarrow>
     (\<forall>k item. cache c k = Some item \<longrightarrow> duration item = 60000 \<and> k \<in> range (call_key fmt))"

definition run_ok :: "update_run \<Rightarrow> bool" where
  "run_ok run \<longleftrightarrow>
     (\<forall>c. \<not> (c \<in> pending run \<and> results run c \<noteq> None)) \<and>
     (\<not> settled run \<longrightarrow> (\<forall>c. c \<in> pending run \<or> results run c \<noteq> None))"

definition accounted :: "update_run \<Rightarrow> call_id \<Rightarrow> bool" where
  "accounted run c \<longleftrightarrow> c \<in> pending run \<or> results run c \<noteq> None"

definition exclusive :: "update_run \<Rightarrow> bool" where
  "exclusive run \<longleftrightarrow> (\<forall>c. \<not> (c \<in> pending run \<and> results run c \<noteq> None))"

definition evicted :: "num_render \<Rightarrow> int \<Rightarrow> DataCache \<Rightarrow> DataCache" where
  "evicted fmt now c =
     snd (DataCache_get now (call_key fmt EmploymentCall)
       (snd (DataCache_get now (call_key fmt NewsCall)
          (snd (DataCache_get now (call_key fmt StockCall) c)))))"

definition waiting_app :: app where
  "waiting_app = auto_refresh (\<lambda>q. []) 0 ''12:00'' (\<lambda>k. 0) (app_init (\<lambda>el. ''70'') ''11:59'')"

definition intervals_ok :: "app \<Rightarrow> bool" where
  "intervals_ok st \<longleftrightarrow> (\<forall>t. intervals st t \<noteq> None \<longrightarrow> t < next_interval st)"

definition app_inv :: "num_render \<Rightarrow> app \<Rightarrow> bool" where
  "app_inv fmt st \<longleftrightarrow>
     cache_ok fmt (dataCache st) \<and> list_all run_ok (runs st) \<and> intervals_ok st \<and>
     fading_first (notifications st)"

section \<open>The fallback on the arguments of the three calls\<close>

lemma simulatedData_args_of:
  "simulatedData fmt now rnd (args_of c) =
     Throw (case c of StockCall \<Rightarrow> RangeError | _ \<Rightarrow> TypeError)"
  by (cases c) (simp_all add: simulatedData_def array_map_def)

lemma getSimulatedData_args_of:
  "getSimulatedData fmt now rnd toolName (args_of c) =
     Throw (case c of StockCall \<Rightarrow> RangeError | _ \<Rightarrow> TypeError)"
  by (simp add: getSimulatedData_def simulatedData_args_of)

lemma callMCPTool_resume_outage:
  assumes "succeeded outcome = None"
  shows "callMCPTool_resume fmt now rnd (toolName_of c) (args_of c) outcome st =
     (Throw (case c of StockCall \<Rightarrow> RangeError | _ \<Rightarrow> TypeError),
      notify (''Unable to fetch '' @ toolName_of c @ '' data. Using simulated data.'')
        ''warning'' st)"
  by (simp add: callMCPTool_resume_failed [OF assms] getSimulatedData_args_of)

lemma on_response_outage:
  assumes "c \<in> pending run" and "\<not> settled run" and "succeeded outcome = None"
  shows "on_response fmt now timeString rnd rnd' c outcome (run, st) =
     (run\<lparr>pending := pending run - {c}, settled := True\<rparr>,
      catch_block fmt rnd'
        (notify (''Unable to fetch '' @ toolName_of c @ '' data. Using simulated data.'')
           ''warning'' st))"
  using assms by (simp add: on_response_def callMCPTool_resume_outage)

lemma hit_after_evict:
  "hit fmt t toolName args
     (st\<lparr>dataCache := snd (DataCache_get now key (dataCache st))\<rparr>) \<Longrightarrow>
   hit fmt t toolName args st"
  by (auto simp: hit_def visible_after_get split: if_splits)

section \<open>Writing the page\<close>

lemma paints_refl [simp]: "paints st st"
  by (simp add: paints_def)

lemma paintsD:
  assumes "paints st st'"
  shows "dataCache st' = dataCache st" and "runs st' = runs st"
    and "refreshBtn st' = refreshBtn st" and "sent st' = sent st"
    and "next_interval st \<le> next_interval st'"
    and "intervals st' t \<noteq> None \<Longrightarrow>
           intervals st t \<noteq> None \<or> next_interval st \<le> t \<and> t < next_interval st'"
    and "\<exists>ns. notifications st' = notifications st @ ns \<and> list_all (\<lambda>n. \<not> fading n) ns"
  using assms unfolding paints_def by blast+

lemma paints_trans:
  assumes "paints st st'" and "paints st' st''"
  shows "paints st st''"
proof -
  note 1 = paintsD [OF assms(1)] and 2 = paintsD [OF assms(2)]
  from 1(7) 2(7) obtain ns ns' where "notifications st'' = notifications st @ (ns @ ns')"
    and "list_all (\<lambda>n. \<not> fading n) (ns @ ns')" by auto
  then have n: "\<exists>ns. notifications st'' = notifications st @ ns \<and> list_all (\<lambda>n. \<not> fading n) ns"
    by blast
  have i: "intervals st t \<noteq> None \<or> next_interval st \<le> t \<and> t < next_interval st''"
    if "intervals st'' t \<noteq> None" for t
    using 2(6) [OF that] 1(6) [of t] 1(5) 2(5) by auto
  from 1(1-5) 2(1-5) n i show ?thesis
    unfolding paints_def by (intro conjI allI impI) simp_all
qed

lemma paints_animateValue: "paints st (animateValue el start end dur pre suf st)"
  by (auto simp: paints_def animateValue_def Let_def)

lemma paints_notify: "paints st (notify m ty st)"
  by (simp add: paints_def notify_def showNotification_def)

lemma paints_fields [simp]:
  "paints st (st\<lparr>sentimentChange := a\<rparr>)"
  "paints st (st\<lparr>sentimentStatus := b\<rparr>)"
  "paints st (st\<lparr>devActivityChange := a\<rparr>)"
  "paints st (st\<lparr>portfolioChange := a\<rparr>)"
  "paints st (st\<lparr>lastUpdated := c\<rparr>)"
  "paints st (st\<lparr>kpi_text := d\<rparr>)"
  by (simp_all add: paints_def)

lemma paints_animate_fields:
  "paints st ((animateValue el start end dur pre suf st)\<lparr>sentimentChange := a, sentimentStatus := b\<rparr>)"
  "paints st ((animateValue el start end dur pre suf st)\<lparr>devActivityChange := a\<rparr>)"
  "paints st ((animateValue el start end dur pre suf st)\<lparr>portfolioChange := a\<rparr>)"
  by (auto simp: paints_def animateValue_def Let_def)

lemma paints_updateMarketSentiment:
  "updateMarketSentiment fmt n s st = Return st' \<Longrightarrow> paints st st'"
  by (auto simp: updateMarketSentiment_def Let_def bind_result_eq_Return paints_animate_fields)

lemma updateDeveloperActivity_Return:
  assumes "updateDeveloperActivity fmt e st = Return st'"
  obtains "st' = st"
  | start "end" a where
      "st' = (animateValue DevActivityValue start end 1000 [] [] st)\<lparr>devActivityChange := a\<rparr>"
  using assms
  by (auto simp: updateDeveloperActivity_def when_present_eq Let_def bind_result_eq_Return
      split: if_splits)

lemma paints_updateDeveloperActivity:
  "updateDeveloperActivity fmt e st = Return st' \<Longrightarrow> paints st st'"
  by (erule updateDeveloperActivity_Return) (simp_all add: paints_animate_fields)

lemma updatePortfolioPerformance_Return:
  assumes "updatePortfolioPerformance fmt s st = Return st'"
  obtains "st' = st"
  | start "end" a where
      "st' = (animateValue PortfolioValue start end 1000 ''+'' ''%'' st)\<lparr>portfolioChange := a\<rparr>"
  using assms
  by (cases "prop_of s ''stocks''")
    (auto simp: updatePortfolioPerformance_def when_present_eq Let_def bind_result_eq_Return
      split: if_splits)

lemma paints_updatePortfolioPerformance:
  "updatePortfolioPerformance fmt s st = Return st' \<Longrightarrow> paints st st'"
  by (erule updatePortfolioPerformance_Return) (simp_all add: paints_animate_fields)

lemma paints_updateDashboardSimulated: "paints st (updateDashboardSimulated fmt rnd st)"
  unfolding updateDashboardSimulated_def Let_def
  by (blast intro: paints_trans paints_animateValue)

lemma paints_catch_block: "paints st (catch_block fmt rnd st)"
  unfolding catch_block_def
  by (blast intro: paints_trans paints_notify paints_updateDashboardSimulated)

lemma paints_try_rest: "paints st (try_rest fmt timeString rnd run st)"
proof (cases "updateMarketSentiment fmt (result_of run NewsCall) (result_of run StockCall) st")
  case (Inl e)
  then show ?thesis by (simp add: try_rest_def paints_catch_block)
next
  case (Inr st1)
  then have 1: "paints st st1" by (rule paints_updateMarketSentiment)
  show ?thesis
  proof (cases "updateDeveloperActivity fmt (result_of run EmploymentCall) st1")
    case (Inl e)
    with Inr 1 show ?thesis
      by (auto simp: try_rest_def intro: paints_trans paints_catch_block)
  next
    case st2: (Inr st2)
    then have 2: "paints st st2"
      using 1 by (blast intro: paints_trans paints_updateDeveloperActivity)
    show ?thesis
    proof (cases "updatePortfolioPerformance fmt (result_of run StockCall) st2")
      case (Inl e)
      with Inr st2 2 show ?thesis
        by (auto simp: try_rest_def intro: paints_trans paints_catch_block)
    next
      case st3: (Inr st3)
      then have "paints st st3"
        using 2 by (blast intro: paints_trans paints_updatePortfolioPerformance)
      then have "paints st (st3\<lparr>lastUpdated := timeString\<rparr>)"
        by (rule paints_trans) simp
      with Inr st2 st3 show ?thesis
        by (simp add: try_rest_def updateLastUpdatedTime_def)
    qed
  qed
qed

section \<open>The invariant is kept by every handler\<close>

lemma UNIV_call_id: "UNIV = {StockCall, NewsCall, EmploymentCall}"
  by (auto intro: call_id.exhaust)

lemma app_inv_paints:
  assumes "app_inv fmt st" and "paints st st'"
  shows "app_inv fmt st'"
proof -
  note p = paintsD [OF assms(2)]
  from p(7) obtain ns where "notifications st' = notifications st @ ns"
    and "list_all (\<lambda>n. \<not> fading n) ns" by blast
  with assms(1) have "fading_first (notifications st')"
    by (simp add: app_inv_def fading_first_append)
  moreover have "intervals_ok st'"
    unfolding intervals_ok_def
  proof (intro allI impI)
    fix t assume "intervals st' t \<noteq> None"
    from p(6) [OF this] assms(1) p(5) show "t < next_interval st'"
      by (auto simp: app_inv_def intervals_ok_def)
  qed
  ultimately show ?thesis using assms(1) p(1,2) by (simp add: app_inv_def)
qed

lemma cache_ok_get: "cache_ok fmt c \<Longrightarrow> cache_ok fmt (snd (DataCache_get now key c))"
  by (auto simp: cache_ok_def cache_DataCache_get split: if_splits)

lemma cache_ok_set:
  "cache_ok fmt c \<Longrightarrow>
     cache_ok fmt (DataCache_set now (call_key fmt call) d (cacheDuration (toolName_of call)) c)"
  by (cases call) (auto simp: cache_ok_def DataCache_set_def cacheDuration_cases)

lemma start_call_effect:
  assumes "start_call fmt now c (run, requests, st) = (run', requests', st')"
  shows "st' = st\<lparr>dataCache := snd (DataCache_get now (call_key fmt c) (dataCache st))\<rparr>"
    and "settled run' = settled run"
    and "(\<exists>d. results run' = (results run)(c \<mapsto> d)) \<and> pending run' = pending run
       \<or> results run' = results run \<and> pending run' = insert c (pending run)"
  using assms
  by (auto simp: start_call_def callMCPTool_start_def call_key_def Let_def split_beta
      split: if_splits)

lemma app_inv_dataCache:
  "app_inv fmt st \<Longrightarrow> cache_ok fmt c \<Longrightarrow> app_inv fmt (st\<lparr>dataCache := c\<rparr>)"
  by (simp add: app_inv_def intervals_ok_def)

lemma run_ok_iff: "run_ok run \<longleftrightarrow> exclusive run \<and> (\<not> settled run \<longrightarrow> (\<forall>c. accounted run c))"
  by (simp add: run_ok_def exclusive_def accounted_def)

lemma start_call_inv:
  assumes "start_call fmt now c (run, requests, st) = (run', requests', st')"
    and "app_inv fmt st" and "exclusive run" and "\<not> accounted run c"
  shows "app_inv fmt st'" and "exclusive run'"
    and "accounted run' c' \<longleftrightarrow> c' = c \<or> accounted run c'"
    and "settled run' = settled run"
proof -
  note e = start_call_effect [OF assms(1)]
  from assms(2) show "app_inv fmt st'"
    unfolding e(1) by (intro app_inv_dataCache cache_ok_get) (simp_all add: app_inv_def)
  from e(3) assms(3,4) show "exclusive run'"
    by (auto simp: exclusive_def accounted_def)
  from e(3) show "accounted run' c' \<longleftrightarrow> c' = c \<or> accounted run c'"
    by (auto simp: accounted_def split: if_splits)
  show "settled run' = settled run" by (rule e(2))
qed

lemma updateDashboardData_start_inv:
  assumes "updateDashboardData_start fmt now st = (run, requests, st')" and "app_inv fmt st"
  shows "app_inv fmt st'" and "run_ok run" and "\<not> settled run"
    and "runs st' = runs st" and "sent st' = sent st"
proof -
  let ?r0 = "\<lparr>results = Map.empty, pending = {}, settled = False\<rparr>"
  have r0: "exclusive ?r0" "\<And>c. \<not> accounted ?r0 c"
    by (simp_all add: exclusive_def accounted_def)
  obtain r1 q1 s1 where 1: "start_call fmt now StockCall (?r0, [], st) = (r1, q1, s1)"
    by (metis prod_cases3)
  obtain r2 q2 s2 where 2: "start_call fmt now NewsCall (r1, q1, s1) = (r2, q2, s2)"
    by (metis prod_cases3)
  from assms(1) 1 2 have 3: "start_call fmt now EmploymentCall (r2, q2, s2) = (run, requests, st')"
    by (simp add: updateDashboardData_start_def)
  note i1 = start_call_inv [OF 1 assms(2) r0]
  from i1(3) r0(2) have n1: "\<not> accounted r1 NewsCall" by simp
  note i2 = start_call_inv [OF 2 i1(1,2) n1]
  from i2(3) i1(3) r0(2) have n2: "\<not> accounted r2 EmploymentCall" by simp
  note i3 = start_call_inv [OF 3 i2(1,2) n2]
  show "app_inv fmt st'" by (rule i3(1))
  from i3(4) i2(4) i1(4) show "\<not> settled run" by simp
  have "accounted run c" for c
    by (cases c) (simp_all add: i3(3) i2(3) i1(3))
  with i3(2) show "run_ok run" by (simp add: run_ok_iff)
  show "runs st' = runs st" "sent st' = sent st"
    by (simp_all add: start_call_effect(1) [OF 3] start_call_effect(1) [OF 2]
        start_call_effect(1) [OF 1])
qed

lemma run_continue_inv:
  assumes "run_continue fmt timeString rnd (run, st) = (run', st')"
    and "app_inv fmt st" and "run_ok run"
  shows "app_inv fmt st'" and "run_ok run'"
proof -
  have "paints st st'" and "run' = run \<or> run' = run\<lparr>settled := True\<rparr>"
    using assms(1) by (auto simp: run_continue_def paints_try_rest split: if_splits)
  with assms(2,3) show "app_inv fmt st'" and "run_ok run'"
    by (auto simp: run_ok_def intro: app_inv_paints)
qed

lemma callMCPTool_resume_inv:
  assumes "callMCPTool_resume fmt now rnd (toolName_of c) (args_of c) outcome st = (r, st1)"
    and "app_inv fmt st"
  shows "app_inv fmt st1"
proof (cases outcome rule: succeeded_cases)
  case (ok status d)
  with assms show ?thesis
    by (auto simp: callMCPTool_resume_ok app_inv_def intervals_ok_def
        cache_ok_set [unfolded call_key_def])
next
  case failed
  with assms(1) have "st1 = notify (''Unable to fetch '' @ toolName_of c
      @ '' data. Using simulated data.'') ''warning'' st"
    by (simp add: callMCPTool_resume_failed)
  with assms(2) show ?thesis by (auto intro: app_inv_paints paints_notify)
qed

lemma on_response_inv:
  assumes "on_response fmt now timeString rnd rnd' c outcome (run, st) = (run', st')"
    and "app_inv fmt st" and "run_ok run"
  shows "app_inv fmt st'" and "run_ok run'"
proof -
  obtain r st1 where res: "callMCPTool_resume fmt now rnd (toolName_of c) (args_of c) outcome st
      = (r, st1)" by (cases "callMCPTool_resume fmt now rnd (toolName_of c) (args_of c) outcome st")
  from res assms(2) have inv1: "app_inv fmt st1" by (rule callMCPTool_resume_inv)
  have "app_inv fmt st' \<and> run_ok run'"
  proof (cases "c \<in> pending run")
    case False
    with assms show ?thesis by (simp add: on_response_def)
  next
    case True
    show ?thesis
    proof (cases r)
      case (Inl e)
      with True res assms(1) have "paints st1 st'"
        and "pending run' = pending run - {c}" and "results run' = results run"
        and "settled run'"
        by (auto simp: on_response_def paints_catch_block split: if_splits)
      with inv1 assms(3) show ?thesis
        by (auto simp: run_ok_def intro: app_inv_paints)
    next
      case (Inr d)
      let ?run1 = "run\<lparr>pending := pending run - {c}, results := (results run)(c \<mapsto> d)\<rparr>"
      from True Inr res assms(1)
      have "run_continue fmt timeString rnd' (?run1, st1) = (run', st')"
        by (simp add: on_response_def)
      moreover from assms(3) have "run_ok ?run1" by (auto simp: run_ok_def)
      ultimately show ?thesis using inv1 by (blast intro: run_continue_inv)
    qed
  qed
  then show "app_inv fmt st'" and "run_ok run'" by simp_all
qed

lemma with_run_inv:
  assumes f: "\<And>run st run' st'. f (run, st) = (run', st') \<Longrightarrow> app_inv fmt st \<Longrightarrow> run_ok run
      \<Longrightarrow> app_inv fmt st' \<and> run_ok run'"
    and "app_inv fmt st"
  shows "app_inv fmt (with_run i f st)"
proof (cases "i < length (runs st)")
  case False
  with assms(2) show ?thesis by (simp add: with_run_def)
next
  case True
  obtain run' st' where r: "f (runs st ! i, st) = (run', st')" by (cases "f (runs st ! i, st)")
  from True assms(2) have "run_ok (runs st ! i)" by (simp add: app_inv_def list_all_length)
  from f [OF r assms(2) this] have "app_inv fmt st'" and "run_ok run'" by simp_all
  then have "app_inv fmt (st'\<lparr>runs := (runs st')[i := run']\<rparr>)"
    by (auto simp: app_inv_def intervals_ok_def list_all_iff dest: set_update_subset_insert [THEN subsetD])
  with True r show ?thesis by (simp add: with_run_def)
qed

lemma app_inv_button [simp]: "app_inv fmt (st\<lparr>refreshBtn := b\<rparr>) = app_inv fmt st"
  by (simp add: app_inv_def intervals_ok_def)

lemma app_inv_notify: "app_inv fmt st \<Longrightarrow> app_inv fmt (notify m ty st)"
  by (blast intro: app_inv_paints paints_notify)

lemma app_inv_time: "app_inv fmt st \<Longrightarrow> app_inv fmt (updateLastUpdatedTime timeString st)"
  by (auto simp: updateLastUpdatedTime_def intro: app_inv_paints)

lemma updateDashboardData_inv:
  assumes "app_inv fmt st"
  shows "app_inv fmt (updateDashboardData fmt now st)"
proof -
  obtain run requests st' where s: "updateDashboardData_start fmt now st = (run, requests, st')"
    by (metis prod_cases3)
  from updateDashboardData_start_inv(1,2) [OF s assms] s show ?thesis
    by (simp add: updateDashboardData_def app_inv_def intervals_ok_def)
qed

lemma run_continue_keeps:
  "run_continue fmt timeString rnd (run, st) = (run', st') \<Longrightarrow> app_inv fmt st \<Longrightarrow> run_ok run
     \<Longrightarrow> app_inv fmt st' \<and> run_ok run'"
  by (blast intro: run_continue_inv)

lemma on_response_keeps:
  "on_response fmt now timeString rnd rnd' c outcome (run, st) = (run', st') \<Longrightarrow>
     app_inv fmt st \<Longrightarrow> run_ok run \<Longrightarrow> app_inv fmt st' \<and> run_ok run'"
  by (blast intro: on_response_inv)

lemma interval_tick_inv:
  assumes "app_inv fmt st"
  shows "app_inv fmt (interval_tick fmt timer st)"
proof -
  have "runs (interval_tick fmt timer st) = runs st"
    by (simp add: interval_tick_def Let_def split: option.splits)
  moreover have "intervals_ok (interval_tick fmt timer st)"
    using assms by (auto simp: app_inv_def intervals_ok_def intervals_tick tick_interval_def
        split: if_splits option.splits)
  ultimately show ?thesis using assms by (simp add: app_inv_def)
qed

lemma app_step_inv: "app_inv fmt st \<Longrightarrow> app_inv fmt (app_step fmt ev st)"
proof (cases ev)
  case (RefreshTimeout now timeString rnd)
  assume "app_inv fmt st"
  then have "app_inv fmt (notify ''Dashboard updated successfully'' ''success''
      ((updateLastUpdatedTime timeString (updateDashboardData fmt now st))
         \<lparr>refreshBtn := \<lparr>disabled = False, opacity = ''1'', transform = ''rotate(0deg)''\<rparr>\<rparr>))"
    by (intro app_inv_notify) (simp add: app_inv_time updateDashboardData_inv)
  then show ?thesis
    unfolding RefreshTimeout app_step.simps refresh_timeout_def Let_def
    by (rule with_run_inv [rotated]) (rule run_continue_keeps)
next
  case (AutoRefresh now timeString rnd)
  assume "app_inv fmt st"
  then have "app_inv fmt (updateLastUpdatedTime timeString (updateDashboardData fmt now st))"
    by (simp add: app_inv_time updateDashboardData_inv)
  then show ?thesis
    unfolding AutoRefresh app_step.simps auto_refresh_def Let_def
    by (rule with_run_inv [rotated]) (rule run_continue_keeps)
next
  case (ResponseArrives i c outcome now timeString rnd rnd')
  assume "app_inv fmt st"
  then show ?thesis
    unfolding ResponseArrives app_step.simps
    by (rule with_run_inv [rotated]) (rule on_response_keeps)
qed (auto simp: refresh_click_def details_click_def details_timeout_def interval_tick_inv
    app_inv_notify, auto simp: app_inv_def intervals_ok_def fading_first_preserved)

lemma app_inv_init: "app_inv fmt (app_init texts timeString)"
  by (simp add: app_inv_def app_init_def cache_ok_def DataCache_new_def intervals_ok_def)

lemma reachable_inv: "reachable fmt st \<Longrightarrow> app_inv fmt st"
  by (induction rule: reachable.induct) (simp_all add: app_inv_init app_step_inv)

section \<open>An outage, and a refresh\<close>

text \<open>
  \<open>evicted fmt now c\<close> is the cache after the three reads of a start;
  \<open>waiting_app\<close> is the page after its first automatic refresh, with three
  requests in flight.
\<close>

lemma paints_runs: "paints st st' \<Longrightarrow> runs st' = runs st"
  by (simp add: paints_def)

lemma start_call_miss:
  assumes "\<not> hit fmt now (toolName_of c) (args_of c) st"
  shows "start_call fmt now c (run, requests, st) =
     (run\<lparr>pending := insert c (pending run)\<rparr>,
      requests @ [mcp_request fmt (toolName_of c) (args_of c)],
      st\<lparr>dataCache := snd (DataCache_get now (call_key fmt c) (dataCache st))\<rparr>)"
  using assms by (simp add: start_call_def callMCPTool_start_miss call_key_def)

lemma miss_after_evict:
  "\<not> hit fmt t toolName args st \<Longrightarrow>
     \<not> hit fmt t toolName args (st\<lparr>dataCache := snd (DataCache_get now key (dataCache st))\<rparr>)"
  by (blast dest: hit_after_evict)

lemma updateDashboardData_start_all_miss:
  assumes "\<And>c. \<not> hit fmt now (toolName_of c) (args_of c) st"
  shows "updateDashboardData_start fmt now st =
     (\<lparr>results = Map.empty, pending = UNIV, settled = False\<rparr>,
      map (\<lambda>c. mcp_request fmt (toolName_of c) (args_of c)) [StockCall, NewsCall, EmploymentCall],
      st\<lparr>dataCache := evicted fmt now (dataCache st)\<rparr>)"
proof -
  let ?s1 = "st\<lparr>dataCache := snd (DataCache_get now (call_key fmt StockCall) (dataCache st))\<rparr>"
  let ?s2 = "?s1\<lparr>dataCache := snd (DataCache_get now (call_key fmt NewsCall) (dataCache ?s1))\<rparr>"
  have 1: "\<not> hit fmt now (toolName_of NewsCall) (args_of NewsCall) ?s1"
    by (rule miss_after_evict) (rule assms)
  have 2: "\<not> hit fmt now (toolName_of EmploymentCall) (args_of EmploymentCall) ?s2"
    by (intro miss_after_evict) (rule assms)
  show ?thesis
    unfolding updateDashboardData_start_def
    by (simp only: start_call_miss [OF assms] start_call_miss [OF 1] start_call_miss [OF 2])
      (simp add: evicted_def UNIV_call_id insert_commute)
qed

lemma hit_app_init [simp]: "\<not> hit fmt t toolName args (app_init texts timeString)"
  by (simp add: hit_def app_init_def visible_def DataCache_new_def)

lemma runs_waiting_app:
  "runs waiting_app = [\<lparr>results = Map.empty, pending = UNIV, settled = False\<rparr>]"
  by (simp add: waiting_app_def auto_refresh_def updateDashboardData_def
      updateDashboardData_start_all_miss updateLastUpdatedTime_def with_run_def run_continue_def)
    (simp add: app_init_def)

lemma reachable_waiting_app: "reachable (\<lambda>q. []) waiting_app"
proof -
  have "reachable (\<lambda>q. []) (app_init (\<lambda>el. ''70'') ''11:59'')"
    by (rule reachable.init)
  then have "reachable (\<lambda>q. [])
      (app_step (\<lambda>q. []) (AutoRefresh 0 ''12:00'' (\<lambda>k. 0)) (app_init (\<lambda>el. ''70'') ''11:59''))"
    by (rule reachable.step) simp
  then show ?thesis by (simp add: waiting_app_def)
qed

text \<open>
  Claim C3. In an outage \<open>callMCPTool\<close> throws for each of the three calls of
  the dashboard: none of the three argument objects has all of \<open>symbols\<close>,
  \<open>days_back\<close> and \<open>months_back\<close>, which the fallback reads whatever the tool.
\<close>

theorem callMCPTool_outage_throws:
  assumes "\<not> hit fmt t0 (toolName_of c) (args_of c) st" and "succeeded outcome = None"
  shows "fst (callMCPTool fmt t0 t1 rnd outcome (toolName_of c) (args_of c) st)
    = Throw (case c of StockCall \<Rightarrow> RangeError | _ \<Rightarrow> TypeError)"
  using assms by (simp add: callMCPTool_miss callMCPTool_resume_outage)

theorem callMCPTool_outage_throws_witness:
  "fst (callMCPTool (\<lambda>q. []) 0 1 (\<lambda>k. 0) FetchRejected (toolName_of StockCall)
          (args_of StockCall) empty_dashboard) = Throw RangeError"
  using callMCPTool_outage_throws [where c = StockCall and st = empty_dashboard
      and outcome = FetchRejected and fmt = "\<lambda>q. []" and ?t0.0 = 0 and ?t1.0 = 1
      and rnd = "\<lambda>k. 0"]
  by simp

text \<open>
  Claim C10. When a request of a run that still waits fails, the page gets the
  warning of \<open>callMCPTool\<close> and then the \<open>catch\<close> block: the notice that
  simulated data is used and the simulated update; the run has left its
  \<open>await\<close>, and no payload reaches the update functions.
\<close>

theorem response_in_outage:
  assumes "enabled (ResponseArrives i c outcome now timeString rnd rnd') st"
    and "\<not> settled (runs st ! i)" and "succeeded outcome = None"
  shows "app_step fmt (ResponseArrives i c outcome now timeString rnd rnd') st =
     (catch_block fmt rnd'
        (notify (''Unable to fetch '' @ toolName_of c @ '' data. Using simulated data.'')
           ''warning'' st))
     \<lparr>runs := (runs st)[i := (runs st ! i)\<lparr>pending := pending (runs st ! i) - {c},
                                          settled := True\<rparr>]\<rparr>"
proof -
  let ?st1 = "notify (''Unable to fetch '' @ toolName_of c @ '' data. Using simulated data.'')
      ''warning'' st"
  have "paints st (catch_block fmt rnd' ?st1)"
    by (blast intro: paints_trans paints_notify paints_catch_block)
  then have "runs (catch_block fmt rnd' ?st1) = runs st" by (rule paints_runs)
  with assms show ?thesis
    by (simp add: with_run_def on_response_outage)
qed

theorem response_in_outage_witness:
  "app_step (\<lambda>q. []) (ResponseArrives 0 NewsCall FetchRejected 5 ''12:01'' (\<lambda>k. 0) (\<lambda>k. 0))
     waiting_app =
   (catch_block (\<lambda>q. []) (\<lambda>k. 0)
      (notify (''Unable to fetch '' @ toolName_of NewsCall @ '' data. Using simulated data.'')
         ''warning'' waiting_app))
   \<lparr>runs := (runs waiting_app)[0 := (runs waiting_app ! 0)
       \<lparr>pending := pending (runs waiting_app ! 0) - {NewsCall}, settled := True\<rparr>]\<rparr>"
  by (rule response_in_outage) (simp_all add: runs_waiting_app)

text \<open>
  Claim C38. The refresh button reports success before any data has arrived:
  when the three calls miss the cache, its timeout sends the three requests,
  enables the button again and shows the success notification, while the run
  it started still waits for all three responses.
\<close>

theorem refresh_timeout_success_before_data:
  assumes "\<And>c. \<not> hit fmt now (toolName_of c) (args_of c) st"
  shows "refresh_timeout fmt now timeString rnd st =
     st\<lparr>dataCache := evicted fmt now (dataCache st),
        notifications := notifications st
          @ [new_notification ''Dashboard updated successfully'' ''success''],
        lastUpdated := timeString,
        runs := runs st @ [\<lparr>results = Map.empty, pending = UNIV, settled = False\<rparr>],
        refreshBtn := \<lparr>disabled = False, opacity = ''1'', transform = ''rotate(0deg)''\<rparr>,
        sent := sent st @ map (\<lambda>c. mcp_request fmt (toolName_of c) (args_of c))
                  [StockCall, NewsCall, EmploymentCall]\<rparr>"
  by (simp add: refresh_timeout_def updateDashboardData_def
      updateDashboardData_start_all_miss [OF assms] updateLastUpdatedTime_def notify_def
      showNotification_def with_run_def run_continue_def nth_append)

theorem refresh_timeout_success_before_data_witness:
  "refresh_timeout (\<lambda>q. []) 0 ''12:00'' (\<lambda>k. 0) (refresh_click (app_init (\<lambda>el. ''70'') ''11:59'')) =
     (refresh_click (app_init (\<lambda>el. ''70'') ''11:59''))
     \<lparr>dataCache := evicted (\<lambda>q. []) 0 (dataCache (refresh_click (app_init (\<lambda>el. ''70'') ''11:59''))),
      notifications := notifications (refresh_click (app_init (\<lambda>el. ''70'') ''11:59''))
        @ [new_notification ''Dashboard updated successfully'' ''success''],
      lastUpdated := ''12:00'',
      runs := runs (refresh_click (app_init (\<lambda>el. ''70'') ''11:59''))
        @ [\<lparr>results = Map.empty, pending = UNIV, settled = False\<rparr>],
      refreshBtn := \<lparr>disabled = False, opacity = ''1'', transform = ''rotate(0deg)''\<rparr>,
      sent := sent (refresh_click (app_init (\<lambda>el. ''70'') ''11:59''))
        @ map (\<lambda>c. mcp_request (\<lambda>q. []) (toolName_of c) (args_of c))
            [StockCall, NewsCall, EmploymentCall]\<rparr>"
  by (rule refresh_timeout_success_before_data)
    (simp add: refresh_click_def hit_def app_init_def visible_def DataCache_new_def)

end
