(* ===== verification/Sparkline.thy ===== *)
theory Sparkline
  imports Simulated_Data
begin

text \<open>
  The charts of the dashboard, \<open>drawSparkline\<close> and \<open>initializeCharts\<close> of
  \<^verbatim>\<open>src/dashboard-script.js\<close>.

  A canvas is the width of its parent, its own size, the styles of its context
  and the list of the path and drawing calls made on the context since the
  bitmap was last cleared (assigning the width clears it). The calls are
  recorded with their arguments; what the browser paints for them is not
  modelled. The canvases of the page are a map from element ids; every canvas
  has a parent. The data of a chart is a list of numbers.
\<close>

section \<open>Math.max and Math.min with spread arguments\<close>

definition math_max_list :: "jsnum list \<Rightarrow> jsnum" where
  "math_max_list xs = fold (\<lambda>x acc. if acc = NaN \<or> x = NaN then NaN
                                    else if js_lt acc x then x else acc) xs NegInf"

definition math_min_list :: "jsnum list \<Rightarrow> jsnum" where
  "math_min_list xs = fold (\<lambda>x acc. if acc = NaN \<or> x = NaN then NaN
                                    else if js_lt x acc then x else acc) xs PosInf"

section \<open>drawSparkline\<close>

datatype draw_call =
  BeginPath
  | MoveTo jsnum jsnum
  | LineTo jsnum jsnum
  | Stroke
  | ClosePath
  | Fill

record canvas =
  offsetWidth :: nat
  canvas_width :: nat
  canvas_height :: nat
  strokeStyle :: string
  lineWidth :: nat
  fillStyle :: "(nat \<times> string) list"
  calls :: "draw_call list"

definition sparkline_point :: "jsnum \<Rightarrow> jsnum \<Rightarrow> jsnum \<Rightarrow> nat \<Rightarrow> jsnum \<Rightarrow> jsnum \<times> jsnum" where
  "sparkline_point step lo spread index v =
     (Fin (of_nat index) * step, 80 - ((v - lo) / spread) * (80 - 20) - 10)"

definition sparkline_points :: "nat \<Rightarrow> jsnum list \<Rightarrow> (jsnum \<times> jsnum) list" where
  "sparkline_points width xs =
     (let lo = math_min_list xs;
          spread = math_max_list xs - lo;
          step = Fin (of_nat width) / Fin (of_int (int (length xs) - 1))
      in map (\<lambda>(index, v). sparkline_point step lo spread index v) (enumerate 0 xs))"

definition path_calls :: "(jsnum \<times> jsnum) list \<Rightarrow> draw_call list" where
  "path_calls ps =
     map (\<lambda>(index, (x, y)). if index = 0 then MoveTo x y else LineTo x y) (enumerate 0 ps)"

definition drawSparkline ::
  "string \<Rightarrow> jsnum list \<Rightarrow> string \<Rightarrow> (string \<rightharpoonup> canvas) \<Rightarrow> (string \<rightharpoonup> canvas)" where
  "drawSparkline canvasId xs color page =
     (case page canvasId of
        None \<Rightarrow> page
      | Some c \<Rightarrow>
          (let width = offsetWidth c in
           page(canvasId \<mapsto>
             c\<lparr>canvas_width := width, canvas_height := 80, strokeStyle := color,
               lineWidth := 2, fillStyle := [(0, color @ ''40''), (1, color @ ''00'')],
               calls := [BeginPath] @ path_calls (sparkline_points width xs) @
                 [Stroke, LineTo (Fin (of_nat width)) 80, LineTo 0 80, ClosePath, Fill]\<rparr>)))"

section \<open>initializeCharts\<close>

definition sentimentData :: "rng \<Rightarrow> jsnum list" where
  "sentimentData rnd = map (\<lambda>i. Fin (rnd i) * 30 + 60) [0..<30]"

definition devActivityData :: "rng \<Rightarrow> jsnum list" where
  "devActivityData rnd = map (\<lambda>i. Fin (rnd (30 + i)) * 5 + 6) [0..<30]"

definition portfolioData :: "rng \<Rightarrow> jsnum list" where
  "portfolioData rnd =
     map (\<lambda>i. 10 + Fin (of_nat i) * Fin (3 / 10) + Fin (rnd (60 + i)) * 2) [0..<30]"

definition initializeCharts :: "rng \<Rightarrow> (string \<rightharpoonup> canvas) \<Rightarrow> (string \<rightharpoonup> canvas)" where
  "initializeCharts rnd page =
     drawSparkline ''portfolioChart'' (portfolioData rnd) ''#f59e0b''
       (drawSparkline ''devActivityChart'' (devActivityData rnd) ''#10b981''
          (drawSparkline ''sentimentChart'' (sentimentData rnd) ''#2563eb'' page))"

definition in_canvas :: "nat \<Rightarrow> jsnum \<times> jsnum \<Rightarrow> bool" where
  "in_canvas width p =
     (case p of
        (Fin x, Fin y) \<Rightarrow> 0 \<le> x \<and> x \<le> of_nat width \<and> 10 \<le> y \<and> y \<le> 70
      | _ \<Rightarrow> False)"

section \<open>Lemmas\<close>

lemma fold_max_Fin:
  "fold (\<lambda>x acc. if acc = NaN \<or> x = NaN then NaN else if js_lt acc x then x else acc)
     (map Fin qs) (Fin a) = Fin (fold max qs a)"
  by (induction qs arbitrary: a) (auto simp: max_def)

lemma fold_min_Fin:
  "fold (\<lambda>x acc. if acc = NaN \<or> x = NaN then NaN else if js_lt x acc then x else acc)
     (map Fin qs) (Fin a) = Fin (fold min qs a)"
  by (induction qs arbitrary: a) (auto simp: min_def)

lemma math_max_list_Fin: "qs \<noteq> [] \<Longrightarrow> math_max_list (map Fin qs) = Fin (Max (set qs))"
  by (cases qs) (simp_all add: math_max_list_def fold_max_Fin Max.set_eq_fold [symmetric])

lemma math_min_list_Fin: "qs \<noteq> [] \<Longrightarrow> math_min_list (map Fin qs) = Fin (Min (set qs))"
  by (cases qs) (simp_all add: math_min_list_def fold_min_Fin Min.set_eq_fold [symmetric])


lemma enumerate_set_bounds:
  "(i, x) \<in> set (enumerate 0 xs) \<Longrightarrow> i < length xs \<and> x \<in> set xs"
  by (auto simp: in_set_enumerate_eq)

lemma sparkline_point_in_canvas:
  assumes "lo \<le> q" and "q \<le> hi" and "lo < hi" and "i \<le> n" and "0 < n"
  shows "in_canvas w (sparkline_point (Fin (of_nat w) / Fin (of_nat n)) (Fin lo)
           (Fin hi - Fin lo) i (Fin q))"
proof -
  define t where "t = (q - lo) / (hi - lo)"
  define x where "x = rat_of_nat i * (rat_of_nat w / rat_of_nat n)"
  have t: "0 \<le> t" "t \<le> 1"
    using assms by (simp_all add: t_def divide_le_eq)
  have "rat_of_nat i * rat_of_nat w \<le> rat_of_nat n * rat_of_nat w"
    using assms(4) by (intro mult_right_mono) simp_all
  then have x: "0 \<le> x" "x \<le> rat_of_nat w"
    using assms(5) by (simp_all add: x_def divide_le_eq mult.commute)
  have "sparkline_point (Fin (of_nat w) / Fin (of_nat n)) (Fin lo) (Fin hi - Fin lo) i (Fin q) =
      (Fin x, Fin (80 - t * 60 - 10))"
    using assms(3,5) by (simp add: sparkline_point_def t_def x_def)
  with t x show ?thesis
    by (simp add: in_canvas_def)
qed

lemma two_values:
  assumes "a \<in> set qs" and "b \<in> set qs" and "a < b"
  shows "qs \<noteq> []" and "2 \<le> length qs" and "Min (set qs) < Max (set qs)"
proof -
  from assms(1) show "qs \<noteq> []" by auto
  from assms show "2 \<le> length qs"
    by (cases qs; cases "tl qs") auto
  have "Min (set qs) \<le> a" and "b \<le> Max (set qs)"
    using assms(1,2) by simp_all
  with assms(3) show "Min (set qs) < Max (set qs)" by simp
qed

lemma in_set_enumerate_map:
  assumes "p \<in> set (map (\<lambda>(index, v). f index v) (enumerate 0 (map g qs)))"
  obtains i where "i < length qs" and "p = f i (g (qs ! i))"
  using assms by (auto simp: in_set_enumerate_eq)

lemma sparkline_points_flat:
  assumes "0 < n"
  shows "map snd (sparkline_points w (replicate n (Fin q))) = replicate n NaN"
proof -
  have ne: "replicate n q \<noteq> []" and set: "set (replicate n q) = {q}"
    using assms by auto
  have "math_max_list (map Fin (replicate n q)) = Fin q"
    and "math_min_list (map Fin (replicate n q)) = Fin q"
    by (simp_all only: math_max_list_Fin [OF ne] math_min_list_Fin [OF ne] set Max_singleton
        Min_singleton)
  then have "math_max_list (replicate n (Fin q)) = Fin q"
    and "math_min_list (replicate n (Fin q)) = Fin q"
    by simp_all
  then show ?thesis
    by (auto simp: sparkline_points_def sparkline_point_def split_def in_set_enumerate_eq
        intro!: replicate_eqI)
qed

text \<open>
  Claim C25. When the data of a chart are finite numbers with at least two
  different values, every point of the line that \<open>drawSparkline\<close> draws lies in
  the canvas: its \<open>x\<close> is between 0 and the width, its \<open>y\<close> between 10 and 70
  (the canvas is 80 high).
\<close>

theorem sparkline_points_in_canvas:
  assumes "a \<in> set qs" and "b \<in> set qs" and "a < b"
  shows "list_all (in_canvas w) (sparkline_points w (map Fin qs))"
proof -
  note qs = two_values [OF assms]
  have n: "rat_of_int (int (length (map Fin qs)) - 1) = rat_of_nat (length qs - 1)"
    using qs(2) by (simp add: of_nat_diff)
  show ?thesis
    unfolding list_all_iff sparkline_points_def Let_def math_max_list_Fin [OF qs(1)]
      math_min_list_Fin [OF qs(1)] n
  proof
    fix p
    assume "p \<in> set (map (\<lambda>(index, v).
      sparkline_point (Fin (of_nat w) / Fin (of_nat (length qs - 1))) (Fin (Min (set qs)))
        (Fin (Max (set qs)) - Fin (Min (set qs))) index v) (enumerate 0 (map Fin qs)))"
    then obtain i where i: "i < length qs"
      and p: "p = sparkline_point (Fin (of_nat w) / Fin (of_nat (length qs - 1)))
        (Fin (Min (set qs))) (Fin (Max (set qs)) - Fin (Min (set qs))) i (Fin (qs ! i))"
      by (rule in_set_enumerate_map)
    show "in_canvas w p"
      unfolding p using i qs by (intro sparkline_point_in_canvas) simp_all
  qed
qed

theorem sparkline_points_in_canvas_witness:
  "list_all (in_canvas 300) (sparkline_points 300 (map Fin [1, 3, 2]))"
  by (rule sparkline_points_in_canvas [where a = 1 and b = 3]) simp_all

end
