(* ===== verification/Nav_UI.thy ===== *)
theory Nav_UI
  imports Js_Coerce
begin

text \<open>
  The navigation bar that the three scripts share, and the rest of
  \<^verbatim>\<open>src/script.js\<close> (the script of the home page).

  An element that the script looks up with \<open>querySelector\<close> is an option: \<open>None\<close>
  when the page has no such element (the script then holds \<open>null\<close>), otherwise
  whether the element has the class the script sets on it (\<^verbatim>\<open>scrolled\<close> on the
  bar, \<^verbatim>\<open>active\<close> on the menu button and on the list of links). Calling
  \<open>classList\<close> on \<open>null\<close> throws a \<open>TypeError\<close>.

  \<open>listeners\<close> holds the listeners that have been registered. A script is a
  procedure that registers them in the order of its statements and stops at the
  first statement that throws; an event runs the listeners registered for it,
  each to its end or to its exception, which the browser reports and drops.

  \<open>scroll_effect\<close>, \<open>menu_toggle_click\<close> and \<open>nav_link_click\<close> are the bodies of
  the listeners; the three scripts have the same bodies and differ in the
  guards under which they register them (\<open>script_load\<close>, \<open>dashboard_menu\<close>,
  \<open>setupMobileMenu\<close>, \<open>setupNavScroll\<close>).

  Not modelled: smooth scrolling (the browser scrolls), the style sheet the
  script appends, the typing effect (commented out in the source).
\<close>

section \<open>Elements and their class lists\<close>

type_synonym element = "bool option"

definition classList_add :: "element \<Rightarrow> element js_result" where
  "classList_add el = (case el of None \<Rightarrow> Throw TypeError | Some _ \<Rightarrow> Return (Some True))"

definition classList_remove :: "element \<Rightarrow> element js_result" where
  "classList_remove el = (case el of None \<Rightarrow> Throw TypeError | Some _ \<Rightarrow> Return (Some False))"

definition classList_toggle :: "element \<Rightarrow> element js_result" where
  "classList_toggle el = (case el of None \<Rightarrow> Throw TypeError | Some b \<Rightarrow> Return (Some (\<not> b)))"

datatype listener = ScrollEffect | MenuClick | LinkClick | Intersection | Parallax

record nav_ui =
  nav_scrolled :: element
  toggle_active :: element
  links_active :: element
  listeners :: "listener set"

definition register :: "listener \<Rightarrow> 'a nav_ui_scheme \<Rightarrow> 'a nav_ui_scheme" where
  "register l st = st\<lparr>listeners := insert l (listeners st)\<rparr>"

definition when_registered :: "listener \<Rightarrow> 'a nav_ui_scheme proc \<Rightarrow> 'a nav_ui_scheme proc" where
  "when_registered l p st = (if l \<in> listeners st then p st else (None, st))"

definition run_listener ::
  "listener \<Rightarrow> 'a nav_ui_scheme proc \<Rightarrow> 'a nav_ui_scheme \<Rightarrow> 'a nav_ui_scheme" where
  "run_listener l p st = snd (when_registered l p st)"

section \<open>The listeners of the navigation bar\<close>

definition scroll_effect :: "jsnum \<Rightarrow> 'a nav_ui_scheme proc" where
  "scroll_effect pageYOffset =
     proc_read (\<lambda>st. if js_gt pageYOffset 50 then classList_add (nav_scrolled st)
                     else classList_remove (nav_scrolled st))
       (\<lambda>el. proc_do (\<lambda>st. st\<lparr>nav_scrolled := el\<rparr>))"

definition menu_toggle_click :: "'a nav_ui_scheme proc" where
  "menu_toggle_click =
     proc_seq
       (proc_read (\<lambda>st. classList_toggle (links_active st))
          (\<lambda>el. proc_do (\<lambda>st. st\<lparr>links_active := el\<rparr>)))
       (proc_read (\<lambda>st. classList_toggle (toggle_active st))
          (\<lambda>el. proc_do (\<lambda>st. st\<lparr>toggle_active := el\<rparr>)))"

definition nav_link_click :: "'a nav_ui_scheme proc" where
  "nav_link_click =
     proc_seq
       (proc_read (\<lambda>st. classList_remove (links_active st))
          (\<lambda>el. proc_do (\<lambda>st. st\<lparr>links_active := el\<rparr>)))
       (proc_read (\<lambda>st. classList_remove (toggle_active st))
          (\<lambda>el. proc_do (\<lambda>st. st\<lparr>toggle_active := el\<rparr>)))"

section \<open>Registration in the dashboard and in the profile page\<close>

definition dashboard_menu :: "'a nav_ui_scheme \<Rightarrow> 'a nav_ui_scheme" where
  "dashboard_menu st =
     register LinkClick (if toggle_active st \<noteq> None then register MenuClick st else st)"

definition setupMobileMenu :: "'a nav_ui_scheme \<Rightarrow> 'a nav_ui_scheme" where
  "setupMobileMenu st =
     (if toggle_active st \<noteq> None \<and> links_active st \<noteq> None
      then register LinkClick (register MenuClick st) else st)"

definition setupNavScroll :: "'a nav_ui_scheme \<Rightarrow> 'a nav_ui_scheme" where
  "setupNavScroll st = register ScrollEffect st"

section \<open>The home page\<close>

record home_page = nav_ui +
  lastScroll :: jsnum
  hero_transform :: "string option"
  animate_in :: "nat set"

definition nav_scroll :: "jsnum \<Rightarrow> home_page proc" where
  "nav_scroll currentScroll =
     proc_seq (scroll_effect currentScroll) (proc_do (\<lambda>st. st\<lparr>lastScroll := currentScroll\<rparr>))"

definition observer_callback :: "(nat \<times> bool) list \<Rightarrow> home_page \<Rightarrow> home_page" where
  "observer_callback entries st =
     fold (\<lambda>(target, isIntersecting) st.
             if isIntersecting then st\<lparr>animate_in := insert target (animate_in st)\<rparr> else st)
       entries st"

definition parallax :: "num_render \<Rightarrow> jsnum \<Rightarrow> jsnum \<Rightarrow> home_page \<Rightarrow> home_page" where
  "parallax fmt scrolled innerHeight st =
     (if hero_transform st \<noteq> None \<and> js_lt scrolled innerHeight
      then st\<lparr>hero_transform :=
                Some (''translateY('' @ number_to_string fmt (scrolled * Fin (1 / 2)) @ ''px)'')\<rparr>
      else st)"

definition script_load :: "home_page proc" where
  "script_load =
     proc_seq (proc_do (register ScrollEffect))
    (proc_seq (proc_read (\<lambda>st. if toggle_active st = None then Throw TypeError else Return ())
                 (\<lambda>_. proc_do (register MenuClick)))
    (proc_seq (proc_do (register LinkClick))
    (proc_seq (proc_do (register Intersection)) (proc_do (register Parallax)))))"

datatype home_event =
  Scroll jsnum jsnum
  | MenuToggleClick
  | NavLinkClick
  | Intersect "(nat \<times> bool) list"

fun home_step :: "num_render \<Rightarrow> home_event \<Rightarrow> home_page \<Rightarrow> home_page" where
  "home_step fmt (Scroll pageYOffset innerHeight) st =
     run_listener Parallax (proc_do (parallax fmt pageYOffset innerHeight))
       (run_listener ScrollEffect (nav_scroll pageYOffset) st)"
| "home_step fmt MenuToggleClick st = run_listener MenuClick menu_toggle_click st"
| "home_step fmt NavLinkClick st = run_listener LinkClick nav_link_click st"
| "home_step fmt (Intersect entries) st =
     run_listener Intersection (proc_do (observer_callback entries)) st"

definition home_run :: "num_render \<Rightarrow> home_event list \<Rightarrow> home_page \<Rightarrow> home_page" where
  "home_run fmt events st = fold (home_step fmt) events (snd (script_load st))"

section \<open>The highlighted link of the dashboard\<close>

text \<open>
  A section is its \<open>id\<close> and its \<open>offsetTop\<close>, a link its \<open>href\<close> attribute
  (\<open>None\<close> when it has none); the listener returns, for each link, whether it
  has the class \<^verbatim>\<open>active\<close> afterwards.
\<close>

definition current_section :: "jsnum \<Rightarrow> (string \<times> jsnum) list \<Rightarrow> string" where
  "current_section pageYOffset sections =
     fold (\<lambda>(id, sectionTop) current.
             if js_ge pageYOffset (sectionTop - 200) then id else current)
       sections []"

definition highlight_links ::
  "jsnum \<Rightarrow> (string \<times> jsnum) list \<Rightarrow> string option list \<Rightarrow> bool list" where
  "highlight_links pageYOffset sections hrefs =
     map (\<lambda>href. href = Some (''#'' @ current_section pageYOffset sections)) hrefs"

definition menu_ok :: "'a nav_ui_scheme \<Rightarrow> bool" where
  "menu_ok st \<longleftrightarrow> toggle_active st \<noteq> None \<and> links_active st = toggle_active st"

section \<open>Lemmas\<close>

lemma classList_simps [simp]:
  "classList_add None = Throw TypeError" "classList_add (Some b) = Return (Some True)"
  "classList_remove None = Throw TypeError" "classList_remove (Some b) = Return (Some False)"
  "classList_toggle None = Throw TypeError" "classList_toggle (Some b) = Return (Some (\<not> b))"
  by (simp_all add: classList_add_def classList_remove_def classList_toggle_def)

lemma register_simps [simp]:
  "listeners (register l st) = insert l (listeners st)"
  "nav_scrolled (register l st) = nav_scrolled st"
  "toggle_active (register l st) = toggle_active st"
  "links_active (register l st) = links_active st"
  "nav_ui.more (register l st) = nav_ui.more st"
  by (simp_all add: register_def)

lemma run_listener_simps [simp]:
  "l \<in> listeners st \<Longrightarrow> run_listener l p st = snd (p st)"
  "l \<notin> listeners st \<Longrightarrow> run_listener l p st = st"
  by (simp_all add: run_listener_def when_registered_def)

lemmas nav_defs =
  when_registered_def scroll_effect_def menu_toggle_click_def nav_link_click_def nav_scroll_def parallax_def
  proc_seq_apply proc_read_apply

lemma script_load_eq:
  "script_load st =
     (if toggle_active st = None then (Some TypeError, register ScrollEffect st)
      else (None, register Parallax (register Intersection (register LinkClick
              (register MenuClick (register ScrollEffect st))))))"
  by (simp add: script_load_def proc_seq_apply proc_read_apply)

lemma observer_callback_frame [simp]:
  "listeners (observer_callback entries st) = listeners st"
  "toggle_active (observer_callback entries st) = toggle_active st"
  "links_active (observer_callback entries st) = links_active st"
  "nav_scrolled (observer_callback entries st) = nav_scrolled st"
  "hero_transform (observer_callback entries st) = hero_transform st"
  unfolding observer_callback_def by (induction entries arbitrary: st; simp add: split_def)+

lemma animate_in_observer_callback:
  "animate_in (observer_callback entries st) =
     animate_in st \<union> fst ` {e \<in> set entries. snd e}"
  unfolding observer_callback_def by (induction entries arbitrary: st) (auto simp: split_def)

lemma home_step_listeners [simp]: "listeners (home_step fmt e st) = listeners st"
  by (cases e; cases "nav_scrolled st"; cases "toggle_active st"; cases "links_active st")
    (auto simp: run_listener_def nav_defs)

lemma home_step_menu_ok: "menu_ok st \<Longrightarrow> menu_ok (home_step fmt e st)"
  by (cases e; cases "nav_scrolled st")
    (auto simp: menu_ok_def run_listener_def nav_defs)

lemma fold_home_step_listeners [simp]:
  "listeners (fold (home_step fmt) events st) = listeners st"
  by (induction events arbitrary: st) simp_all

lemma fold_home_step_menu_ok:
  "menu_ok st \<Longrightarrow> menu_ok (fold (home_step fmt) events st)"
  by (induction events arbitrary: st) (simp_all add: home_step_menu_ok)

lemma home_step_stopped:
  assumes "listeners st \<subseteq> {ScrollEffect}"
  shows "animate_in (home_step fmt e st) = animate_in st"
    and "hero_transform (home_step fmt e st) = hero_transform st"
    and "toggle_active (home_step fmt e st) = toggle_active st"
    and "links_active (home_step fmt e st) = links_active st"
  using assms by (cases e; cases "nav_scrolled st"; auto simp: run_listener_def nav_defs)+

lemma current_section_append [simp]:
  "current_section y (sections @ [(name, offsetTop)]) =
     (if js_ge y (offsetTop - 200) then name else current_section y sections)"
  by (simp add: current_section_def)

lemma current_section_cases:
  "current_section y sections = [] \<or> current_section y sections \<in> fst ` set sections"
proof (induction sections rule: rev_induct)
  case Nil
  show ?case by (simp add: current_section_def)
next
  case (snoc s sections)
  then show ?case by (cases s) (auto simp: image_iff)
qed

text \<open>
  Claim C27. On the home page, when the menu button and the list of links both
  exist and agree on the class \<^verbatim>\<open>active\<close> when the script is loaded, they agree
  after every sequence of events: the menu is never shown with the button in
  its closed state, or the other way round.
\<close>

theorem home_run_menu_in_sync:
  assumes "menu_ok st"
  shows "menu_ok (home_run fmt events st)"
proof -
  from assms have "menu_ok (snd (script_load st))"
    by (simp add: script_load_eq menu_ok_def)
  then show ?thesis
    unfolding home_run_def by (rule fold_home_step_menu_ok)
qed

theorem home_run_menu_in_sync_witness:
  "menu_ok (home_run (\<lambda>q. [])
     [MenuToggleClick, Scroll 120 800, NavLinkClick, MenuToggleClick]
     \<lparr>nav_scrolled = Some False, toggle_active = Some False, links_active = Some False,
      listeners = {}, lastScroll = 0, hero_transform = Some [], animate_in = {}\<rparr>)"
  by (rule home_run_menu_in_sync) (simp add: menu_ok_def)

text \<open>
  Claim C26. On a page without a menu button the script of the home page throws
  a \<open>TypeError\<close> when it registers the click listener of the button. The
  statements after it never run: only the scroll effect of the bar is
  registered, so that no event ever marks a section as animated in or moves the
  hero background.
\<close>

theorem script_load_without_menu_button:
  assumes "toggle_active st = None" and "listeners st = {}"
  shows "fst (script_load st) = Some TypeError \<and>
    listeners (home_run fmt events st) = {ScrollEffect} \<and>
    animate_in (home_run fmt events st) = animate_in st \<and>
    hero_transform (home_run fmt events st) = hero_transform st"
proof -
  let ?st = "snd (script_load st)"
  have l: "listeners ?st = {ScrollEffect}" and a: "animate_in ?st = animate_in st"
    and h: "hero_transform ?st = hero_transform st"
    using assms by (simp_all add: script_load_eq register_def)
  have "listeners (fold (home_step fmt) events s) \<subseteq> {ScrollEffect} \<longrightarrow>
      animate_in (fold (home_step fmt) events s) = animate_in s \<and>
      hero_transform (fold (home_step fmt) events s) = hero_transform s" for s
    by (induction events arbitrary: s) (simp_all add: home_step_stopped)
  with l a h have "animate_in (home_run fmt events st) = animate_in st"
    and "hero_transform (home_run fmt events st) = hero_transform st"
    by (simp_all add: home_run_def)
  moreover have "fst (script_load st) = Some TypeError"
    using assms by (simp add: script_load_eq)
  moreover have "listeners (home_run fmt events st) = {ScrollEffect}"
    using l by (simp add: home_run_def)
  ultimately show ?thesis
    by simp
qed

theorem script_load_without_menu_button_witness:
  "animate_in (home_run (\<lambda>q. []) [Intersect [(0, True)], Scroll 10 800]
     \<lparr>nav_scrolled = Some False, toggle_active = None, links_active = Some False,
      listeners = {}, lastScroll = 0, hero_transform = Some [], animate_in = {}\<rparr>) = {}"
  using script_load_without_menu_button [where fmt = "\<lambda>q. []"
      and events = "[Intersect [(0, True)], Scroll 10 800]"
      and st = "\<lparr>nav_scrolled = Some False, toggle_active = None, links_active = Some False,
        listeners = {}, lastScroll = 0, hero_transform = Some [], animate_in = {}\<rparr>"]
  by simp

end
