(* ===== verification/Profile.thy ===== *)
theory Profile
  imports Nav_UI
begin

text \<open>
  The profile page, \<^verbatim>\<open>src/profile.js\<close>: the two variables \<open>isEditMode\<close> and
  \<open>profileData\<close>, the local storage, and the part of the document the script
  reads and writes.

  \<open>profileData\<close> is a \<open>jsval\<close>, because after \<open>loadProfileData\<close> it is whatever
  \<open>JSON.parse\<close> made of the stored text. \<open>JSON.parse\<close> is the parameter \<open>parse\<close>
  of \<open>loadProfileData\<close>; \<open>confirm\<close> is the parameter \<open>confirmed\<close> of
  \<open>removeStock\<close>. The text content of the elements and the values of the inputs
  are functions of the element's id. The grid of stocks is the list of cards
  that the markup of \<open>renderStocks\<close> describes, each with the four texts it
  shows; the parsing of that markup by the browser is not modelled, so the
  texts are taken to contain no markup. Every element with the class
  \<^verbatim>\<open>risk-option\<close> is taken to have a \<^verbatim>\<open>data-risk\<close> attribute; \<open>risk_options\<close> lists
  them in document order.

  A function of the script is a procedure (\<open>'st proc\<close>): it may throw after it
  has changed part of the state, and the page goes on from that state. An
  exception of the storage (quota) is not modelled. \<open>toUpperCase\<close> is modelled
  on ASCII letters.
\<close>

section \<open>State\<close>

record stock_card =
  card_symbol :: string
  card_name :: string
  card_reason :: string
  card_allocation :: string

record risk_detail =
  tolerance :: string
  horizon :: string
  sectors :: string

record profile_page = nav_ui +
  ready :: bool
  isEditMode :: bool
  profileData :: jsval
  localStorage :: "string \<rightharpoonup> string"
  textContent_of :: "string \<Rightarrow> string"
  value_of :: "string \<Rightarrow> string"
  risk_options :: "string list"
  active_options :: "bool list"
  stocksGrid :: "stock_card list"
  edit_button_editing :: bool
  inputs_shown :: bool
  avatar_src :: string
  modal_active :: bool
  checked :: "string \<Rightarrow> bool"
  alerts :: "string list"

definition default_profileData :: jsval where
  "default_profileData =
     JObj [(''fullName'', JStr ''Debbie Meyers''),
           (''email'', JStr ''debbie@meyers.com''),
           (''location'', JStr ''San Jose, California''),
           (''bio'', JStr (''Learning to invest in tech stocks while balancing my day job. ''
              @ ''Interested in AI and emerging technologies, and exploring how to grow my ''
              @ ''savings through smart, long-term investments.'')),
           (''riskProfile'', JStr ''moderate''),
           (''stocks'', JArr
              [JObj [(''symbol'', JStr ''NVDA''), (''name'', JStr ''NVIDIA Corporation''),
                     (''reason'', JStr ''Leading AI chip manufacturer with strong growth potential''),
                     (''allocation'', JNum 30)],
               JObj [(''symbol'', JStr ''MSFT''), (''name'', JStr ''Microsoft Corporation''),
                     (''reason'', JStr ''Azure cloud growth and OpenAI integration''),
                     (''allocation'', JNum 25)],
               JObj [(''symbol'', JStr ''PLTR''), (''name'', JStr ''Palantir Technologies''),
                     (''reason'', JStr ''AI platform adoption and government contracts''),
                     (''allocation'', JNum 20)],
               JObj [(''symbol'', JStr ''GOOGL''), (''name'', JStr ''Alphabet Inc.''),
                     (''reason'', JStr ''Search dominance and AI innovation''),
                     (''allocation'', JNum 15)],
               JObj [(''symbol'', JStr ''TSLA''), (''name'', JStr ''Tesla Inc.''),
                     (''reason'', JStr ''EV market leader with autonomous driving tech''),
                     (''allocation'', JNum 10)]])]"

text \<open>
  The page when the script starts: the two variables have their initial values,
  no listener is registered yet.
\<close>

definition script_start :: "profile_page \<Rightarrow> profile_page" where
  "script_start st =
     st\<lparr>isEditMode := False, profileData := default_profileData, ready := False,
        listeners := {}\<rparr>"

text \<open>
  What an element holds after a value is assigned to its \<open>textContent\<close>, and
  an input after a value is assigned to its \<open>value\<close>: \<open>null\<close> gives the empty
  string, for \<open>textContent\<close> also \<open>undefined\<close>; any other value gives its
  string.
\<close>

definition text_string :: "num_render \<Rightarrow> jsval \<Rightarrow> string" where
  "text_string fmt v = (if v = JNull \<or> v = JUndefined then [] else to_string fmt v)"

definition value_string :: "num_render \<Rightarrow> jsval \<Rightarrow> string" where
  "value_string fmt v = (if v = JNull then [] else to_string fmt v)"

definition to_upper :: "string \<Rightarrow> string" where
  "to_upper s =
     map (\<lambda>c. if 97 \<le> (of_char c :: nat) \<and> (of_char c :: nat) \<le> 122
               then char_of ((of_char c :: nat) - 32) else c) s"

section \<open>Storage and display\<close>

text \<open>The text that \<open>setItem\<close> stores for the result of \<open>JSON.stringify\<close>.\<close>

definition stored :: "num_render \<Rightarrow> jsval \<Rightarrow> string" where
  "stored fmt v = (case stringify fmt v of None \<Rightarrow> ''undefined'' | Some s \<Rightarrow> s)"

definition saveProfileData :: "num_render \<Rightarrow> profile_page \<Rightarrow> profile_page" where
  "saveProfileData fmt st =
     st\<lparr>localStorage := (localStorage st)(''profileData'' \<mapsto> stored fmt (profileData st))\<rparr>"

definition risk_details :: "(string \<times> risk_detail) list" where
  "risk_details =
     [(''conservative'', \<lparr>tolerance = ''Conservative'', horizon = ''10+ years'',
                           sectors = ''Utilities, Bonds, Dividend Stocks''\<rparr>),
      (''moderate'', \<lparr>tolerance = ''Moderate'', horizon = ''5-10 years'',
                       sectors = ''Technology, AI, Food Tech''\<rparr>),
      (''aggressive'', \<lparr>tolerance = ''Aggressive'', horizon = ''3-5 years'',
                         sectors = ''Crypto, Startups, High-Growth Tech''\<rparr>)]"

definition show_detail :: "risk_detail \<Rightarrow> profile_page \<Rightarrow> profile_page" where
  "show_detail detail st =
     st\<lparr>textContent_of := (textContent_of st)
          (''riskTolerance'' := tolerance detail,
           ''investmentHorizon'' := horizon detail,
           ''preferredSectors'' := sectors detail)\<rparr>"

definition updateRiskDetails :: "num_render \<Rightarrow> jsval \<Rightarrow> profile_page proc" where
  "updateRiskDetails fmt risk =
     proc_read
       (\<lambda>st. case map_of risk_details (to_string fmt risk) of
                None \<Rightarrow> Throw TypeError
              | Some detail \<Rightarrow> Return detail)
       (\<lambda>detail. proc_do (show_detail detail))"

definition render_card :: "num_render \<Rightarrow> jsval \<Rightarrow> stock_card js_result" where
  "render_card fmt stock =
     bind_result (get_prop stock ''symbol'') (\<lambda>symbol.
     bind_result (get_prop stock ''name'') (\<lambda>name.
     bind_result (get_prop stock ''reason'') (\<lambda>reason.
     bind_result (get_prop stock ''allocation'') (\<lambda>allocation.
       Return \<lparr>card_symbol = to_string fmt symbol, card_name = to_string fmt name,
               card_reason = to_string fmt reason,
               card_allocation = to_string fmt allocation @ ''%''\<rparr>))))"

definition stocks_of :: "jsval \<Rightarrow> jsval list js_result" where
  "stocks_of p =
     bind_result (get_prop p ''stocks'') (\<lambda>stocks.
       case stocks of JArr xs \<Rightarrow> Return xs | _ \<Rightarrow> Throw TypeError)"

definition renderStocks :: "num_render \<Rightarrow> profile_page proc" where
  "renderStocks fmt =
     proc_read
       (\<lambda>st. bind_result (stocks_of (profileData st)) (map_result (render_card fmt)))
       (\<lambda>cards. proc_do (\<lambda>st. st\<lparr>stocksGrid := cards\<rparr>))"

definition mark_risk :: "jsval \<Rightarrow> profile_page \<Rightarrow> profile_page" where
  "mark_risk risk st = st\<lparr>active_options := map (\<lambda>r. JStr r = risk) (risk_options st)\<rparr>"

definition show_fields ::
  "num_render \<Rightarrow> jsval \<times> jsval \<times> jsval \<times> jsval \<Rightarrow> profile_page \<Rightarrow> profile_page" where
  "show_fields fmt texts st =
     (case texts of (fullName, email, location, bio) \<Rightarrow>
        st\<lparr>textContent_of := (textContent_of st)
             (''fullName'' := text_string fmt fullName,
              ''email'' := text_string fmt email,
              ''location'' := text_string fmt location,
              ''bio'' := text_string fmt bio,
              ''profileName'' := text_string fmt fullName),
           value_of := (value_of st)
             (''fullNameInput'' := value_string fmt fullName,
              ''emailInput'' := value_string fmt email,
              ''locationInput'' := value_string fmt location,
              ''bioInput'' := value_string fmt bio)\<rparr>)"

definition updateProfileDisplay :: "num_render \<Rightarrow> profile_page proc" where
  "updateProfileDisplay fmt =
     proc_read
       (\<lambda>st. bind_result (get_prop (profileData st) ''fullName'') (\<lambda>fullName.
              bind_result (get_prop (profileData st) ''email'') (\<lambda>email.
              bind_result (get_prop (profileData st) ''location'') (\<lambda>location.
              bind_result (get_prop (profileData st) ''bio'') (\<lambda>bio.
              bind_result (get_prop (profileData st) ''riskProfile'') (\<lambda>risk.
                Return ((fullName, email, location, bio), risk)))))))
       (\<lambda>(texts, risk).
          proc_seq (proc_do (\<lambda>st. mark_risk risk (show_fields fmt texts st)))
            (proc_seq (updateRiskDetails fmt risk) (renderStocks fmt)))"

definition loadProfileData ::
  "num_render \<Rightarrow> (string \<Rightarrow> jsval js_result) \<Rightarrow> profile_page proc" where
  "loadProfileData fmt parse st =
     (case localStorage st ''profileData'' of
        None \<Rightarrow> (None, st)
      | Some saved \<Rightarrow>
          if saved = [] then (None, st)
          else proc_read (\<lambda>st. parse saved)
                 (\<lambda>v. proc_seq (proc_do (\<lambda>st. st\<lparr>profileData := v\<rparr>))
                         (updateProfileDisplay fmt)) st)"

section \<open>Stocks\<close>

definition assign :: "string \<Rightarrow> jsval \<Rightarrow> profile_page proc" where
  "assign name x =
     proc_read (\<lambda>st. set_prop (profileData st) name x)
       (\<lambda>p. proc_do (\<lambda>st. st\<lparr>profileData := p\<rparr>))"

definition without_symbol :: "string \<Rightarrow> jsval list \<Rightarrow> jsval list js_result" where
  "without_symbol symbol xs =
     bind_result (map_result (\<lambda>s. get_prop s ''symbol'') xs) (\<lambda>symbols.
       Return (map fst (filter (\<lambda>(s, sym). sym \<noteq> JStr symbol) (zip xs symbols))))"

definition removeStock :: "num_render \<Rightarrow> bool \<Rightarrow> string \<Rightarrow> profile_page proc" where
  "removeStock fmt confirmed symbol =
     (if confirmed then
        proc_read (\<lambda>st. bind_result (stocks_of (profileData st)) (without_symbol symbol))
          (\<lambda>kept. proc_seq (assign ''stocks'' (JArr kept))
             (proc_seq (proc_do (saveProfileData fmt)) (renderStocks fmt)))
      else proc_do id)"

section \<open>Edit mode\<close>

definition showInputs :: "profile_page \<Rightarrow> profile_page" where
  "showInputs st = st\<lparr>inputs_shown := True\<rparr>"

definition hideInputs :: "profile_page \<Rightarrow> profile_page" where
  "hideInputs st = st\<lparr>inputs_shown := False\<rparr>"

definition edit_button :: "string \<Rightarrow> bool \<Rightarrow> profile_page \<Rightarrow> profile_page" where
  "edit_button text editing st =
     st\<lparr>textContent_of := (textContent_of st)(''editProfileBtn'' := text),
        edit_button_editing := editing\<rparr>"

definition toggleEditMode :: "num_render \<Rightarrow> profile_page proc" where
  "toggleEditMode fmt st =
     (let st1 = st\<lparr>isEditMode := \<not> isEditMode st\<rparr> in
      if isEditMode st1 then (None, showInputs (edit_button ''Save Profile'' True st1))
      else
        proc_seq (assign ''fullName'' (JStr (value_of st1 ''fullNameInput'')))
       (proc_seq (assign ''email'' (JStr (value_of st1 ''emailInput'')))
       (proc_seq (assign ''location'' (JStr (value_of st1 ''locationInput'')))
       (proc_seq (assign ''bio'' (JStr (value_of st1 ''bioInput'')))
       (proc_seq (proc_do (saveProfileData fmt))
       (proc_seq (updateProfileDisplay fmt)
          (proc_do (\<lambda>st. hideInputs (edit_button ''Edit Profile'' False st)))))))) st1)"

section \<open>Avatar\<close>

text \<open>
  \<open>file\<close> is the data URL that the reader makes of the chosen file, \<open>None\<close> when
  no file was chosen. The reader's \<open>onload\<close> runs at once: nothing else writes
  the image or the stored avatar, so the delay cannot be observed in the state.
\<close>

definition handleAvatarUpload :: "string option \<Rightarrow> profile_page \<Rightarrow> profile_page" where
  "handleAvatarUpload file st =
     (case file of
        None \<Rightarrow> st
      | Some dataUrl \<Rightarrow>
          st\<lparr>avatar_src := dataUrl,
             localStorage := (localStorage st)(''profileAvatar'' \<mapsto> dataUrl)\<rparr>)"

definition loadAvatar :: "profile_page \<Rightarrow> profile_page" where
  "loadAvatar st =
     (case localStorage st ''profileAvatar'' of
        None \<Rightarrow> st
      | Some savedAvatar \<Rightarrow> if savedAvatar = [] then st else st\<lparr>avatar_src := savedAvatar\<rparr>)"

section \<open>The modal and addStock\<close>

definition openModal :: "profile_page \<Rightarrow> profile_page" where
  "openModal st = st\<lparr>modal_active := True\<rparr>"

definition clearModalInputs :: "profile_page \<Rightarrow> profile_page" where
  "clearModalInputs st =
     st\<lparr>value_of := (value_of st)
          (''newStockSymbol'' := [], ''newStockName'' := [], ''newStockReason'' := [],
           ''newStockAllocation'' := [])\<rparr>"

definition closeModal :: "profile_page \<Rightarrow> profile_page" where
  "closeModal st = clearModalInputs (st\<lparr>modal_active := False\<rparr>)"

definition alert :: "string \<Rightarrow> profile_page \<Rightarrow> profile_page" where
  "alert message st = st\<lparr>alerts := alerts st @ [message]\<rparr>"

definition has_symbol :: "string \<Rightarrow> jsval list \<Rightarrow> bool js_result" where
  "has_symbol symbol xs =
     array_some (\<lambda>s. bind_result (get_prop s ''symbol'') (\<lambda>sym. Return (sym = JStr symbol))) xs"

definition stock_input :: "profile_page \<Rightarrow> string \<times> string \<times> string \<times> jsnum" where
  "stock_input st =
     (to_upper (trim (value_of st ''newStockSymbol'')),
      trim (value_of st ''newStockName''),
      trim (value_of st ''newStockReason''),
      parse_int (value_of st ''newStockAllocation''))"

definition new_stock :: "string \<times> string \<times> string \<times> jsnum \<Rightarrow> jsval" where
  "new_stock input =
     (case input of (symbol, name, reason, allocation) \<Rightarrow>
        JObj [(''symbol'', JStr symbol), (''name'', JStr name), (''reason'', JStr reason),
              (''allocation'', JNum allocation)])"

definition addStock :: "num_render \<Rightarrow> profile_page proc" where
  "addStock fmt st =
     (case stock_input st of (symbol, name, reason, allocation) \<Rightarrow>
        if symbol = [] \<or> name = [] \<or> reason = [] \<or> \<not> truthy (JNum allocation)
        then (None, alert ''Please fill in all fields'' st)
        else if js_lt allocation 0 \<or> js_gt allocation 100
        then (None, alert ''Allocation must be between 0 and 100'' st)
        else
          proc_read (\<lambda>st. bind_result (stocks_of (profileData st)) (\<lambda>xs.
                       bind_result (has_symbol symbol xs) (\<lambda>exists. Return (xs, exists))))
            (\<lambda>(xs, exists).
               if exists
               then proc_do (alert ''This stock is already in your preferred list'')
               else
                 proc_seq (assign ''stocks''
                             (JArr (xs @ [new_stock (symbol, name, reason, allocation)])))
                (proc_seq (proc_do (saveProfileData fmt))
                (proc_seq (renderStocks fmt) (proc_do closeModal)))) st)"

section \<open>Risk profile and preferences\<close>

definition handleRiskSelection :: "num_render \<Rightarrow> string \<Rightarrow> profile_page proc" where
  "handleRiskSelection fmt risk =
     proc_seq (assign ''riskProfile'' (JStr risk))
    (proc_seq (proc_do (saveProfileData fmt))
    (proc_seq (updateRiskDetails fmt (JStr risk)) (proc_do (mark_risk (JStr risk)))))"

definition preferences :: "string list" where
  "preferences = [''emailNotifications'', ''marketAlerts'', ''weeklyReports'']"

definition restore_preference :: "string \<Rightarrow> profile_page \<Rightarrow> profile_page" where
  "restore_preference pref st =
     (case localStorage st pref of
        None \<Rightarrow> st
      | Some saved \<Rightarrow> st\<lparr>checked := (checked st)(pref := (saved = ''true''))\<rparr>)"

definition setupPreferences :: "profile_page \<Rightarrow> profile_page" where
  "setupPreferences st = fold restore_preference preferences st"

definition preference_changed :: "string \<Rightarrow> profile_page \<Rightarrow> profile_page" where
  "preference_changed pref st =
     st\<lparr>localStorage := (localStorage st)
          (pref \<mapsto> (if checked st pref then ''true'' else ''false''))\<rparr>"

section \<open>The page: loading and events\<close>

definition profile_loaded ::
  "num_render \<Rightarrow> (string \<Rightarrow> jsval js_result) \<Rightarrow> profile_page proc" where
  "profile_loaded fmt parse =
     proc_seq (loadProfileData fmt parse)
       (proc_do (\<lambda>st. (setupNavScroll (setupMobileMenu (setupPreferences (loadAvatar st))))
                         \<lparr>ready := True\<rparr>))"

datatype profile_event =
  EditProfileClick
  | AvatarChange "string option"
  | RiskOptionClick nat
  | AddStockClick
  | CloseModalClick
  | ConfirmAddStockClick
  | ModalClick string
  | ModalKeypress string string
  | RemoveClick nat bool
  | PreferenceChange string
  | TypeInto string string
  | PageScroll jsnum
  | MenuButtonClick
  | LinkClicked

text \<open>
  What the page does on an event. The listeners that the handler of
  \<open>DOMContentLoaded\<close> registers run only when it has come to its end (\<open>ready\<close>);
  the remove buttons get theirs from \<open>renderStocks\<close>, together with the cards.
  \<open>TypeInto\<close> is the user typing into an input, \<open>PreferenceChange\<close> the user
  switching a toggle: the browser changes the element, then runs the listener.
\<close>

fun profile_handle :: "num_render \<Rightarrow> profile_event \<Rightarrow> profile_page proc" where
  "profile_handle fmt EditProfileClick st =
     (if ready st then toggleEditMode fmt st else (None, st))"
| "profile_handle fmt (AvatarChange file) st =
     (None, if ready st then handleAvatarUpload file st else st)"
| "profile_handle fmt (RiskOptionClick i) st =
     (if ready st \<and> i < length (risk_options st)
      then handleRiskSelection fmt (risk_options st ! i) st else (None, st))"
| "profile_handle fmt AddStockClick st = (None, if ready st then openModal st else st)"
| "profile_handle fmt CloseModalClick st = (None, if ready st then closeModal st else st)"
| "profile_handle fmt ConfirmAddStockClick st =
     (if ready st then addStock fmt st else (None, st))"
| "profile_handle fmt (ModalClick target) st =
     (None, if ready st \<and> target = ''addStockModal'' then closeModal st else st)"
| "profile_handle fmt (ModalKeypress key tagName) st =
     (if ready st \<and> key = ''Enter'' \<and> tagName \<noteq> ''TEXTAREA''
      then addStock fmt st else (None, st))"
| "profile_handle fmt (RemoveClick i confirmed) st =
     (if i < length (stocksGrid st)
      then removeStock fmt confirmed (card_symbol (stocksGrid st ! i)) st else (None, st))"
| "profile_handle fmt (PreferenceChange pref) st =
     (None, if pref \<in> set preferences
            then (let st1 = st\<lparr>checked := (checked st)(pref := \<not> checked st pref)\<rparr>
                  in if ready st then preference_changed pref st1 else st1)
            else st)"
| "profile_handle fmt (TypeInto input text) st =
     (None, st\<lparr>value_of := (value_of st)(input := text)\<rparr>)"
| "profile_handle fmt (PageScroll pageYOffset) st =
     when_registered ScrollEffect (scroll_effect pageYOffset) st"
| "profile_handle fmt MenuButtonClick st = when_registered MenuClick menu_toggle_click st"
| "profile_handle fmt LinkClicked st = when_registered LinkClick nav_link_click st"

definition profile_step :: "num_render \<Rightarrow> profile_event \<Rightarrow> profile_page \<Rightarrow> profile_page" where
  "profile_step fmt e st = snd (profile_handle fmt e st)"

definition profile_run ::
  "num_render \<Rightarrow> (string \<Rightarrow> jsval js_result) \<Rightarrow> profile_event list \<Rightarrow>
     profile_page \<Rightarrow> profile_page" where
  "profile_run fmt parse events st =
     fold (profile_step fmt) events (snd (profile_loaded fmt parse (script_start st)))"

end
