(* ===== verification/Profile_Correct.thy ===== *)
theory Profile_Correct
  imports Profile
begin

text \<open>
  What the profile page of theory \<open>Profile\<close> keeps true, and what its handlers
  do in a state where it holds.

  \<open>valid_profile\<close> is the form of \<open>profileData\<close> that the handlers rely on: an
  object whose \<open>stocks\<close> is an array of objects, each with a string as symbol
  and a whole number from 1 to 100 as allocation, no symbol twice, and whose
  \<open>riskProfile\<close> is one of the three levels that \<open>updateRiskDetails\<close> knows.
  \<open>profile_ok\<close> adds what the handlers need of the page: the risk options carry
  known levels, and a registered listener of the navigation bar has its
  elements. \<open>page_ok\<close> and \<open>storage_ok\<close> are the conditions on the page and on
  the storage when the script starts.

  In such a state every procedure of the script is a function of the state:
  the lemmas \<open>renderStocks_valid\<close>, \<open>updateProfileDisplay_valid\<close>,
  \<open>removeStock_valid\<close>, \<open>addStock_in_range\<close>, \<open>toggleEditMode_save\<close>,
  \<open>handleRiskSelection_known\<close> give it, in terms of \<open>displayed\<close>, \<open>with_stocks\<close>,
  \<open>edited\<close> and \<open>with_risk\<close>. \<open>profile_handle_ok_helper\<close> is the step of the
  invariant, \<open>profile_run_ok\<close> the invariant along every run. \<open>synced\<close> says
  that the storage holds the text of the current profile.
\<close>

definition known_risk :: "string \<Rightarrow> bool" where
  "known_risk r \<longleftrightarrow> r \<in> set (map fst risk_details)"

definition symbol_of :: "jsval \<Rightarrow> jsval" where
  "symbol_of s = prop_of s ''symbol''"

definition valid_allocation :: "jsval \<Rightarrow> bool" where
  "valid_allocation a =
     (case a of JNum (Fin q) \<Rightarrow> is_integer q \<and> 1 \<le> q \<and> q \<le> 100 | _ \<Rightarrow> False)"

definition valid_stock :: "jsval \<Rightarrow> bool" where
  "valid_stock s =
     (case s of
        JObj ps \<Rightarrow> (case symbol_of s of JStr name \<Rightarrow> True | _ \<Rightarrow> False) \<and>
                    valid_allocation (prop_of s ''allocation'')
      | _ \<Rightarrow> False)"

definition valid_stocks :: "jsval \<Rightarrow> bool" where
  "valid_stocks v =
     (case v of JArr xs \<Rightarrow> list_all valid_stock xs \<and> distinct (map symbol_of xs) | _ \<Rightarrow> False)"

definition valid_profile :: "jsval \<Rightarrow> bool" where
  "valid_profile p =
     (case p of
        JObj ps \<Rightarrow> valid_stocks (prop_of p ''stocks'') \<and>
                    (case prop_of p ''riskProfile'' of JStr r \<Rightarrow> known_risk r | _ \<Rightarrow> False)
      | _ \<Rightarrow> False)"

definition profile_ok :: "profile_page \<Rightarrow> bool" where
  "profile_ok st \<longleftrightarrow>
     valid_profile (profileData st) \<and> list_all known_risk (risk_options st) \<and>
     (ScrollEffect \<in> listeners st \<longrightarrow> nav_scrolled st \<noteq> None) \<and>
     (MenuClick \<in> listeners st \<or> LinkClick \<in> listeners st \<longrightarrow>
        toggle_active st \<noteq> None \<and> links_active st \<noteq> None)"

definition stocks_list :: "jsval \<Rightarrow> jsval list" where
  "stocks_list p = (case prop_of p ''stocks'' of JArr xs \<Rightarrow> xs | _ \<Rightarrow> [])"

definition put :: "jsval \<Rightarrow> string \<Rightarrow> jsval \<Rightarrow> jsval" where
  "put p name x = (case p of JObj ps \<Rightarrow> JObj (AList.update name x ps) | _ \<Rightarrow> p)"

definition risk_of :: "jsval \<Rightarrow> string" where
  "risk_of p = (case prop_of p ''riskProfile'' of JStr r \<Rightarrow> r | _ \<Rightarrow> [])"

definition fields_of :: "jsval \<Rightarrow> jsval \<times> jsval \<times> jsval \<times> jsval" where
  "fields_of p =
     (prop_of p ''fullName'', prop_of p ''email'', prop_of p ''location'', prop_of p ''bio'')"

definition card_of :: "num_render \<Rightarrow> jsval \<Rightarrow> stock_card" where
  "card_of fmt s =
     \<lparr>card_symbol = to_string fmt (prop_of s ''symbol''),
      card_name = to_string fmt (prop_of s ''name''),
      card_reason = to_string fmt (prop_of s ''reason''),
      card_allocation = to_string fmt (prop_of s ''allocation'') @ ''%''\<rparr>"

definition displayed :: "num_render \<Rightarrow> profile_page \<Rightarrow> profile_page" where
  "displayed fmt st =
     (let p = profileData st in
        (show_detail (the (map_of risk_details (risk_of p)))
           (mark_risk (JStr (risk_of p)) (show_fields fmt (fields_of p) st)))
        \<lparr>stocksGrid := map (card_of fmt) (stocks_list p)\<rparr>)"

definition with_stocks :: "num_render \<Rightarrow> jsval list \<Rightarrow> profile_page \<Rightarrow> profile_page" where
  "with_stocks fmt xs st =
     (saveProfileData fmt (st\<lparr>profileData := put (profileData st) ''stocks'' (JArr xs)\<rparr>))
     \<lparr>stocksGrid := map (card_of fmt) xs\<rparr>"

definition edited :: "profile_page \<Rightarrow> jsval" where
  "edited st =
     put (put (put (put (profileData st) ''fullName'' (JStr (value_of st ''fullNameInput'')))
       ''email'' (JStr (value_of st ''emailInput'')))
       ''location'' (JStr (value_of st ''locationInput'')))
       ''bio'' (JStr (value_of st ''bioInput''))"

definition with_risk :: "num_render \<Rightarrow> string \<Rightarrow> profile_page \<Rightarrow> profile_page" where
  "with_risk fmt r st =
     saveProfileData fmt (st\<lparr>profileData := put (profileData st) ''riskProfile'' (JStr r)\<rparr>)"

definition set_up :: "profile_page \<Rightarrow> profile_page" where
  "set_up st = (setupNavScroll (setupMobileMenu (setupPreferences (loadAvatar st))))\<lparr>ready := True\<rparr>"

definition page_ok :: "profile_page \<Rightarrow> bool" where
  "page_ok st \<longleftrightarrow> nav_scrolled st \<noteq> None \<and> list_all known_risk (risk_options st)"

definition storage_ok :: "(string \<Rightarrow> jsval js_result) \<Rightarrow> profile_page \<Rightarrow> bool" where
  "storage_ok parse st =
     (case localStorage st ''profileData'' of
        None \<Rightarrow> True
      | Some saved \<Rightarrow>
          saved = [] \<or> (case parse saved of Inl e \<Rightarrow> False | Inr p \<Rightarrow> valid_profile p))"

definition synced :: "num_render \<Rightarrow> profile_page \<Rightarrow> bool" where
  "synced fmt st \<longleftrightarrow> localStorage st ''profileData'' = Some (stored fmt (profileData st))"

definition blank_profile :: profile_page where
  "blank_profile =
     \<lparr>nav_scrolled = Some False, toggle_active = Some False, links_active = Some False,
      listeners = {}, ready = False, isEditMode = False, profileData = JUndefined,
      localStorage = Map.empty, textContent_of = (\<lambda>_. []), value_of = (\<lambda>_. []),
      risk_options = [''conservative'', ''moderate'', ''aggressive''],
      active_options = [False, True, False], stocksGrid = [], edit_button_editing = False,
      inputs_shown = False, avatar_src = [], modal_active = False, checked = (\<lambda>_. False),
      alerts = []\<rparr>"

lemma valid_stockE:
  assumes "valid_stock s"
  obtains ps name q where "s = JObj ps" and "symbol_of s = JStr name"
    and "prop_of s ''allocation'' = JNum (Fin q)" and "is_integer q" and "1 \<le> q" and "q \<le> 100"
  using assms
  by (auto simp: valid_stock_def valid_allocation_def split: jsval.splits jsnum.splits)

lemma valid_profileE:
  assumes "valid_profile p"
  obtains ps xs r where "p = JObj ps" and "prop_of p ''stocks'' = JArr xs"
    and "list_all valid_stock xs" and "distinct (map symbol_of xs)"
    and "prop_of p ''riskProfile'' = JStr r" and "known_risk r"
  using assms by (auto simp: valid_profile_def valid_stocks_def split: jsval.splits)

lemma valid_profileI:
  assumes "prop_of (JObj ps) ''stocks'' = JArr xs"
    and "list_all valid_stock xs" and "distinct (map symbol_of xs)"
    and "prop_of (JObj ps) ''riskProfile'' = JStr r" and "known_risk r"
  shows "valid_profile (JObj ps)"
  using assms by (simp add: valid_profile_def valid_stocks_def)

lemma prop_of_update [simp]:
  "prop_of (JObj (AList.update name x ps)) name' =
     (if name' = name then x else prop_of (JObj ps) name')"
  by (simp add: prop_of_def get_prop_def update_conv')

lemma get_prop_JObj: "get_prop (JObj ps) name = Return (prop_of (JObj ps) name)"
  by (simp add: prop_of_def get_prop_def)

lemma stocks_of_valid:
  "prop_of (JObj ps) ''stocks'' = JArr xs \<Longrightarrow> stocks_of (JObj ps) = Return xs"
  by (simp add: stocks_of_def get_prop_JObj)

lemma render_card_valid: "valid_stock s \<Longrightarrow> render_card fmt s = Return (card_of fmt s)"
  by (erule valid_stockE) (simp add: render_card_def card_of_def get_prop_JObj)

lemma map_result_pure:
  "(\<And>x. x \<in> set xs \<Longrightarrow> f x = Return (g x)) \<Longrightarrow> map_result f xs = Return (map g xs)"
  by (induction xs) simp_all

lemma render_cards_valid:
  "list_all valid_stock xs \<Longrightarrow> map_result (render_card fmt) xs = Return (map (card_of fmt) xs)"
  by (rule map_result_pure) (simp add: render_card_valid list_all_iff)

lemma symbols_valid:
  "list_all valid_stock xs \<Longrightarrow>
     map_result (\<lambda>s. get_prop s ''symbol'') xs = Return (map symbol_of xs)"
  by (rule map_result_pure) (auto simp: list_all_iff symbol_of_def get_prop_JObj elim!: valid_stockE)

lemma filter_zip_map: "map fst (filter (\<lambda>(x, y). P y) (zip xs (map f xs))) = filter (\<lambda>x. P (f x)) xs"
  by (induction xs) simp_all

lemma without_symbol_valid:
  "list_all valid_stock xs \<Longrightarrow>
     without_symbol symbol xs = Return (filter (\<lambda>s. symbol_of s \<noteq> JStr symbol) xs)"
  by (simp add: without_symbol_def symbols_valid filter_zip_map)

lemma array_some_pure:
  "(\<And>x. x \<in> set xs \<Longrightarrow> f x = Return (P x)) \<Longrightarrow> array_some f xs = Return (\<exists>x \<in> set xs. P x)"
  by (induction xs) simp_all

lemma has_symbol_valid:
  "list_all valid_stock xs \<Longrightarrow>
     has_symbol symbol xs = Return (JStr symbol \<in> set (map symbol_of xs))"
  unfolding has_symbol_def
  by (subst array_some_pure [where P = "\<lambda>s. symbol_of s = JStr symbol"])
    (force simp: list_all_iff symbol_of_def get_prop_JObj elim!: valid_stockE)+


lemmas profile_pure_defs =
  show_detail_def show_fields_def mark_risk_def saveProfileData_def edit_button_def
  showInputs_def hideInputs_def openModal_def closeModal_def clearModalInputs_def alert_def
  handleAvatarUpload_def preference_changed_def

lemma known_risk_detail: "known_risk r \<Longrightarrow> \<exists>d. map_of risk_details r = Some d"
  by (auto simp: known_risk_def risk_details_def)

lemma updateRiskDetails_known:
  "known_risk r \<Longrightarrow>
     updateRiskDetails fmt (JStr r) st = (None, show_detail (the (map_of risk_details r)) st)"
  by (drule known_risk_detail) (auto simp: updateRiskDetails_def proc_read_apply)

lemma updateRiskDetails_unknown:
  "\<not> known_risk r \<Longrightarrow> updateRiskDetails fmt (JStr r) st = (Some TypeError, st)"
  by (simp add: updateRiskDetails_def proc_read_apply known_risk_def map_of_eq_None_iff [THEN iffD2])

lemma stocks_list_valid: "valid_profile p \<Longrightarrow> prop_of p ''stocks'' = JArr (stocks_list p)"
  by (erule valid_profileE) (simp add: stocks_list_def)

lemma valid_profile_stocks:
  assumes "valid_profile p"
  shows "stocks_of p = Return (stocks_list p)" and "list_all valid_stock (stocks_list p)"
    and "distinct (map symbol_of (stocks_list p))"
  using assms by (auto elim!: valid_profileE simp: stocks_of_valid stocks_list_def)

lemma renderStocks_valid:
  "valid_profile (profileData st) \<Longrightarrow>
     renderStocks fmt st =
       (None, st\<lparr>stocksGrid := map (card_of fmt) (stocks_list (profileData st))\<rparr>)"
  by (simp add: renderStocks_def proc_read_apply valid_profile_stocks render_cards_valid)

lemma valid_profile_obj: "valid_profile p \<Longrightarrow> \<exists>ps. p = JObj ps"
  by (erule valid_profileE) simp

lemma assign_valid:
  "valid_profile (profileData st) \<Longrightarrow>
     assign name x st = (None, st\<lparr>profileData := put (profileData st) name x\<rparr>)"
  by (drule valid_profile_obj) (auto simp: assign_def proc_read_apply put_def)

lemma prop_of_put:
  "valid_profile p \<Longrightarrow>
     prop_of (put p name x) name' = (if name' = name then x else prop_of p name')"
  by (drule valid_profile_obj) (auto simp: put_def update_conv')

lemma valid_profile_put:
  assumes "valid_profile p" and "name \<noteq> ''stocks''" and "name \<noteq> ''riskProfile''"
  shows "valid_profile (put p name x)"
  using assms by (auto elim!: valid_profileE intro!: valid_profileI simp: put_def update_conv')

lemma valid_profile_put_risk:
  "valid_profile p \<Longrightarrow> known_risk r \<Longrightarrow> valid_profile (put p ''riskProfile'' (JStr r))"
  by (auto elim!: valid_profileE intro!: valid_profileI simp: put_def update_conv')

lemma valid_profile_put_stocks:
  "valid_profile p \<Longrightarrow> list_all valid_stock xs \<Longrightarrow> distinct (map symbol_of xs) \<Longrightarrow>
     valid_profile (put p ''stocks'' (JArr xs))"
  by (auto elim!: valid_profileE intro!: valid_profileI simp: put_def update_conv')

lemma stocks_list_put [simp]:
  "valid_profile p \<Longrightarrow> stocks_list (put p ''stocks'' (JArr xs)) = xs"
  by (simp add: stocks_list_def prop_of_put)

lemma risk_of_valid: "valid_profile p \<Longrightarrow> prop_of p ''riskProfile'' = JStr (risk_of p)"
  by (erule valid_profileE) (simp add: risk_of_def)

lemma known_risk_of: "valid_profile p \<Longrightarrow> known_risk (risk_of p)"
  by (erule valid_profileE) (simp add: risk_of_def)

lemma profile_pure_frame [simp]:
  "profileData (show_detail d st) = profileData st"
  "profileData (show_fields fmt texts st) = profileData st"
  "profileData (mark_risk r st) = profileData st"
  by (simp_all add: profile_pure_defs split_def)

lemma get_prop_valid: "valid_profile p \<Longrightarrow> get_prop p name = Return (prop_of p name)"
  by (auto dest!: valid_profile_obj simp: get_prop_def)

lemma updateProfileDisplay_valid:
  assumes "valid_profile (profileData st)"
  shows "updateProfileDisplay fmt st = (None, displayed fmt st)"
proof -
  have risk: "updateRiskDetails fmt (JStr (risk_of (profileData st))) s =
      (None, show_detail (the (map_of risk_details (risk_of (profileData st)))) s)" for s
    using assms by (simp add: updateRiskDetails_known known_risk_of)
  show ?thesis
    using assms risk_of_valid [OF assms]
    by (simp add: updateProfileDisplay_def proc_read_apply get_prop_valid risk
        proc_seq_apply renderStocks_valid displayed_def fields_of_def Let_def)
qed

lemma removeStock_valid:
  assumes "valid_profile (profileData st)"
  shows "removeStock fmt True symbol st =
     (None, with_stocks fmt
        (filter (\<lambda>s. symbol_of s \<noteq> JStr symbol) (stocks_list (profileData st))) st)"
proof -
  let ?xs = "filter (\<lambda>s. symbol_of s \<noteq> JStr symbol) (stocks_list (profileData st))"
  have "valid_profile (put (profileData st) ''stocks'' (JArr ?xs))"
    using assms valid_profile_stocks [OF assms] by (intro valid_profile_put_stocks)
      (auto simp: list_all_iff distinct_map_filter)
  then show ?thesis
    using assms
    by (simp add: removeStock_def proc_read_apply valid_profile_stocks without_symbol_valid
        assign_valid proc_seq_apply renderStocks_valid saveProfileData_def with_stocks_def)
qed

lemma removeStock_declined [simp]: "removeStock fmt False symbol st = (None, st)"
  by (simp add: removeStock_def)



section \<open>The invariant under the changes of the handlers\<close>

lemma profile_ok_pure [simp]:
  "profile_ok (show_detail d st) = profile_ok st"
  "profile_ok (show_fields fmt texts st) = profile_ok st"
  "profile_ok (mark_risk r st) = profile_ok st"
  "profile_ok (saveProfileData fmt st) = profile_ok st"
  "profile_ok (edit_button text b st) = profile_ok st"
  "profile_ok (showInputs st) = profile_ok st"
  "profile_ok (hideInputs st) = profile_ok st"
  "profile_ok (openModal st) = profile_ok st"
  "profile_ok (closeModal st) = profile_ok st"
  "profile_ok (alert message st) = profile_ok st"
  "profile_ok (handleAvatarUpload file st) = profile_ok st"
  "profile_ok (preference_changed pref st) = profile_ok st"
  by (simp_all add: profile_ok_def profile_pure_defs split_def split: option.split)

lemma profile_ok_fields [simp]:
  "profile_ok (st\<lparr>stocksGrid := g\<rparr>) = profile_ok st"
  "profile_ok (st\<lparr>isEditMode := b\<rparr>) = profile_ok st"
  "profile_ok (st\<lparr>value_of := v\<rparr>) = profile_ok st"
  "profile_ok (st\<lparr>checked := c\<rparr>) = profile_ok st"
  "profile_ok (st\<lparr>ready := b\<rparr>) = profile_ok st"
  by (simp_all add: profile_ok_def)

lemma profile_ok_valid: "profile_ok st \<Longrightarrow> valid_profile (profileData st)"
  by (simp add: profile_ok_def)

lemma profile_ok_profileData:
  "profile_ok st \<Longrightarrow> valid_profile p \<Longrightarrow> profile_ok (st\<lparr>profileData := p\<rparr>)"
  by (simp add: profile_ok_def)

lemma profile_ok_displayed [simp]: "profile_ok (displayed fmt st) = profile_ok st"
  by (simp add: displayed_def Let_def)

lemma profile_ok_with_stocks:
  "profile_ok st \<Longrightarrow> list_all valid_stock xs \<Longrightarrow> distinct (map symbol_of xs) \<Longrightarrow>
     profile_ok (with_stocks fmt xs st)"
  by (simp add: with_stocks_def profile_ok_profileData valid_profile_put_stocks profile_ok_valid)

lemma valid_profile_edited: "valid_profile (profileData st) \<Longrightarrow> valid_profile (edited st)"
  by (simp add: edited_def valid_profile_put)

section \<open>The handlers in a well-formed state\<close>

lemma parse_int_cases: "parse_int s = NaN \<or> (\<exists>n. parse_int s = Fin (of_int n))"
  by (simp add: parse_int_def Let_def)

lemma valid_new_stock:
  assumes "n \<noteq> 0" and "0 \<le> n" and "n \<le> 100"
  shows "valid_stock (new_stock (symbol, name, reason, Fin (of_int n)))"
  using assms
  by (simp add: valid_stock_def new_stock_def symbol_of_def valid_allocation_def is_integer_def)

lemma symbol_of_new_stock [simp]: "symbol_of (new_stock (symbol, name, reason, a)) = JStr symbol"
  by (simp add: new_stock_def symbol_of_def)

lemma addStock_incomplete:
  assumes "stock_input st = (symbol, name, reason, a)"
    and "symbol = [] \<or> name = [] \<or> reason = [] \<or> a = NaN \<or> a = Fin 0"
  shows "addStock fmt st = (None, alert ''Please fill in all fields'' st)"
  using assms by (auto simp: addStock_def)

lemma addStock_out_of_range:
  assumes "stock_input st = (symbol, name, reason, a)"
    and "symbol \<noteq> []" and "name \<noteq> []" and "reason \<noteq> []" and "js_lt a 0 \<or> js_gt a 100"
  shows "addStock fmt st = (None, alert ''Allocation must be between 0 and 100'' st)"
  using assms by (cases a) (auto simp: addStock_def js_gt_def)

lemma addStock_in_range:
  assumes "valid_profile (profileData st)"
    and "stock_input st = (symbol, name, reason, Fin (of_int n))"
    and "symbol \<noteq> []" and "name \<noteq> []" and "reason \<noteq> []"
    and "n \<noteq> 0" and "0 \<le> n" and "n \<le> 100"
  shows "addStock fmt st =
     (if JStr symbol \<in> set (map symbol_of (stocks_list (profileData st)))
      then (None, alert ''This stock is already in your preferred list'' st)
      else (None, closeModal (with_stocks fmt
              (stocks_list (profileData st) @ [new_stock (symbol, name, reason, Fin (of_int n))])
              st)))"
proof (cases "JStr symbol \<in> set (map symbol_of (stocks_list (profileData st)))")
  case True
  with assms show ?thesis
    by (simp add: addStock_def js_gt_def proc_read_apply valid_profile_stocks has_symbol_valid)
next
  case False
  let ?xs = "stocks_list (profileData st) @ [new_stock (symbol, name, reason, Fin (of_int n))]"
  have "valid_profile (put (profileData st) ''stocks'' (JArr ?xs))"
    using assms False valid_profile_stocks [OF assms(1)]
    by (intro valid_profile_put_stocks) (simp_all add: valid_new_stock)
  with assms False show ?thesis
    by (simp add: addStock_def js_gt_def proc_read_apply valid_profile_stocks has_symbol_valid
        assign_valid proc_seq_apply renderStocks_valid saveProfileData_def with_stocks_def)
qed

lemma addStock_ok:
  assumes "profile_ok st"
  shows "fst (addStock fmt st) = None \<and> profile_ok (snd (addStock fmt st))"
proof -
  obtain symbol name reason a where input: "stock_input st = (symbol, name, reason, a)"
    by (cases "stock_input st") auto
  have a: "a = parse_int (value_of st ''newStockAllocation'')"
    using input by (simp add: stock_input_def)
  note valid = profile_ok_valid [OF assms]
  consider (incomplete) "symbol = [] \<or> name = [] \<or> reason = [] \<or> a = NaN \<or> a = Fin 0"
    | (range) "symbol \<noteq> []" "name \<noteq> []" "reason \<noteq> []" "js_lt a 0 \<or> js_gt a 100"
    | (ok) n where "symbol \<noteq> []" "name \<noteq> []" "reason \<noteq> []" "a = Fin (of_int n)"
        "n \<noteq> 0" "0 \<le> n" "n \<le> 100"
    using parse_int_cases [of "value_of st ''newStockAllocation''"]
    by (auto simp: a [symmetric] js_gt_def) force
  then show ?thesis
  proof cases
    case incomplete
    with input assms show ?thesis by (simp add: addStock_incomplete)
  next
    case range
    with input assms show ?thesis by (simp add: addStock_out_of_range)
  next
    case ok
    with input assms valid valid_profile_stocks [OF valid] show ?thesis
      by (simp add: addStock_in_range profile_ok_with_stocks valid_new_stock)
  qed
qed

lemma removeStock_ok:
  assumes "profile_ok st"
  shows "fst (removeStock fmt confirmed symbol st) = None \<and>
    profile_ok (snd (removeStock fmt confirmed symbol st))"
  using assms valid_profile_stocks [OF profile_ok_valid [OF assms]]
  by (cases confirmed)
    (auto simp: removeStock_valid profile_ok_valid list_all_iff distinct_map_filter
      intro!: profile_ok_with_stocks)

lemma toggleEditMode_edit:
  "\<not> isEditMode st \<Longrightarrow>
     toggleEditMode fmt st =
       (None, showInputs (edit_button ''Save Profile'' True (st\<lparr>isEditMode := True\<rparr>)))"
  by (simp add: toggleEditMode_def)

lemma toggleEditMode_save:
  assumes "isEditMode st" and "valid_profile (profileData st)"
  shows "toggleEditMode fmt st =
     (None, hideInputs (edit_button ''Edit Profile'' False
        (displayed fmt (saveProfileData fmt
           (st\<lparr>isEditMode := False, profileData := edited st\<rparr>)))))"
  using assms valid_profile_edited [OF assms(2)]
  by (simp add: toggleEditMode_def proc_seq_apply assign_valid valid_profile_put
      updateProfileDisplay_valid saveProfileData_def edited_def)

lemma toggleEditMode_ok:
  assumes "profile_ok st"
  shows "fst (toggleEditMode fmt st) = None \<and> profile_ok (snd (toggleEditMode fmt st))"
  using assms
  by (cases "isEditMode st")
    (simp_all add: toggleEditMode_edit toggleEditMode_save profile_ok_valid
      profile_ok_profileData valid_profile_edited)

lemma handleRiskSelection_known:
  assumes "valid_profile (profileData st)" and "known_risk r"
  shows "handleRiskSelection fmt r st =
     (None, mark_risk (JStr r) (show_detail (the (map_of risk_details r)) (with_risk fmt r st)))"
  using assms
  by (simp add: handleRiskSelection_def proc_seq_apply assign_valid updateRiskDetails_known
      with_risk_def)

lemma handleRiskSelection_unknown:
  assumes "valid_profile (profileData st)" and "\<not> known_risk r"
  shows "handleRiskSelection fmt r st = (Some TypeError, with_risk fmt r st)"
  using assms
  by (simp add: handleRiskSelection_def proc_seq_apply assign_valid updateRiskDetails_unknown
      with_risk_def)

lemma handleRiskSelection_ok:
  assumes "profile_ok st" and "known_risk r"
  shows "fst (handleRiskSelection fmt r st) = None \<and>
    profile_ok (snd (handleRiskSelection fmt r st))"
  using assms
  by (simp add: handleRiskSelection_known profile_ok_valid with_risk_def profile_ok_profileData
      valid_profile_put_risk)

lemma nav_ok:
  assumes "profile_ok st"
  shows "fst (when_registered ScrollEffect (scroll_effect y) st) = None"
    and "profile_ok (snd (when_registered ScrollEffect (scroll_effect y) st))"
    and "fst (when_registered MenuClick menu_toggle_click st) = None"
    and "profile_ok (snd (when_registered MenuClick menu_toggle_click st))"
    and "fst (when_registered LinkClick nav_link_click st) = None"
    and "profile_ok (snd (when_registered LinkClick nav_link_click st))"
  using assms by (auto simp: profile_ok_def nav_defs)

lemma profile_handle_ok_helper:
  assumes "profile_ok st"
  shows "fst (profile_handle fmt e st) = None \<and> profile_ok (snd (profile_handle fmt e st))"
proof (cases e)
  case (RiskOptionClick i)
  have "known_risk (risk_options st ! i)" if "i < length (risk_options st)"
    using assms that by (simp add: profile_ok_def list_all_length)
  with RiskOptionClick assms show ?thesis
    by (simp add: handleRiskSelection_ok)
qed (use assms in \<open>simp_all add: toggleEditMode_ok addStock_ok removeStock_ok nav_ok Let_def\<close>)


section \<open>Loading the page\<close>

lemma valid_default: "valid_profile default_profileData"
  by (simp add: valid_profile_def valid_stocks_def valid_stock_def valid_allocation_def
      symbol_of_def is_integer_def known_risk_def risk_details_def default_profileData_def)

lemma loadProfileData_nothing:
  "localStorage st ''profileData'' = None \<or> localStorage st ''profileData'' = Some [] \<Longrightarrow>
     loadProfileData fmt parse st = (None, st)"
  by (auto simp: loadProfileData_def)

lemma loadProfileData_valid:
  assumes "localStorage st ''profileData'' = Some saved" and "saved \<noteq> []"
    and "parse saved = Return p" and "valid_profile p"
  shows "loadProfileData fmt parse st = (None, displayed fmt (st\<lparr>profileData := p\<rparr>))"
  using assms by (simp add: loadProfileData_def proc_read_apply updateProfileDisplay_valid)

lemma loadProfileData_throws:
  assumes "localStorage st ''profileData'' = Some saved" and "saved \<noteq> []"
    and "parse saved = Throw e"
  shows "loadProfileData fmt parse st = (Some e, st)"
  using assms by (simp add: loadProfileData_def proc_read_apply)

lemma fold_restore_frame:
  "profileData (fold restore_preference prefs st) = profileData st"
  "risk_options (fold restore_preference prefs st) = risk_options st"
  "listeners (fold restore_preference prefs st) = listeners st"
  "nav_scrolled (fold restore_preference prefs st) = nav_scrolled st"
  "toggle_active (fold restore_preference prefs st) = toggle_active st"
  "links_active (fold restore_preference prefs st) = links_active st"
  by (induction prefs arbitrary: st; simp add: restore_preference_def split: option.split)+

lemma fold_restore_grid:
  "stocksGrid (fold restore_preference prefs st) = stocksGrid st"
  by (induction prefs arbitrary: st) (simp_all add: restore_preference_def split: option.split)

lemma set_up_frame [simp]:
  "profileData (set_up st) = profileData st"
  "risk_options (set_up st) = risk_options st"
  "nav_scrolled (set_up st) = nav_scrolled st"
  "ready (set_up st)"
  by (simp_all add: set_up_def setupNavScroll_def setupMobileMenu_def setupPreferences_def
      fold_restore_frame loadAvatar_def register_def split: option.split)

lemma profile_ok_set_up:
  assumes "valid_profile (profileData st)" and "page_ok st" and "listeners st = {}"
  shows "profile_ok (set_up st)"
  using assms
  by (auto simp: profile_ok_def page_ok_def set_up_def setupNavScroll_def setupMobileMenu_def
      setupPreferences_def fold_restore_frame loadAvatar_def register_def split: option.split)

lemma profile_loaded_eq:
  "profile_loaded fmt parse st =
     (case loadProfileData fmt parse st of
        (None, st1) \<Rightarrow> (None, set_up st1) | (Some e, st1) \<Rightarrow> (Some e, st1))"
  by (simp add: profile_loaded_def proc_seq_apply set_up_def split: prod.split option.split)

lemma profile_loaded_throws:
  "fst (loadProfileData fmt parse st) = Some e \<Longrightarrow>
     profile_loaded fmt parse st = loadProfileData fmt parse st"
  by (cases "loadProfileData fmt parse st") (simp add: profile_loaded_eq)

lemma page_ok_frame [simp]:
  "page_ok (script_start st) = page_ok st"
  "page_ok (displayed fmt st) = page_ok st"
  "page_ok (st\<lparr>profileData := p\<rparr>) = page_ok st"
  by (simp_all add: page_ok_def script_start_def displayed_def profile_pure_defs split_def Let_def)

lemma listeners_displayed [simp]: "listeners (displayed fmt st) = listeners st"
  by (simp add: displayed_def profile_pure_defs split_def Let_def)

lemma profileData_displayed [simp]: "profileData (displayed fmt st) = profileData st"
  by (simp add: displayed_def profile_pure_defs split_def Let_def)

lemma profile_loaded_ok:
  assumes "page_ok st" and "storage_ok parse st"
  shows "fst (profile_loaded fmt parse (script_start st)) = None"
    and "profile_ok (snd (profile_loaded fmt parse (script_start st)))"
proof -
  let ?st = "script_start st"
  have start: "localStorage ?st = localStorage st" "profileData ?st = default_profileData"
    "listeners ?st = {}"
    by (simp_all add: script_start_def)
  consider (nothing) "localStorage ?st ''profileData'' = None \<or>
      localStorage ?st ''profileData'' = Some []"
    | (saved) saved p where "localStorage ?st ''profileData'' = Some saved" "saved \<noteq> []"
        "parse saved = Return p" "valid_profile p"
    using assms(2) by (auto simp: storage_ok_def start split: option.splits sum.splits)
  then have "fst (profile_loaded fmt parse ?st) = None \<and>
      profile_ok (snd (profile_loaded fmt parse ?st))"
  proof cases
    case nothing
    then show ?thesis
      using assms(1) by (simp add: profile_loaded_eq loadProfileData_nothing profile_ok_set_up
          start valid_default)
  next
    case saved
    then show ?thesis
      using assms(1) by (simp add: profile_loaded_eq loadProfileData_valid profile_ok_set_up start)
  qed
  then show "fst (profile_loaded fmt parse (script_start st)) = None"
    and "profile_ok (snd (profile_loaded fmt parse (script_start st)))"
    by simp_all
qed

lemma fold_profile_step_ok:
  "profile_ok st \<Longrightarrow> profile_ok (fold (profile_step fmt) events st)"
  by (induction events arbitrary: st) (simp_all add: profile_step_def profile_handle_ok_helper)

lemma profile_run_ok:
  "page_ok st \<Longrightarrow> storage_ok parse st \<Longrightarrow> profile_ok (profile_run fmt parse events st)"
  by (simp add: profile_run_def fold_profile_step_ok profile_loaded_ok)


section \<open>What is stored\<close>

lemma stored_obj: "stored fmt (JObj ps) \<noteq> []"
  by (simp add: stored_def)

lemma stored_valid: "valid_profile p \<Longrightarrow> stored fmt p \<noteq> []"
  by (auto dest!: valid_profile_obj simp: stored_obj)

lemma synced_with_stocks [simp]: "synced fmt (with_stocks fmt xs st)"
  by (simp add: synced_def with_stocks_def saveProfileData_def)

lemma synced_with_risk [simp]: "synced fmt (with_risk fmt r st)"
  by (simp add: synced_def with_risk_def saveProfileData_def)

lemma with_stocks_fields [simp]:
  "valid_profile (profileData st) \<Longrightarrow> stocks_list (profileData (with_stocks fmt xs st)) = xs"
  "stocksGrid (with_stocks fmt xs st) = map (card_of fmt) xs"
  by (simp_all add: with_stocks_def saveProfileData_def)

lemma closeModal_fields [simp]:
  "profileData (closeModal st) = profileData st"
  "localStorage (closeModal st) = localStorage st"
  "stocksGrid (closeModal st) = stocksGrid st"
  "\<not> modal_active (closeModal st)"
  "value_of (closeModal st) ''newStockSymbol'' = []"
  "value_of (closeModal st) ''newStockName'' = []"
  "value_of (closeModal st) ''newStockReason'' = []"
  "value_of (closeModal st) ''newStockAllocation'' = []"
  by (simp_all add: closeModal_def clearModalInputs_def)

lemma synced_closeModal [simp]: "synced fmt (closeModal st) = synced fmt st"
  by (simp add: synced_def)

lemma updateProfileDisplay_unknown_risk:
  assumes "valid_profile p" and "\<not> known_risk r"
    and "profileData st = put p ''riskProfile'' (JStr r)"
  shows "fst (updateProfileDisplay fmt st) = Some TypeError"
proof -
  from assms(1) obtain ps where "p = JObj ps"
    by (auto dest: valid_profile_obj)
  with assms(2,3) show ?thesis
    by (simp add: updateProfileDisplay_def proc_read_apply put_def get_prop_def update_conv'
        proc_seq_apply updateRiskDetails_unknown)
qed

lemma ready_frame [simp]:
  "ready (show_detail d st) = ready st"
  "ready (show_fields fmt texts st) = ready st"
  "ready (mark_risk r st) = ready st"
  by (simp_all add: profile_pure_defs split_def)

lemma updateProfileDisplay_ready: "ready (snd (updateProfileDisplay fmt st)) = ready st"
  by (auto simp: updateProfileDisplay_def updateRiskDetails_def renderStocks_def proc_read_apply
      proc_seq_apply split: sum.split option.split prod.split)

text \<open>
  Claim C11. On a page that has its navigation bar and whose risk options carry
  the three known risk levels, loaded with no stored profile or with a stored
  profile that is well formed, no handler ever throws: after every sequence of
  events, the handler of every next event runs to its end.
\<close>

theorem profile_run_never_throws:
  assumes "page_ok st" and "storage_ok parse st"
  shows "fst (profile_handle fmt e (profile_run fmt parse events st)) = None"
  using assms by (simp add: profile_run_ok profile_handle_ok_helper)

theorem profile_run_never_throws_witness:
  "fst (profile_handle (\<lambda>q. []) (RemoveClick 0 True)
     (profile_run (\<lambda>q. []) (\<lambda>s. Throw SyntaxError)
        [AddStockClick, TypeInto ''newStockSymbol'' ''amd'', ConfirmAddStockClick]
        blank_profile)) = None"
  by (rule profile_run_never_throws) (simp_all add: page_ok_def storage_ok_def blank_profile_def
      known_risk_def risk_details_def)

text \<open>
  Claim C15. Under the same conditions every stock of the profile has, after
  every sequence of events, an allocation that is a whole number from 1 to 100,
  and no two stocks have the same symbol.
\<close>

theorem profile_run_stocks_valid:
  assumes "page_ok st" and "storage_ok parse st"
  shows "list_all (\<lambda>s. valid_allocation (prop_of s ''allocation''))
      (stocks_list (profileData (profile_run fmt parse events st))) \<and>
    distinct (map symbol_of (stocks_list (profileData (profile_run fmt parse events st))))"
proof -
  have "valid_profile (profileData (profile_run fmt parse events st))"
    using assms by (simp add: profile_run_ok profile_ok_valid)
  from valid_profile_stocks(2,3) [OF this] show ?thesis
    by (auto simp: list_all_iff elim!: valid_stockE simp: valid_allocation_def)
qed

theorem profile_run_stocks_valid_witness:
  "distinct (map symbol_of (stocks_list (profileData
     (profile_run (\<lambda>q. []) (\<lambda>s. Throw SyntaxError)
        [TypeInto ''newStockSymbol'' ''nvda'', TypeInto ''newStockName'' ''NVIDIA'',
         TypeInto ''newStockReason'' ''again'', TypeInto ''newStockAllocation'' ''5'',
         ConfirmAddStockClick]
        blank_profile))))"
  by (rule profile_run_stocks_valid [THEN conjunct2]) (simp_all add: page_ok_def storage_ok_def
      blank_profile_def known_risk_def risk_details_def)

text \<open>
  Claim C12. \<open>addStock\<close> with a symbol, a name and a reason that are not blank,
  an allocation from 1 to 100 and a symbol that is not yet in the list appends
  the stock to the list, stores the profile, shows one card for each stock,
  closes the dialog and clears its inputs.
\<close>

theorem addStock_appends:
  assumes "valid_profile (profileData st)"
    and "stock_input st = (symbol, name, reason, Fin (of_int n))"
    and "symbol \<noteq> []" and "name \<noteq> []" and "reason \<noteq> []" and "1 \<le> n" and "n \<le> 100"
    and "JStr symbol \<notin> set (map symbol_of (stocks_list (profileData st)))"
    and "st' = snd (addStock fmt st)"
  shows "fst (addStock fmt st) = None \<and>
    stocks_list (profileData st') =
      stocks_list (profileData st) @ [new_stock (symbol, name, reason, Fin (of_int n))] \<and>
    synced fmt st' \<and>
    stocksGrid st' = map (card_of fmt) (stocks_list (profileData st')) \<and>
    \<not> modal_active st' \<and> value_of st' ''newStockSymbol'' = []"
  using assms by (simp add: addStock_in_range)

theorem addStock_appends_witness:
  "map (\<lambda>s. prop_of s ''allocation'')
     (stocks_list (profileData (snd (addStock (\<lambda>q. [])
        (blank_profile\<lparr>profileData := default_profileData,
           value_of := (\<lambda>_. [])(''newStockSymbol'' := ''amd'', ''newStockName'' := ''AMD'',
             ''newStockReason'' := ''chips'', ''newStockAllocation'' := ''50'')\<rparr>))))) =
   [JNum 30, JNum 25, JNum 20, JNum 15, JNum 10, JNum 50]"
proof -
  let ?st = "blank_profile\<lparr>profileData := default_profileData,
    value_of := (\<lambda>_. [])(''newStockSymbol'' := ''amd'', ''newStockName'' := ''AMD'',
      ''newStockReason'' := ''chips'', ''newStockAllocation'' := ''50'')\<rparr>"
  have upper: "to_upper ''amd'' = ''AMD''"
    by code_simp
  have input: "stock_input ?st = (''AMD'', ''AMD'', ''chips'', Fin (of_int 50))"
    by (simp add: stock_input_def upper parse_defs Let_def)
  have new: "JStr ''AMD'' \<notin> set (map symbol_of (stocks_list (profileData ?st)))"
    by (simp add: stocks_list_def default_profileData_def symbol_of_def)
  have "valid_profile (profileData ?st)"
    by (simp add: valid_default)
  from addStock_appends [OF this input _ _ _ _ _ new refl, where fmt = "\<lambda>q. []"]
  show ?thesis
    by (simp add: stocks_list_def default_profileData_def new_stock_def)
qed


text \<open>
  Claim C24. \<open>addStock\<close> with the allocation \<^verbatim>\<open>0\<close> is refused with the message
  for a missing field, whatever the other inputs are: the test \<open>!allocation\<close> of
  the validation holds for the number 0, so the range 0 to 100 that the second
  message names starts at 1 in effect. The state is unchanged apart from the
  alert.
\<close>

theorem addStock_zero_allocation:
  assumes "value_of st ''newStockAllocation'' = ''0''"
  shows "addStock fmt st = (None, alert ''Please fill in all fields'' st)"
proof -
  have "parse_int ''0'' = Fin 0"
    by (simp add: parse_defs Let_def)
  with assms show ?thesis
    by (simp add: addStock_def stock_input_def)
qed

theorem addStock_zero_allocation_witness:
  "addStock (\<lambda>q. [])
     (blank_profile\<lparr>value_of := (\<lambda>_. [])(''newStockSymbol'' := ''AMD'',
        ''newStockName'' := ''AMD'', ''newStockReason'' := ''chips'',
        ''newStockAllocation'' := ''0'')\<rparr>) =
   (None, alert ''Please fill in all fields''
     (blank_profile\<lparr>value_of := (\<lambda>_. [])(''newStockSymbol'' := ''AMD'',
        ''newStockName'' := ''AMD'', ''newStockReason'' := ''chips'',
        ''newStockAllocation'' := ''0'')\<rparr>))"
  by (rule addStock_zero_allocation) simp

text \<open>
  Claim C23. \<open>removeStock\<close>, when the user confirms, removes every stock with the
  given symbol and keeps the others in their order, stores the profile and
  shows one card for each stock that is left; when the user declines, nothing
  changes.
\<close>

theorem removeStock_removes:
  assumes "valid_profile (profileData st)" and "st' = snd (removeStock fmt True symbol st)"
  shows "fst (removeStock fmt True symbol st) = None \<and>
    stocks_list (profileData st') =
      filter (\<lambda>s. symbol_of s \<noteq> JStr symbol) (stocks_list (profileData st)) \<and>
    synced fmt st' \<and>
    stocksGrid st' = map (card_of fmt) (stocks_list (profileData st')) \<and>
    removeStock fmt False symbol st = (None, st)"
  using assms by (simp add: removeStock_valid)

theorem removeStock_removes_witness:
  "map symbol_of (stocks_list (profileData (snd (removeStock (\<lambda>q. []) True ''PLTR''
     (blank_profile\<lparr>profileData := default_profileData\<rparr>))))) =
   [JStr ''NVDA'', JStr ''MSFT'', JStr ''GOOGL'', JStr ''TSLA'']"
proof -
  have "valid_profile (profileData (blank_profile\<lparr>profileData := default_profileData\<rparr>))"
    by (simp add: valid_default)
  from removeStock_removes [OF this refl, where fmt = "\<lambda>q. []" and symbol = "''PLTR''"]
  show ?thesis
    by (simp add: stocks_list_def default_profileData_def symbol_of_def)
qed

text \<open>
  Claim C14. What the page stores it reads back: when the stored text is the
  one \<open>saveProfileData\<close> wrote for a well-formed profile, and \<open>JSON.parse\<close>
  gives that profile back for it, then loading the page again with this
  storage runs to its end, sets \<open>profileData\<close> to the profile, shows a card
  for each of its stocks, and registers the listeners.
\<close>

theorem reload_restores:
  assumes "synced fmt st" and "valid_profile (profileData st)" and "page_ok page"
    and "localStorage page = localStorage st"
    and "parse (stored fmt (profileData st)) = Return (profileData st)"
    and "page' = snd (profile_loaded fmt parse (script_start page))"
  shows "fst (profile_loaded fmt parse (script_start page)) = None \<and>
    profileData page' = profileData st \<and>
    stocksGrid page' = map (card_of fmt) (stocks_list (profileData st)) \<and> ready page'"
proof -
  have "localStorage (script_start page) ''profileData'' = Some (stored fmt (profileData st))"
    using assms(1,4) by (simp add: synced_def script_start_def)
  then have "loadProfileData fmt parse (script_start page) =
      (None, displayed fmt (script_start page\<lparr>profileData := profileData st\<rparr>))"
    using assms(2,5) by (intro loadProfileData_valid) (simp_all add: stored_valid)
  then have load: "profile_loaded fmt parse (script_start page) =
      (None, set_up (displayed fmt (script_start page\<lparr>profileData := profileData st\<rparr>)))"
    by (simp add: profile_loaded_eq)
  have "stocksGrid page' = map (card_of fmt) (stocks_list (profileData st))"
    unfolding assms(6) load
    by (simp add: set_up_def setupNavScroll_def setupMobileMenu_def setupPreferences_def
        fold_restore_grid loadAvatar_def register_def displayed_def profile_pure_defs
        split_def Let_def split: option.split)
  with assms(6) load show ?thesis
    by simp
qed

theorem reload_restores_witness:
  "profileData (snd (profile_loaded (\<lambda>q. []) (\<lambda>s. Return default_profileData)
     (script_start (saveProfileData (\<lambda>q. [])
        (blank_profile\<lparr>profileData := default_profileData\<rparr>))))) = default_profileData"
  using reload_restores [where fmt = "\<lambda>q. []" and parse = "\<lambda>s. Return default_profileData"
      and st = "saveProfileData (\<lambda>q. []) (blank_profile\<lparr>profileData := default_profileData\<rparr>)"
      and page = "saveProfileData (\<lambda>q. []) (blank_profile\<lparr>profileData := default_profileData\<rparr>)",
      OF _ _ _ refl _ refl]
  by (simp add: synced_def saveProfileData_def valid_default page_ok_def blank_profile_def
      known_risk_def risk_details_def)

text \<open>
  Claim C22. \<open>handleRiskSelection\<close> stores the selected risk level before
  \<open>updateRiskDetails\<close> looks it up. For a risk option whose level is none of
  the three known ones the handler throws a \<open>TypeError\<close>, and the profile with
  that level is already in the storage; the next time the page is loaded,
  \<open>loadProfileData\<close> throws the same error while it displays the stored
  profile, and the handler of \<open>DOMContentLoaded\<close> stops before it has
  registered any listener.
\<close>

theorem unknown_risk_breaks_reload:
  assumes "valid_profile (profileData st)" and "\<not> known_risk r"
    and "st' = snd (handleRiskSelection fmt r st)"
    and "localStorage page = localStorage st'"
    and "parse (stored fmt (profileData st')) = Return (profileData st')"
  shows "fst (handleRiskSelection fmt r st) = Some TypeError \<and> synced fmt st' \<and>
    fst (profile_loaded fmt parse (script_start page)) = Some TypeError \<and>
    \<not> ready (snd (profile_loaded fmt parse (script_start page)))"
proof -
  have st': "st' = with_risk fmt r st"
    and throws: "fst (handleRiskSelection fmt r st) = Some TypeError"
    using assms(1-3) by (simp_all add: handleRiskSelection_unknown)
  then have synced: "synced fmt st'"
    by simp
  have data: "profileData st' = put (profileData st) ''riskProfile'' (JStr r)"
    by (simp add: st' with_risk_def saveProfileData_def)
  have obj: "stored fmt (profileData st') \<noteq> []"
    using assms(1) by (auto dest!: valid_profile_obj simp: data put_def stored_obj)
  have "localStorage (script_start page) ''profileData'' = Some (stored fmt (profileData st'))"
    using assms(4) \<open>synced fmt st'\<close> by (simp add: synced_def script_start_def)
  then have "loadProfileData fmt parse (script_start page) =
      updateProfileDisplay fmt (script_start page\<lparr>profileData := profileData st'\<rparr>)"
    using obj assms(5) by (simp add: loadProfileData_def proc_read_apply)
  moreover have "fst (updateProfileDisplay fmt
      (script_start page\<lparr>profileData := profileData st'\<rparr>)) = Some TypeError"
    by (rule updateProfileDisplay_unknown_risk [OF assms(1,2)]) (simp add: data)
  moreover have "\<not> ready (snd (updateProfileDisplay fmt
      (script_start page\<lparr>profileData := profileData st'\<rparr>)))"
    by (simp add: updateProfileDisplay_ready script_start_def)
  ultimately show ?thesis
    using throws synced by (simp add: profile_loaded_throws)
qed

theorem unknown_risk_breaks_reload_witness:
  "fst (handleRiskSelection (\<lambda>q. []) ''balanced''
     (blank_profile\<lparr>profileData := default_profileData\<rparr>)) = Some TypeError"
  using unknown_risk_breaks_reload [where fmt = "\<lambda>q. []" and r = "''balanced''"
      and st = "blank_profile\<lparr>profileData := default_profileData\<rparr>"
      and parse = "\<lambda>s. Return (put default_profileData ''riskProfile'' (JStr ''balanced''))"
      and page = "snd (handleRiskSelection (\<lambda>q. []) ''balanced''
        (blank_profile\<lparr>profileData := default_profileData\<rparr>))", OF _ _ refl refl]
  by (simp add: valid_default known_risk_def risk_details_def handleRiskSelection_unknown
      with_risk_def saveProfileData_def)

end
