(* ===== verification/Spec2Isabelle.thy ===== *)
theory Spec2Isabelle
  imports Js_Prelude Js_Number Js_Text Js_Coerce Js_Date Data_Cache Mcp_Config Simulated_Data
    Notification Mcp_Tool Animate_Value Dashboard_Metrics Dashboard_Update Sparkline Nav_UI
    Profile Profile_Correct
begin

text \<open>
  A model of the three scripts of the personal website and the properties that
  hold of them.

  \<^bold>\<open>The program.\<close> \<^verbatim>\<open>src/dashboard-script.js\<close> drives the dashboard: it asks a
  backend for stock, news and employment data through \<open>callMCPTool\<close>, keeps the
  answers in a cache with a time to live (class \<open>DataCache\<close>), falls back on
  \<open>getSimulatedData\<close> when the backend fails, computes three figures from the
  payloads (\<open>updateMarketSentiment\<close>, \<open>updateDeveloperActivity\<close>,
  \<open>updatePortfolioPerformance\<close>), animates them (\<open>animateValue\<close>), reports with
  \<open>showNotification\<close>, and draws three charts (\<open>drawSparkline\<close>).
  \<^verbatim>\<open>src/profile.js\<close> drives the profile page: the profile is an object kept in
  \<open>localStorage\<close>, shown by \<open>updateProfileDisplay\<close> and \<open>renderStocks\<close> and
  changed by the handlers of the page (\<open>toggleEditMode\<close>, \<open>addStock\<close>,
  \<open>removeStock\<close>, \<open>handleRiskSelection\<close>, the preference switches, the avatar).
  \<^verbatim>\<open>src/script.js\<close> is the script of the home page: the navigation bar, the
  observer that fades sections in, and the parallax of the hero. All three
  scripts contain the same listeners of the navigation bar.

  \<^bold>\<open>The theories.\<close> Each theory opens with the conventions of its model.

  \<^item> \<open>Js_Prelude\<close>, \<open>Js_Number\<close>, \<open>Js_Text\<close>, \<open>Js_Coerce\<close>, \<open>Js_Date\<close>: the part of
    JavaScript the scripts use. Numbers are \<open>jsnum\<close> (an exact rational, \<open>NaN\<close>
    or an infinity), values are \<open>jsval\<close>, an exception is the left injection of
    the result type \<open>'a js_result\<close>, and a procedure that may throw after it has
    changed the state is a \<open>'st proc\<close>. Property access (\<open>get_prop\<close>, a
    \<open>TypeError\<close> on \<open>undefined\<close> and \<open>null\<close>), \<open>parseFloat\<close>, \<open>parseInt\<close>,
    \<open>toFixed\<close>, \<open>JSON.stringify\<close>, \<open>toISOString\<close> and the truth value of a
    value are functions that evaluate.
  \<^item> \<open>Mcp_Config\<close>: the constant \<open>MCP_CONFIG\<close> and the lookup of the cache
    duration (lines 4 to 23 and 91).
  \<^item> \<open>Data_Cache\<close>: the class \<open>DataCache\<close> (lines 26 to 54), the record
    \<open>DataCache\<close> and the methods \<open>DataCache_get\<close>, \<open>DataCache_set\<close>,
    \<open>DataCache_clear\<close>; the specification \<open>spec_get\<close>, \<open>spec_set\<close>, \<open>spec_clear\<close> of
    a store of deadlines, and the relation \<open>agree\<close> between the two.
  \<^item> \<open>Simulated_Data\<close>: \<open>getSimulatedData\<close> (lines 106 to 147).
  \<^item> \<open>Notification\<close>: \<open>showNotification\<close> and its two timeouts (lines 411 to 436).
  \<^item> \<open>Mcp_Tool\<close>: \<open>callMCPTool\<close> (lines 59 to 103) over the record \<open>dashboard\<close>,
    split at its \<open>await\<close> into \<open>callMCPTool_start\<close> and \<open>callMCPTool_resume\<close>.
  \<^item> \<open>Animate_Value\<close>: the record \<open>page\<close>, which extends \<open>dashboard\<close> by the
    elements of the document, and \<open>animateValue\<close> with the callback of its
    interval, \<open>interval_tick\<close> (lines 391 to 408).
  \<^item> \<open>Dashboard_Metrics\<close>: the update functions and \<open>updateLastUpdatedTime\<close>
    (lines 169 to 177 and 254 to 388).
  \<^item> \<open>Dashboard_Update\<close>: the record \<open>app\<close>, which extends \<open>page\<close> by the runs of
    \<open>updateDashboardData\<close> and the refresh button; \<open>updateDashboardData\<close> (lines
    209 to 251) as the steps \<open>updateDashboardData_start\<close>, \<open>on_response\<close> and
    \<open>run_continue\<close>; the handlers of the refresh button, the automatic refresh
    and the details buttons (lines 182 to 207 and 557 to 575); the datatype
    \<open>event\<close> with \<open>enabled\<close> and \<open>app_step\<close>, and the inductive predicate
    \<open>reachable\<close>.
  \<^item> \<open>Sparkline\<close>: \<open>drawSparkline\<close> and \<open>initializeCharts\<close> (lines 491 to 550) on
    the record \<open>canvas\<close>, whose field \<open>calls\<close> lists the calls on the context.
  \<^item> \<open>Nav_UI\<close>: the record \<open>nav_ui\<close> of the navigation bar with the listeners
    registered so far; the bodies of the listeners; the scripts that register
    them (\<open>script_load\<close> for \<^verbatim>\<open>src/script.js\<close>, \<open>dashboard_menu\<close> for lines 150 to
    166 of the dashboard, \<open>setupMobileMenu\<close> and \<open>setupNavScroll\<close> for the profile
    page); the record \<open>home_page\<close> and the events \<open>home_event\<close> of the home page;
    \<open>highlight_links\<close> (lines 595 to 612 of the dashboard).
  \<^item> \<open>Profile\<close>: the record \<open>profile_page\<close>, one procedure for each function of
    \<^verbatim>\<open>src/profile.js\<close>, under its name, and \<open>profile_handle\<close>, which maps an event
    of the page (\<open>profile_event\<close>) to the listener that \<open>DOMContentLoaded\<close> has
    registered for it. \<open>profile_run\<close> is the load of the page followed by a
    list of events.
  \<^item> \<open>Profile_Correct\<close>: the invariant of the profile page and the behaviour of
    its handlers where the invariant holds.
  \<^item> This theory: the invariants of the dashboard stated on the reachable states.

  \<^bold>\<open>State and effects.\<close> The state of a page is a record; the records of the
  dashboard extend each other (\<open>dashboard\<close>, \<open>page\<close>, \<open>app\<close>), as those of the
  navigation bar do (\<open>nav_ui\<close>, \<open>home_page\<close>, \<open>profile_page\<close>), and an operation is
  stated for every extension of the record it touches, so the lemmas of a part
  apply to the whole. A handler runs to its end before the next event; an
  \<open>async\<close> function is one step up to its \<open>await\<close> and one step from the settled
  promise on, and other events may come between the two. What the browser or
  the backend decides is a parameter of the step: the clock (\<open>now\<close>, one reading
  for each handler), the answer of \<open>fetch\<close> (\<open>fetch_outcome\<close>), the results of
  \<open>Math.random\<close> (\<open>rnd\<close>), the text \<open>toLocaleTimeString\<close> gives, the text of a
  number that is not a safe integer (\<open>fmt\<close>), \<open>JSON.parse\<close> (\<open>parse\<close>), the answer
  to \<open>confirm\<close>, and the data URL a \<open>FileReader\<close> delivers. Every theorem holds
  for all values of these parameters, unless it says what it assumes of them.

  \<^bold>\<open>What the lemmas show.\<close>

  \<^item> Cache: every branch of \<open>get\<close>, \<open>set\<close> and \<open>clear\<close>; a value set is read until
    its duration has passed and not after; an expired entry is deleted by the
    read that finds it; the cache refines the store of deadlines for every
    sequence of operations at times that do not decrease
    (\<open>DataCache_refines_spec\<close>), and a read changes nothing that a later read
    can see.
  \<^item> \<open>callMCPTool\<close>: when it throws and when it returns, on every branch; a
    second call within the duration is answered from the cache without a
    request; the fallback data is never cached; two calls that start before the
    first response both send a request; which payloads are never served from
    the cache; when two calls share a key.
  \<^item> \<open>getSimulatedData\<close>: exactly which arguments make it throw, and the shape
    of what it returns otherwise; on the arguments of each of the three calls
    of the dashboard it throws.
  \<^item> Figures: the range of the sentiment score, the values for empty lists of
    articles and of holdings, the sign written for a decrease.
  \<^item> \<open>animateValue\<close>: for a positive duration and different finite values the
    interval is cleared by tick number \<open>\<lceil>duration / 16\<rceil>\<close>, not earlier, and the
    element then shows the end value; for equal values it is never cleared.
  \<^item> The dashboard as a whole: \<open>app_inv\<close> holds in every reachable state
    (\<open>reachable_inv\<close>, by rule induction with one lemma for each handler): the
    cache holds only the keys of the three calls, each run that awaits has
    every call either waiting or fulfilled, identifiers of intervals are
    fresh, fading notifications come first.
  \<^item> Charts: for a series with two different finite values every point of
    the line lies in the canvas, between the margins of 10 at the top and at
    the bottom; for a flat series the ordinates are \<open>NaN\<close>.
  \<^item> Navigation: in every run of the home page the menu button and the list of
    links are open together or closed together; without a menu button the
    script stops before it registers the observer and the parallax.
  \<^item> Profile page: \<open>profile_ok\<close> holds after the load and after every event, so
    no handler throws and the symbols of the stocks stay distinct
    (\<open>profile_run_ok\<close>, by induction on the list of events); what \<open>addStock\<close>,
    \<open>removeStock\<close> and the save button do to the profile, the grid and the
    storage; a saved profile is read back by the next load of the page
    (\<open>reload_restores\<close>); the one way out of the invariant, a risk option with
    an unknown level, and what it does to later loads.

  \<^bold>\<open>Bounds.\<close> No function of the model takes fuel: every loop of the scripts is
  a traversal of a list (\<open>map\<close>, \<open>fold\<close>, \<open>filter\<close>) and every recursion of the
  model is structural. Runs of the pages are lists of events of any length. The
  one loop that may not end, the interval of \<open>animateValue\<close>, is the iteration
  \<open>interval_tick ^^ n\<close>; that it ends is proved with the number of ticks, and
  that it does not end is proved for every \<open>n\<close>. The cache of a reachable state
  has at most three entries because the dashboard makes three different calls.

  \<^bold>\<open>Idealisations.\<close> A finite number is the exact rational: there is no rounding
  to a double, no overflow to an infinity and no negative zero; the
  arithmetic of the scripts (percentages, means, sixteenths of a duration) is
  exact on the values the theorems use. A string is a list of characters below
  256. An object is its list of own properties; names inherited from
  \<open>Object.prototype\<close> are excluded where a lookup could find them
  (\<open>cacheDuration\<close>, \<open>getSimulatedData\<close>, \<open>updateRiskDetails\<close>). The elements the
  scripts look up by id exist, except those the scripts test for; the file
  reader delivers its result in the handler that started it; the storage never
  refuses a write. Of the markup a script writes into an element the model
  keeps the texts it shows.

  \<^bold>\<open>Not modelled.\<close>

  \<^item> Smooth scrolling (\<^verbatim>\<open>src/script.js\<close> lines 1 to 13, dashboard lines 577 to
    589): the listener only asks the browser to scroll an element into view;
    no state of the scripts changes.
  \<^item> The style sheets the scripts append (\<^verbatim>\<open>src/script.js\<close> lines 114 to 159,
    dashboard lines 438 to 488): constant text handed to the browser.
  \<^item> The typing effect of the home page (\<^verbatim>\<open>src/script.js\<close> lines 82 to 102): the
    statements that would run it are inside a comment.
  \<^item> Writes to the console (the messages at the end of each script, the
    logging in \<open>callMCPTool\<close> and \<open>updateDashboardData\<close>, the load-time message
    of the dashboard, lines 619 to 623).
  \<^item> The exchange with the backend: \<open>mcp_request\<close> is the request as
    \<open>callMCPTool\<close> builds it, the answer is a parameter of the event.
  \<^item> What the browser paints for the calls on a canvas, the layout that gives
    the offsets of the sections, and the animations of the style sheets.
  \<^item> The text of a number that is not a safe integer, the locale of
    \<open>toLocaleTimeString\<close>, and the grammar of \<open>JSON.parse\<close>: these are the
    parameters \<open>fmt\<close>, \<open>timeString\<close> and \<open>parse\<close>.
\<close>

section \<open>Every state the dashboard can reach\<close>

text \<open>
  Claim C6. In every state the dashboard page can reach, the cache holds at
  most three entries, one for each call of \<open>updateDashboardData\<close>, and each of
  them has the duration 60000: the durations of five minutes and of a day in
  the configuration are never used.
\<close>

theorem reachable_cache_bounded:
  assumes "reachable fmt st"
  shows "card (dom (cache (dataCache st))) \<le> 3
    \<and> (\<forall>k item. cache (dataCache st) k = Some item \<longrightarrow> duration item = 60000)"
proof -
  from assms have ok: "cache_ok fmt (dataCache st)"
    by (simp add: reachable_inv [unfolded app_inv_def])
  then have "dom (cache (dataCache st)) \<subseteq> call_key fmt ` {StockCall, NewsCall, EmploymentCall}"
    by (auto simp: cache_ok_def UNIV_call_id [symmetric])
  then have "card (dom (cache (dataCache st)))
      \<le> card (call_key fmt ` {StockCall, NewsCall, EmploymentCall})"
    by (intro card_mono) simp_all
  also have "\<dots> \<le> card {StockCall, NewsCall, EmploymentCall}"
    by (rule card_image_le) simp
  finally show ?thesis using ok by (simp add: cache_ok_def)
qed

theorem reachable_cache_bounded_witness:
  "card (dom (cache (dataCache waiting_app))) \<le> 3"
  using reachable_cache_bounded [OF reachable_waiting_app] by simp





end
